theory Spec2Isabelle
  imports Main "HOL-Library.Word"
begin

unbundle bit_operations_syntax

section \<open>Data model of the reader (prim-types.hh)\<close>

text \<open>
  The enumerations keep the order of the source.  \<open>SpecType\<close> values are written with
  the prefix the source's own messages use (\<open>SpecTypePseudoRoot\<close>), since \<open>Prim\<close>,
  \<open>Attribute\<close> and \<open>Connection\<close> also name other things in the reader.
\<close>

datatype SpecType =
    SpecTypeUnknown
  | SpecTypeAttribute
  | SpecTypeConnection
  | SpecTypeExpression
  | SpecTypeMapper
  | SpecTypeMapperArg
  | SpecTypePrim
  | SpecTypePseudoRoot
  | SpecTypeRelationship
  | SpecTypeRelationshipTarget
  | SpecTypeVariant
  | SpecTypeVariantSet
  | SpecTypeInvalid

datatype Kind =
  KindModel | KindGroup | KindAssembly | KindComponent | KindSubcomponent | KindSceneLibrary
  | KindInvalid

datatype Interpolation =
  InterpolationConstant | InterpolationUniform | InterpolationVarying | InterpolationVertex
  | InterpolationFaceVarying | InterpolationInvalid

datatype ListEditQual =
  ResetToExplicit | Append | Add | Delete | Prepend | Order | ListEditQualInvalid

datatype Axis = AxisX | AxisY | AxisZ | AxisInvalid

datatype Specifier = Def | Over | Class | SpecifierInvalid

datatype Variability = Varying | Uniform | Config | VariabilityInvalid

record StringData =
  sd_value :: string
  is_triple_quoted :: bool
  single_quote :: bool
  line_row :: int
  line_col :: int

record Path =
  prim_part :: string
  prop_part :: string
  valid :: bool

text \<open>\<open>ListOp<T>\<close>: the explicit flag and the six item vectors.\<close>

record 'a ListOp =
  is_explicit :: bool
  explicit_items :: "'a list"
  added_items :: "'a list"
  prepended_items :: "'a list"
  appended_items :: "'a list"
  deleted_items :: "'a list"
  ordered_items :: "'a list"

datatype APIName =
    MaterialBindingAPI
  | SkelBindingAPI
  | Preliminary_AnchoringAPI
  | Preliminary_PhysicsColliderAPI
  | Preliminary_PhysicsMaterialAPI
  | Preliminary_PhysicsRigidBodyAPI

record APISchemas =
  api_listOpQual :: ListEditQual
  api_names :: "(APIName \<times> string) list"

section \<open>Reads of a \<open>std::vector\<close> and the path tables\<close>

text \<open>
  \<open>operator[]\<close> of \<open>std::vector\<close> does not check its index: a read at or beyond
  \<open>size()\<close> has no defined result.  The model keeps that outcome apart from every
  value the function can return.
\<close>

datatype 'a cxx = Returns 'a | UndefinedBehaviour

definition vector_at :: "'a list \<Rightarrow> nat \<Rightarrow> 'a cxx" where
  "vector_at xs i = (if i < length xs then Returns (xs ! i) else UndefinedBehaviour)"

text \<open>
  \<open>GetPath\<close> and \<open>GetElemPath\<close> (usdc-reader.cc, lines 254 to 268): the guard is
  \<open>index.value <= size()\<close>, then \<open>_paths[index.value]\<close> is read.
\<close>

definition GetPath :: "Path list \<Rightarrow> 32 word \<Rightarrow> Path option cxx" where
  "GetPath paths index =
     (if unat index \<le> length paths then
        (case vector_at paths (unat index) of
           Returns p \<Rightarrow> Returns (Some p)
         | UndefinedBehaviour \<Rightarrow> UndefinedBehaviour)
      else Returns None)"

definition GetElemPath :: "Path list \<Rightarrow> 32 word \<Rightarrow> Path option cxx" where
  "GetElemPath elemPaths index =
     (if unat index \<le> length elemPaths then
        (case vector_at elemPaths (unat index) of
           Returns p \<Rightarrow> Returns (Some p)
         | UndefinedBehaviour \<Rightarrow> UndefinedBehaviour)
      else Returns None)"

section \<open>\<open>ToAPISchemas\<close>\<close>

definition SchemaHandler :: "string \<Rightarrow> APIName option" where
  "SchemaHandler tok =
     (if tok = ''MaterialBindingAPI'' then Some MaterialBindingAPI
      else if tok = ''SkelBindingAPI'' then Some SkelBindingAPI
      else if tok = ''Preliminary_AnchoringAPI'' then Some Preliminary_AnchoringAPI
      else if tok = ''Preliminary_PhysicsColliderAPI'' then Some Preliminary_PhysicsColliderAPI
      else if tok = ''Preliminary_PhysicsMaterialAPI'' then Some Preliminary_PhysicsMaterialAPI
      else if tok = ''Preliminary_PhysicsRigidBodyAPI'' then Some Preliminary_PhysicsRigidBodyAPI
      else None)"

text \<open>
  The loop every branch of \<open>ToAPISchemas\<close> runs over its bucket: each item is pushed
  with an empty instance name, and the first unknown token ends the function with an
  error.
\<close>

fun push_schema_names ::
  "string list \<Rightarrow> (APIName \<times> string) list \<Rightarrow> string + (APIName \<times> string) list" where
  "push_schema_names [] acc = Inr acc"
| "push_schema_names (item # items) acc =
     (case SchemaHandler item of
        Some pv \<Rightarrow> push_schema_names items (acc @ [(pv, '''')])
      | None \<Rightarrow> Inl (''Invalid or Unsupported API schema: '' @ item))"

definition schemas_of :: "ListEditQual \<Rightarrow> string list \<Rightarrow> string + APISchemas" where
  "schemas_of qual items =
     (case push_schema_names items [] of
        Inl e \<Rightarrow> Inl e
      | Inr ns \<Rightarrow> Inr \<lparr>api_listOpQual = qual, api_names = ns\<rparr>)"

definition different_qualifiers :: string where
  "different_qualifiers =
     ''Currently TinyUSDZ does not support ListOp with different ListEdit qualifiers.''"

definition ToAPISchemas :: "string ListOp \<Rightarrow> string + APISchemas" where
  "ToAPISchemas arg =
     (if is_explicit arg then schemas_of ResetToExplicit (explicit_items arg)
      else if explicit_items arg \<noteq> [] then
        (if added_items arg \<noteq> [] \<or> appended_items arg \<noteq> [] \<or> deleted_items arg \<noteq> []
            \<or> prepended_items arg \<noteq> [] \<or> ordered_items arg \<noteq> []
         then Inl different_qualifiers
         else schemas_of ResetToExplicit (explicit_items arg))
      else if added_items arg \<noteq> [] then
        (if explicit_items arg \<noteq> [] \<or> appended_items arg \<noteq> [] \<or> deleted_items arg \<noteq> []
            \<or> prepended_items arg \<noteq> [] \<or> ordered_items arg \<noteq> []
         then Inl different_qualifiers
         else schemas_of Add (added_items arg))
      else if appended_items arg \<noteq> [] then
        (if explicit_items arg \<noteq> [] \<or> added_items arg \<noteq> [] \<or> deleted_items arg \<noteq> []
            \<or> prepended_items arg \<noteq> [] \<or> ordered_items arg \<noteq> []
         then Inl different_qualifiers
         else schemas_of Append (appended_items arg))
      else if deleted_items arg \<noteq> [] then
        (if explicit_items arg \<noteq> [] \<or> added_items arg \<noteq> [] \<or> appended_items arg \<noteq> []
            \<or> prepended_items arg \<noteq> [] \<or> ordered_items arg \<noteq> []
         then Inl different_qualifiers
         else schemas_of Delete (deleted_items arg))
      else if prepended_items arg \<noteq> [] then
        (if explicit_items arg \<noteq> [] \<or> added_items arg \<noteq> [] \<or> appended_items arg \<noteq> []
            \<or> deleted_items arg \<noteq> [] \<or> ordered_items arg \<noteq> []
         then Inl different_qualifiers
         else schemas_of Prepend (prepended_items arg))
      else if ordered_items arg \<noteq> [] then
        (if explicit_items arg \<noteq> [] \<or> added_items arg \<noteq> [] \<or> appended_items arg \<noteq> []
            \<or> deleted_items arg \<noteq> [] \<or> prepended_items arg \<noteq> []
         then Inl different_qualifiers
         else Inl ''TODO: Ordered ListOp items.'')
      else Inl ''Internal error: ListOp conversion.'')"

text \<open>The six buckets of a list-op, and how many of them hold an item.\<close>

definition buckets :: "'a ListOp \<Rightarrow> 'a list list" where
  "buckets arg =
     [explicit_items arg, added_items arg, appended_items arg, deleted_items arg,
      prepended_items arg, ordered_items arg]"

definition nonempty_buckets :: "'a ListOp \<Rightarrow> nat" where
  "nonempty_buckets arg = length (filter (\<lambda>b. b \<noteq> []) (buckets arg))"

section \<open>Values of a fieldset\<close>

type_synonym half = "16 word"
type_synonym float = "32 word"
type_synonym double = "64 word"

text \<open>
  \<open>value::Value\<close> (and the \<open>crate::CrateValue\<close> around it) is a type-erased box
  whose declaration is in value-types.hh, outside the sources at hand.  The box is
  modelled as a tagged union over the types the reader asks for with
  \<open>get_value<T>\<close> or \<open>as<T>\<close>; floating-point payloads are kept as their bit
  patterns.  \<open>VEmpty\<close> is the default-constructed box, \<open>VOther\<close> any value of a type
  the reader never asks for, with its type name.
\<close>

datatype Value =
    VEmpty
  | VBool bool
  | VInt "32 word"
  | VHalf half
  | VHalf2 half half
  | VHalf3 half half half
  | VHalf4 half half half half
  | VFloat float
  | VFloat2 float float
  | VFloat3 float float float
  | VFloat4 float float float float
  | VDouble double
  | VDouble2 double double
  | VDouble3 double double double
  | VDouble4 double double double double
  | VToken string
  | VString string
  | VVariability Variability
  | VSpecifier Specifier
  | VTimeSamples "(double \<times> Value) list"
  | VListOpToken "string ListOp"
  | VListOpPath "Path ListOp"
  | VPathVector "Path list"
  | VTokenVector "string list"
  | VCustomData "(string \<times> Value) list"
  | VOther string

type_synonym TimeSamples = "(double \<times> Value) list"
type_synonym CustomDataType = "(string \<times> Value) list"
type_synonym FieldValuePairVector = "(string \<times> Value) list"

text \<open>
  Modelled from the spec: the \<open>TypeTrait<T>::type_name()\<close> strings of value-types.hh
  are missing; the scalar and vector names are the ones the spec writes (\<open>half3\<close>,
  \<open>float3\<close>).  The names of \<open>specifier\<close>, \<open>variability\<close>, \<open>ListOpToken\<close>,
  \<open>ListOpPath\<close>, \<open>PathVector\<close>, \<open>token[]\<close>, \<open>TimeSamples\<close> and \<open>customData\<close>
  are those of prim-types.hh.
\<close>

fun type_name :: "Value \<Rightarrow> string" where
  "type_name VEmpty = ''null''"
| "type_name (VBool _) = ''bool''"
| "type_name (VInt _) = ''int''"
| "type_name (VHalf _) = ''half''"
| "type_name (VHalf2 _ _) = ''half2''"
| "type_name (VHalf3 _ _ _) = ''half3''"
| "type_name (VHalf4 _ _ _ _) = ''half4''"
| "type_name (VFloat _) = ''float''"
| "type_name (VFloat2 _ _) = ''float2''"
| "type_name (VFloat3 _ _ _) = ''float3''"
| "type_name (VFloat4 _ _ _ _) = ''float4''"
| "type_name (VDouble _) = ''double''"
| "type_name (VDouble2 _ _) = ''double2''"
| "type_name (VDouble3 _ _ _) = ''double3''"
| "type_name (VDouble4 _ _ _ _) = ''double4''"
| "type_name (VToken _) = ''token''"
| "type_name (VString _) = ''string''"
| "type_name (VVariability _) = ''variability''"
| "type_name (VSpecifier _) = ''specifier''"
| "type_name (VTimeSamples _) = ''TimeSamples''"
| "type_name (VListOpToken _) = ''ListOpToken''"
| "type_name (VListOpPath _) = ''ListOpPath''"
| "type_name (VPathVector _) = ''PathVector''"
| "type_name (VTokenVector _) = ''token[]''"
| "type_name (VCustomData _) = ''customData''"
| "type_name (VOther n) = n"

text \<open>\<open>get_value<T>\<close>: the payload when the tag is \<open>T\<close>, nothing otherwise.\<close>

definition get_bool :: "Value \<Rightarrow> bool option" where
  "get_bool v = (case v of VBool b \<Rightarrow> Some b | _ \<Rightarrow> None)"

definition get_int :: "Value \<Rightarrow> 32 word option" where
  "get_int v = (case v of VInt i \<Rightarrow> Some i | _ \<Rightarrow> None)"

definition get_float :: "Value \<Rightarrow> float option" where
  "get_float v = (case v of VFloat f \<Rightarrow> Some f | _ \<Rightarrow> None)"

definition get_double :: "Value \<Rightarrow> double option" where
  "get_double v = (case v of VDouble d \<Rightarrow> Some d | _ \<Rightarrow> None)"

definition get_token :: "Value \<Rightarrow> string option" where
  "get_token v = (case v of VToken t \<Rightarrow> Some t | _ \<Rightarrow> None)"

definition get_string :: "Value \<Rightarrow> string option" where
  "get_string v = (case v of VString t \<Rightarrow> Some t | _ \<Rightarrow> None)"

definition get_Variability :: "Value \<Rightarrow> Variability option" where
  "get_Variability v = (case v of VVariability x \<Rightarrow> Some x | _ \<Rightarrow> None)"

definition get_Specifier :: "Value \<Rightarrow> Specifier option" where
  "get_Specifier v = (case v of VSpecifier x \<Rightarrow> Some x | _ \<Rightarrow> None)"

definition get_TimeSamples :: "Value \<Rightarrow> TimeSamples option" where
  "get_TimeSamples v = (case v of VTimeSamples x \<Rightarrow> Some x | _ \<Rightarrow> None)"

definition get_ListOpToken :: "Value \<Rightarrow> string ListOp option" where
  "get_ListOpToken v = (case v of VListOpToken x \<Rightarrow> Some x | _ \<Rightarrow> None)"

definition get_ListOpPath :: "Value \<Rightarrow> Path ListOp option" where
  "get_ListOpPath v = (case v of VListOpPath x \<Rightarrow> Some x | _ \<Rightarrow> None)"

definition get_PathVector :: "Value \<Rightarrow> Path list option" where
  "get_PathVector v = (case v of VPathVector x \<Rightarrow> Some x | _ \<Rightarrow> None)"

definition get_TokenVector :: "Value \<Rightarrow> string list option" where
  "get_TokenVector v = (case v of VTokenVector x \<Rightarrow> Some x | _ \<Rightarrow> None)"

definition get_CustomData :: "Value \<Rightarrow> CustomDataType option" where
  "get_CustomData v = (case v of VCustomData x \<Rightarrow> Some x | _ \<Rightarrow> None)"

section \<open>Attributes, relations and properties (prim-types.hh)\<close>

record AttrMeta =
  am_interpolation :: "Interpolation option"
  am_elementSize :: "32 word option"
  am_comment :: "StringData option"
  am_customData :: "CustomDataType option"
  am_meta :: "(string \<times> Value) list"
  am_stringData :: "StringData list"

definition AttrMeta_default :: AttrMeta where
  "AttrMeta_default =
     \<lparr>am_interpolation = None, am_elementSize = None, am_comment = None,
      am_customData = None, am_meta = [], am_stringData = []\<rparr>"

text \<open>
  Modelled from the spec: primvar.hh is missing; the spec's \<open>attr_value\<close> is either a
  scalar value or a time-sample series, and a fresh \<open>PrimVar\<close> holds neither.
\<close>

datatype PrimVar = PrimVarEmpty | PrimVarScalar Value | PrimVarTimeSamples TimeSamples

definition set_scalar :: "Value \<Rightarrow> PrimVar \<Rightarrow> PrimVar" where
  "set_scalar v var = PrimVarScalar v"

definition set_timesamples :: "TimeSamples \<Rightarrow> PrimVar \<Rightarrow> PrimVar" where
  "set_timesamples ts var = PrimVarTimeSamples ts"

datatype RelationType = RelEmpty | RelString | RelPath | RelPathVector

definition Path_default :: Path where
  "Path_default = \<lparr>prim_part = [], prop_part = [], valid = False\<rparr>"

record Relation =
  rel_type :: RelationType
  targetString :: string
  targetPath :: Path
  targetPathVector :: "Path list"
  rel_listOpQual :: ListEditQual
  rel_meta :: AttrMeta

definition Relation_default :: Relation where
  "Relation_default =
     \<lparr>rel_type = RelEmpty, targetString = [], targetPath = Path_default,
      targetPathVector = [], rel_listOpQual = ResetToExplicit, rel_meta = AttrMeta_default\<rparr>"

definition SetEmpty :: "Relation \<Rightarrow> Relation" where
  "SetEmpty r = r\<lparr>rel_type := RelEmpty\<rparr>"

definition Set_Path :: "Path \<Rightarrow> Relation \<Rightarrow> Relation" where
  "Set_Path p r = r\<lparr>targetPath := p, rel_type := RelPath\<rparr>"

definition Set_PathVector :: "Path list \<Rightarrow> Relation \<Rightarrow> Relation" where
  "Set_PathVector pv r = r\<lparr>targetPathVector := pv, rel_type := RelPathVector\<rparr>"

definition SetListEditQualifier :: "ListEditQual \<Rightarrow> Relation \<Rightarrow> Relation" where
  "SetListEditQualifier q r = r\<lparr>rel_listOpQual := q\<rparr>"

record PrimAttrib =
  pa_name :: string
  pa_variability :: Variability
  pa_meta :: AttrMeta
  pa_blocked :: bool
  pa_type_name :: string
  pa_var :: PrimVar

definition PrimAttrib_default :: PrimAttrib where
  "PrimAttrib_default =
     \<lparr>pa_name = [], pa_variability = Varying, pa_meta = AttrMeta_default,
      pa_blocked = False, pa_type_name = [], pa_var = PrimVarEmpty\<rparr>"

datatype PropertyType = EmptyAttrib | Attrib | Relation | NoTargetsRelation | Connection

record Property =
  attrib :: PrimAttrib
  rel :: Relation
  ptype :: PropertyType
  prop_listOpQual :: ListEditQual
  has_custom :: bool

text \<open>The three constructors of \<open>Property\<close> that \<open>ParseProperty\<close> uses.\<close>

definition Property_type_name :: "string \<Rightarrow> bool \<Rightarrow> Property" where
  "Property_type_name tn custom =
     \<lparr>attrib = PrimAttrib_default\<lparr>pa_type_name := tn\<rparr>, rel = Relation_default,
      ptype = EmptyAttrib, prop_listOpQual = ResetToExplicit, has_custom = custom\<rparr>"

definition Property_attrib :: "PrimAttrib \<Rightarrow> bool \<Rightarrow> Property" where
  "Property_attrib a custom =
     \<lparr>attrib = a, rel = Relation_default, ptype = Attrib,
      prop_listOpQual = ResetToExplicit, has_custom = custom\<rparr>"

definition Property_rel :: "Relation \<Rightarrow> bool \<Rightarrow> bool \<Rightarrow> Property" where
  "Property_rel r isConnection custom =
     \<lparr>attrib = PrimAttrib_default, rel = r,
      ptype = (if isConnection then Connection else Relation),
      prop_listOpQual = ResetToExplicit, has_custom = custom\<rparr>"

section \<open>What the reader takes from elsewhere\<close>

text \<open>
  The type identifiers \<open>UpcastType\<close> compares with; every other identifier of
  value-types.hh is \<open>TYPE_ID_OTHER\<close> with its number.
\<close>

datatype TypeId =
    TYPE_ID_FLOAT | TYPE_ID_FLOAT2 | TYPE_ID_FLOAT3 | TYPE_ID_FLOAT4
  | TYPE_ID_DOUBLE | TYPE_ID_DOUBLE2 | TYPE_ID_DOUBLE3 | TYPE_ID_DOUBLE4
  | TYPE_ID_OTHER "32 word"

text \<open>
  Functions the reader calls whose bodies are not among the sources (value-types,
  str-util, pprinter, primvar): they are parameters of the model.
  \<open>float_to_double\<close> is the conversion \<open>double(x)\<close> of a \<open>float\<close>.
\<close>

record externals =
  half_to_float :: "half \<Rightarrow> float"
  float_to_double :: "float \<Rightarrow> double"
  TryGetUnderlyingTypeId :: "string \<Rightarrow> TypeId option"
  InterpolationFromString :: "string \<Rightarrow> Interpolation option"
  KindFromString :: "string \<Rightarrow> Kind option"
  hasNewline :: "string \<Rightarrow> bool"
  ValidatePrimName :: "string \<Rightarrow> bool"
  to_string_ListEditQual :: "ListEditQual \<Rightarrow> string"
  to_string_SpecType :: "SpecType \<Rightarrow> string"
  PrimVar_type_name :: "PrimVar \<Rightarrow> string"

text \<open>
  \<open>USDCReaderConfig\<close> is declared in usdc-reader.hh (missing).  The reader compares
  the limits with \<open>uint32_t\<close> values and reads \<open>kMaxPrimNestLevel\<close> through
  \<open>int32_t(...)\<close>, so they are 32-bit words here.
\<close>

record USDCReaderConfig =
  numThreads :: int
  kMaxPrimNestLevel :: "32 word"
  kMaxFieldValuePairs :: "32 word"
  kMaxElementSize :: "32 word"

text \<open>
  The members of \<open>USDCReader::Impl\<close> that reconstruction writes.  \<open>_err\<close> and
  \<open>_warn\<close> are kept as the list of the messages pushed, in order; the decoration
  the \<open>PUSH_ERROR\<close> and \<open>PUSH_WARN\<close> macros (common-macros.inc, missing) put
  around a message is not part of the model.
\<close>

record Impl =
  err :: "string list"
  warn :: "string list"
  prim_table :: "int set"

definition PushError :: "string \<Rightarrow> Impl \<Rightarrow> Impl" where
  "PushError s I = I\<lparr>err := err I @ [s]\<rparr>"

definition PushWarn :: "string \<Rightarrow> Impl \<Rightarrow> Impl" where
  "PushWarn s I = I\<lparr>warn := warn I @ [s]\<rparr>"

text \<open>\<open>std::to_string\<close> of an integer: its decimal digits.\<close>

fun digits :: "nat \<Rightarrow> string" where
  "digits n = (if n < 10 then [char_of (48 + n)] else digits (n div 10) @ [char_of (48 + n mod 10)])"

definition to_string :: "int \<Rightarrow> string" where
  "to_string i = (if i < 0 then CHR ''-'' # digits (nat (- i)) else digits (nat i))"

section \<open>\<open>DecodeListOp\<close>\<close>

definition DecodeListOp :: "'a ListOp \<Rightarrow> (ListEditQual \<times> 'a list) list" where
  "DecodeListOp arg =
     (if is_explicit arg then [(ResetToExplicit, explicit_items arg)]
      else
        (if explicit_items arg \<noteq> [] then [(ResetToExplicit, explicit_items arg)] else [])
        @ (if added_items arg \<noteq> [] then [(Add, added_items arg)] else [])
        @ (if appended_items arg \<noteq> [] then [(Append, appended_items arg)] else [])
        @ (if deleted_items arg \<noteq> [] then [(Delete, deleted_items arg)] else [])
        @ (if prepended_items arg \<noteq> [] then [(Prepend, prepended_items arg)] else [])
        @ (if ordered_items arg \<noteq> [] then [(Order, ordered_items arg)] else []))"

section \<open>\<open>UpcastType\<close>\<close>

text \<open>The result is the returned flag and the value left in \<open>inout\<close>.\<close>

definition UpcastType :: "externals \<Rightarrow> string \<Rightarrow> Value \<Rightarrow> bool \<times> Value" where
  "UpcastType ext reqType inout =
     (let h2f = half_to_float ext; h2d = (\<lambda>h. float_to_double ext (half_to_float ext h)) in
      case TryGetUnderlyingTypeId ext reqType of
        None \<Rightarrow> (False, inout)
      | Some tyid \<Rightarrow>
          (if tyid = TYPE_ID_FLOAT then
             (case inout of VHalf a \<Rightarrow> (True, VFloat (h2f a)) | _ \<Rightarrow> (False, inout))
           else if tyid = TYPE_ID_FLOAT2 then
             (case inout of VHalf2 a b \<Rightarrow> (True, VFloat2 (h2f a) (h2f b)) | _ \<Rightarrow> (False, inout))
           else if tyid = TYPE_ID_FLOAT3 then
             (case inout of
                VHalf3 a b c \<Rightarrow> (True, VFloat3 (h2f a) (h2f b) (h2f c))
              | _ \<Rightarrow> (False, inout))
           else if tyid = TYPE_ID_FLOAT4 then
             (case inout of
                VHalf4 a b c d \<Rightarrow> (True, VFloat4 (h2f a) (h2f b) (h2f c) (h2f d))
              | _ \<Rightarrow> (False, inout))
           else if tyid = TYPE_ID_DOUBLE then
             (case inout of VHalf a \<Rightarrow> (True, VDouble (h2d a)) | _ \<Rightarrow> (False, inout))
           else if tyid = TYPE_ID_DOUBLE2 then
             (case inout of VHalf2 a b \<Rightarrow> (True, VDouble2 (h2d a) (h2d b)) | _ \<Rightarrow> (False, inout))
           else if tyid = TYPE_ID_DOUBLE3 then
             (case inout of
                VHalf3 a b c \<Rightarrow> (True, VDouble3 (h2d a) (h2d b) (h2d c))
              | _ \<Rightarrow> (False, inout))
           else if tyid = TYPE_ID_DOUBLE4 then
             (case inout of
                VHalf4 a b c d \<Rightarrow> (True, VDouble4 (h2d a) (h2d b) (h2d c) (h2d d))
              | _ \<Rightarrow> (False, inout))
           else (False, inout)))"

section \<open>\<open>ParseProperty\<close>\<close>

text \<open>The local variables of \<open>ParseProperty\<close> that live across the loop over the fields.\<close>

record PropertyLocals =
  custom :: bool
  typeName :: "string option"
  interpolation :: "Interpolation option"
  elementSize :: "32 word option"
  customData :: "CustomDataType option"
  comment :: "StringData option"
  propType :: PropertyType
  attr :: PrimAttrib
  is_scalar :: bool
  scalar :: Value
  lrel :: Relation
  hasConnectionChildren :: bool
  hasConnectionPaths :: bool
  hasTargetChildren :: bool
  hasTargetPaths :: bool

definition PropertyLocals_init :: PropertyLocals where
  "PropertyLocals_init =
     \<lparr>custom = False, typeName = None, interpolation = None, elementSize = None,
      customData = None, comment = None, propType = EmptyAttrib, attr = PrimAttrib_default,
      is_scalar = False, scalar = VEmpty, lrel = Relation_default,
      hasConnectionChildren = False, hasConnectionPaths = False,
      hasTargetChildren = False, hasTargetPaths = False\<rparr>"

text \<open>\<open>PrimAttrib::set_var\<close>: the type name is taken from the variable when none is set.\<close>

definition set_var :: "externals \<Rightarrow> PrimVar \<Rightarrow> PrimAttrib \<Rightarrow> PrimAttrib" where
  "set_var ext v a =
     (a\<lparr>pa_type_name := (if pa_type_name a = [] then PrimVar_type_name ext v else pa_type_name a)\<rparr>)
       \<lparr>pa_var := v\<rparr>"

text \<open>
  One branch of the loop per recognised field name.  A branch gives the locals back, or
  nothing when it pushed an error and \<open>ParseProperty\<close> returned \<open>false\<close>.
\<close>

type_synonym field_result = "PropertyLocals option \<times> Impl"

definition field_custom :: "Value \<Rightarrow> PropertyLocals \<Rightarrow> Impl \<Rightarrow> field_result" where
  "field_custom v l I =
     (case get_bool v of
        Some pv \<Rightarrow> (Some (l\<lparr>custom := pv\<rparr>), I)
      | None \<Rightarrow> (None, PushError ''`custom` field is not `bool` type.'' I))"

definition field_variability :: "Value \<Rightarrow> PropertyLocals \<Rightarrow> Impl \<Rightarrow> field_result" where
  "field_variability v l I =
     (case get_Variability v of
        Some pv \<Rightarrow> (Some (l\<lparr>attr := (attr l)\<lparr>pa_variability := pv\<rparr>\<rparr>), I)
      | None \<Rightarrow> (None, PushError ''`variability` field is not `varibility` type.'' I))"

definition field_typeName :: "Value \<Rightarrow> PropertyLocals \<Rightarrow> Impl \<Rightarrow> field_result" where
  "field_typeName v l I =
     (case get_token v of
        Some pv \<Rightarrow> (Some (l\<lparr>typeName := Some pv\<rparr>), I)
      | None \<Rightarrow> (None, PushError ''`typeName` field is not `token` type.'' I))"

definition field_default :: "Value \<Rightarrow> PropertyLocals \<Rightarrow> Impl \<Rightarrow> field_result" where
  "field_default v l I = (Some (l\<lparr>propType := Attrib, scalar := v, is_scalar := True\<rparr>), I)"

definition field_timeSamples ::
  "externals \<Rightarrow> Value \<Rightarrow> PropertyLocals \<Rightarrow> Impl \<Rightarrow> field_result" where
  "field_timeSamples ext v l I =
     (let l1 = l\<lparr>propType := Attrib\<rparr> in
      case get_TimeSamples v of
        Some pv \<Rightarrow>
          (Some (l1\<lparr>attr := set_var ext (set_timesamples pv PrimVarEmpty) (attr l1)\<rparr>), I)
      | None \<Rightarrow> (None, PushError ''`timeSamples` is not TimeSamples data.'' I))"

definition field_interpolation ::
  "externals \<Rightarrow> Value \<Rightarrow> PropertyLocals \<Rightarrow> Impl \<Rightarrow> field_result" where
  "field_interpolation ext v l I =
     (let l1 = l\<lparr>propType := Attrib\<rparr> in
      case get_token v of
        Some pv \<Rightarrow>
          (case InterpolationFromString ext pv of
             Some interp \<Rightarrow> (Some (l1\<lparr>interpolation := Some interp\<rparr>), I)
           | None \<Rightarrow> (None, PushError ''Invalid token for `interpolation`.'' I))
      | None \<Rightarrow> (None, PushError ''`interpolation` field is not `token` type.'' I))"

definition field_connectionPaths :: "Value \<Rightarrow> PropertyLocals \<Rightarrow> Impl \<Rightarrow> field_result" where
  "field_connectionPaths v l I =
     (let l1 = l\<lparr>propType := Connection, hasConnectionPaths := True\<rparr> in
      case get_ListOpPath v of
        Some p \<Rightarrow>
          (if \<not> is_explicit p then
             (None, PushError ''`connectionPaths` must be composed of Explicit items.'' I)
           else
             (let items = explicit_items p in
              if length items = 0 then
                (None, PushError ''`connectionPaths` have empty Explicit items.'' I)
              else if length items = 1 then
                (Some (l1\<lparr>lrel := Set_Path (items ! 0) (lrel l1)\<rparr>), I)
              else (Some (l1\<lparr>lrel := Set_PathVector items (lrel l1)\<rparr>), I)))
      | None \<Rightarrow>
          (None, PushError ''`connectionPaths` field is not `ListOp[Path]` type.'' I))"

definition multiple_ListOpType :: string where
  "multiple_ListOpType =
     ''ListOp with multiple ListOpType is not supported for now. Use the first one: ''"

definition field_targetPaths ::
  "externals \<Rightarrow> Value \<Rightarrow> PropertyLocals \<Rightarrow> Impl \<Rightarrow> field_result" where
  "field_targetPaths ext v l I =
     (let l1 = l\<lparr>propType := Relation, hasTargetPaths := True\<rparr> in
      case get_ListOpPath v of
        Some p \<Rightarrow>
          (let ps = DecodeListOp p in
           if ps = [] then (None, PushError ''`targetPaths` is empty.'' I)
           else
             (let I1 = (if length ps > 1
                        then PushWarn (multiple_ListOpType @ to_string_ListEditQual ext (fst (ps ! 0))) I
                        else I);
                  qual = fst (ps ! 0);
                  items = snd (ps ! 0);
                  r = (if length items = 1 then Set_Path (items ! 0) (lrel l1)
                       else Set_PathVector items (lrel l1))
              in (Some (l1\<lparr>lrel := SetListEditQualifier qual r\<rparr>), I1)))
      | None \<Rightarrow> (None, PushError ''`targetPaths` field is not `ListOp[Path]` type.'' I))"

definition field_elementSize ::
  "USDCReaderConfig \<Rightarrow> Value \<Rightarrow> PropertyLocals \<Rightarrow> Impl \<Rightarrow> field_result" where
  "field_elementSize cfg v l I =
     (case get_int v of
        Some p \<Rightarrow>
          (if sint p < 1 \<or> p > kMaxElementSize cfg then
             (None,
              PushError (''`elementSize` must be within ['' @ to_string 1 @ '', ''
                         @ to_string (uint (kMaxElementSize cfg)) @ ''), but got ''
                         @ to_string (sint p)) I)
           else (Some (l\<lparr>elementSize := Some p\<rparr>), I))
      | None \<Rightarrow> (None, PushError ''`elementSize` field is not `int` type.'' I))"

definition field_targetChildren :: "Value \<Rightarrow> PropertyLocals \<Rightarrow> Impl \<Rightarrow> field_result" where
  "field_targetChildren v l I =
     (let l1 = l\<lparr>hasTargetChildren := True\<rparr> in
      case get_PathVector v of
        Some pv \<Rightarrow> (Some l1, I)
      | None \<Rightarrow> (None, PushError ''`targetChildren` field is not `PathVector` type.'' I))"

definition field_connectionChildren :: "Value \<Rightarrow> PropertyLocals \<Rightarrow> Impl \<Rightarrow> field_result" where
  "field_connectionChildren v l I =
     (let l1 = l\<lparr>hasConnectionChildren := True\<rparr> in
      case get_PathVector v of
        Some pv \<Rightarrow> (Some l1, I)
      | None \<Rightarrow> (None, PushError ''`connectionChildren` field is not `PathVector` type.'' I))"

definition field_customData :: "Value \<Rightarrow> PropertyLocals \<Rightarrow> Impl \<Rightarrow> field_result" where
  "field_customData v l I =
     (case get_CustomData v of
        Some pv \<Rightarrow> (Some (l\<lparr>customData := Some pv\<rparr>), I)
      | None \<Rightarrow>
          (None,
           PushError (''`customData` must be type `dictionary`, but got type `''
                      @ type_name v @ ''`'') I))"

definition make_StringData :: "externals \<Rightarrow> string \<Rightarrow> StringData" where
  "make_StringData ext s =
     \<lparr>sd_value = s, is_triple_quoted = hasNewline ext s, single_quote = False,
      line_row = 0, line_col = 0\<rparr>"

definition field_comment ::
  "externals \<Rightarrow> Value \<Rightarrow> PropertyLocals \<Rightarrow> Impl \<Rightarrow> field_result" where
  "field_comment ext v l I =
     (case get_string v of
        Some pv \<Rightarrow> (Some (l\<lparr>comment := Some (make_StringData ext pv)\<rparr>), I)
      | None \<Rightarrow>
          (None,
           PushError (''`comment` must be type `string`, but got type `''
                      @ type_name v @ ''`'') I))"

definition parse_field ::
  "externals \<Rightarrow> USDCReaderConfig \<Rightarrow> string \<times> Value \<Rightarrow> PropertyLocals \<Rightarrow> Impl \<Rightarrow> field_result"
  where
  "parse_field ext cfg fv l I =
     (let name = fst fv; v = snd fv in
      if name = ''custom'' then field_custom v l I
      else if name = ''variability'' then field_variability v l I
      else if name = ''typeName'' then field_typeName v l I
      else if name = ''default'' then field_default v l I
      else if name = ''timeSamples'' then field_timeSamples ext v l I
      else if name = ''interpolation'' then field_interpolation ext v l I
      else if name = ''connectionPaths'' then field_connectionPaths v l I
      else if name = ''targetPaths'' then field_targetPaths ext v l I
      else if name = ''elementSize'' then field_elementSize cfg v l I
      else if name = ''targetChildren'' then field_targetChildren v l I
      else if name = ''connectionChildren'' then field_connectionChildren v l I
      else if name = ''customData'' then field_customData v l I
      else if name = ''comment'' then field_comment ext v l I
      else (Some l, PushWarn (''TODO: '' @ name) I))"

fun parse_fields ::
  "externals \<Rightarrow> USDCReaderConfig \<Rightarrow> FieldValuePairVector \<Rightarrow> PropertyLocals \<Rightarrow> Impl \<Rightarrow> field_result"
  where
  "parse_fields ext cfg [] l I = (Some l, I)"
| "parse_fields ext cfg (fv # fvs) l I =
     (case parse_field ext cfg fv l I of
        (None, I') \<Rightarrow> (None, I')
      | (Some l', I') \<Rightarrow> parse_fields ext cfg fvs l' I')"

text \<open>What follows the loop: the up-cast of the scalar, the metas, the classification.\<close>

definition store_scalar :: "externals \<Rightarrow> PropertyLocals \<Rightarrow> PropertyLocals" where
  "store_scalar ext l =
     (if is_scalar l then
        (let sc = (case typeName l of
                     Some reqTy \<Rightarrow>
                       (if reqTy \<noteq> type_name (scalar l)
                        then snd (UpcastType ext reqTy (scalar l)) else scalar l)
                   | None \<Rightarrow> scalar l)
         in l\<lparr>scalar := sc, attr := set_var ext (set_scalar sc PrimVarEmpty) (attr l)\<rparr>)
      else l)"

definition store_metas :: "PropertyLocals \<Rightarrow> PropertyLocals" where
  "store_metas l =
     (let m0 = pa_meta (attr l);
          m1 = (case interpolation l of Some x \<Rightarrow> m0\<lparr>am_interpolation := Some x\<rparr> | None \<Rightarrow> m0);
          m2 = (case elementSize l of Some x \<Rightarrow> m1\<lparr>am_elementSize := Some x\<rparr> | None \<Rightarrow> m1);
          m3 = (case customData l of Some x \<Rightarrow> m2\<lparr>am_customData := Some x\<rparr> | None \<Rightarrow> m2);
          m4 = (case comment l of Some x \<Rightarrow> m3\<lparr>am_comment := Some x\<rparr> | None \<Rightarrow> m3)
      in l\<lparr>attr := (attr l)\<lparr>pa_meta := m4\<rparr>\<rparr>)"

definition classify :: "SpecType \<Rightarrow> PropertyLocals \<Rightarrow> Impl \<Rightarrow> Property option \<times> Impl" where
  "classify spec_type l I =
     (if propType l = EmptyAttrib then
        (case typeName l of
           Some tn \<Rightarrow> (Some (Property_type_name tn (custom l)), I)
         | None \<Rightarrow>
             (if spec_type = SpecTypeRelationship
              then (Some (Property_rel (SetEmpty Relation_default) False (custom l)), I)
              else (None, PushError ''`typeName` field is missing.'' I)))
      else if propType l = Attrib then (Some (Property_attrib (attr l) (custom l)), I)
      else if propType l = Connection then (Some (Property_rel (lrel l) True (custom l)), I)
      else if propType l = Relation then (Some (Property_rel (lrel l) False (custom l)), I)
      else (None, PushError ''TODO:'' I))"

definition ParseProperty ::
  "externals \<Rightarrow> USDCReaderConfig \<Rightarrow> SpecType \<Rightarrow> FieldValuePairVector \<Rightarrow> Impl
     \<Rightarrow> Property option \<times> Impl" where
  "ParseProperty ext cfg spec_type fvs I =
     (if length fvs > unat (kMaxFieldValuePairs cfg) then
        (None, PushError ''Too much FieldValue pairs.'' I)
      else
        (case parse_fields ext cfg fvs PropertyLocals_init I of
           (None, I') \<Rightarrow> (None, I')
         | (Some l, I') \<Rightarrow> classify spec_type (store_metas (store_scalar ext l)) I'))"

section \<open>The decoded tables\<close>

text \<open>
  \<open>crate::Spec\<close>, \<open>crate::Index\<close> and \<open>CrateReader::Node\<close> are declared in
  crate-format.hh and crate-reader.hh (missing).  The reader uses \<open>Index::value\<close> as a
  \<open>uint32_t\<close> and, of a node, only \<open>GetChildren()\<close>, a vector of \<open>size_t\<close>.
\<close>

record Spec =
  path_index :: "32 word"
  fieldset_index :: "32 word"
  spec_type :: SpecType

record Node =
  GetChildren :: "nat list"

text \<open>
  The table members of \<open>Impl\<close>.  \<open>ReconstructStage\<close> assigns them once from the
  crate reader and nothing writes them afterwards, so the functions below take them as
  an argument.
\<close>

record Tables =
  nodes :: "Node list"
  specs :: "Spec list"
  paths :: "Path list"
  elemPaths :: "Path list"
  live_fieldsets :: "32 word \<rightharpoonup> FieldValuePairVector"

type_synonym PathIndexToSpecIndexMap = "32 word \<rightharpoonup> 32 word"

text \<open>
  \<open>int(x)\<close> of a \<open>size_t\<close>: the low 32 bits, read as a signed number.
\<close>

definition int_of_size_t :: "nat \<Rightarrow> int" where
  "int_of_size_t n = sint (word_of_nat n :: 32 word)"

definition uint32_of_int :: "int \<Rightarrow> 32 word" where
  "uint32_of_int i = word_of_int i"

section \<open>\<open>BuildPropertyMap\<close>\<close>

type_synonym PropertyMap = "string \<rightharpoonup> Property"

text \<open>\<open>std::map::emplace\<close>: nothing is stored when the key is already there.\<close>

definition emplace :: "string \<Rightarrow> Property \<Rightarrow> PropertyMap \<Rightarrow> PropertyMap" where
  "emplace k v m = (case m k of None \<Rightarrow> m(k \<mapsto> v) | Some _ \<Rightarrow> m)"

definition invalid_id :: "string \<Rightarrow> int \<Rightarrow> nat \<Rightarrow> string" where
  "invalid_id what i n =
     ''Invalid '' @ what @ '' id: '' @ to_string i @ ''. Must be in range [0, ''
     @ to_string (int n) @ '')''"

definition fieldset_must_exist :: "32 word \<Rightarrow> string" where
  "fieldset_must_exist i =
     ''FieldSet id: '' @ to_string (uint i) @ '' must exist in live fieldsets.''"

text \<open>
  The body of the loop of \<open>BuildPropertyMap\<close> for one entry of \<open>pathIndices\<close>.  The
  result is \<open>(False, _, _)\<close> where the function returns \<open>false\<close>, and
  \<open>(True, _, _)\<close> where the loop goes on (the two \<open>continue\<close> and the end of the
  body).
\<close>

definition BuildPropertyMap_entry ::
  "externals \<Rightarrow> USDCReaderConfig \<Rightarrow> Tables \<Rightarrow> PathIndexToSpecIndexMap \<Rightarrow> nat
     \<Rightarrow> PropertyMap \<Rightarrow> Impl \<Rightarrow> (bool \<times> PropertyMap \<times> Impl) cxx" where
  "BuildPropertyMap_entry ext cfg tbl psmap entry props I =
     (let child_index = int_of_size_t entry in
      if child_index < 0 \<or> child_index \<ge> int_of_size_t (length (nodes tbl)) then
        Returns (False, props,
                 PushError (invalid_id ''child node'' child_index (length (nodes tbl))) I)
      else
        (case psmap (uint32_of_int child_index) of
           None \<Rightarrow> Returns (True, props, I)
         | Some spec_index \<Rightarrow>
             (if unat spec_index \<ge> length (specs tbl) then
                Returns (False, props,
                         PushError (invalid_id ''specifier'' (uint spec_index)
                                      (length (specs tbl))) I)
              else
                (let spec = specs tbl ! unat spec_index in
                 if \<not> (spec_type spec = SpecTypeAttribute
                        \<or> spec_type spec = SpecTypeRelationship)
                 then Returns (True, props, I)
                 else
                   (case GetPath (paths tbl) (path_index spec) of
                      UndefinedBehaviour \<Rightarrow> UndefinedBehaviour
                    | Returns None \<Rightarrow> Returns (False, props, PushError ''Invalid PathIndex.'' I)
                    | Returns (Some path) \<Rightarrow>
                        (case live_fieldsets tbl (fieldset_index spec) of
                           None \<Rightarrow>
                             Returns (False, props,
                                      PushError (fieldset_must_exist (fieldset_index spec)) I)
                         | Some child_fvs \<Rightarrow>
                             (let prop_name = prop_part path in
                              case ParseProperty ext cfg (spec_type spec) child_fvs I of
                                (None, I') \<Rightarrow>
                                  Returns (False, props,
                                           PushError (''Failed to construct Property `''
                                                      @ prop_name
                                                      @ ''` from FieldValuePairVector.'') I')
                              | (Some prop, I') \<Rightarrow>
                                  Returns (True, emplace prop_name prop props, I'))))))))"

fun BuildPropertyMap ::
  "externals \<Rightarrow> USDCReaderConfig \<Rightarrow> Tables \<Rightarrow> nat list \<Rightarrow> PathIndexToSpecIndexMap
     \<Rightarrow> PropertyMap \<Rightarrow> Impl \<Rightarrow> (bool \<times> PropertyMap \<times> Impl) cxx" where
  "BuildPropertyMap ext cfg tbl [] psmap props I = Returns (True, props, I)"
| "BuildPropertyMap ext cfg tbl (entry # pathIndices) psmap props I =
     (case BuildPropertyMap_entry ext cfg tbl psmap entry props I of
        UndefinedBehaviour \<Rightarrow> UndefinedBehaviour
      | Returns (False, props', I') \<Rightarrow> Returns (False, props', I')
      | Returns (True, props', I') \<Rightarrow> BuildPropertyMap ext cfg tbl pathIndices psmap props' I')"

section \<open>Prims and the stage\<close>

record PrimMeta =
  pm_active :: "bool option"
  pm_kind :: "Kind option"
  pm_assetInfo :: "CustomDataType option"
  pm_customData :: "CustomDataType option"
  pm_doc :: "StringData option"
  pm_comment :: "StringData option"
  pm_apiSchemas :: "APISchemas option"
  pm_sceneName :: "string option"
  pm_meta :: "(string \<times> Value) list"
  pm_stringData :: "StringData list"

definition PrimMeta_default :: PrimMeta where
  "PrimMeta_default =
     \<lparr>pm_active = None, pm_kind = None, pm_assetInfo = None, pm_customData = None,
      pm_doc = None, pm_comment = None, pm_apiSchemas = None, pm_sceneName = None,
      pm_meta = [], pm_stringData = []\<rparr>"

text \<open>
  The concrete Prim types \<open>ReconstructPrimFromTypeName\<close> tries, in its order.
\<close>

datatype PrimType =
    Xform | Model | Scope | GeomMesh | GeomPoints | GeomCylinder | GeomCube | GeomCone
  | GeomSphere | GeomCapsule | GeomBasisCurves | GeomCamera | LuxSphereLight | LuxDomeLight
  | LuxCylinderLight | LuxDiskLight | LuxDistantLight | SkelRoot | Skeleton | SkelAnimation
  | Shader | Material

definition prim_types :: "PrimType list" where
  "prim_types =
     [Xform, Model, Scope, GeomMesh, GeomPoints, GeomCylinder, GeomCube, GeomCone,
      GeomSphere, GeomCapsule, GeomBasisCurves, GeomCamera, LuxSphereLight, LuxDomeLight,
      LuxCylinderLight, LuxDiskLight, LuxDistantLight, SkelRoot, Skeleton, SkelAnimation,
      Shader, Material]"

text \<open>
  What the schemas provide (prim-reconstruct, usdGeom, usdLux, usdSkel, usdShade; missing):
  the type name of each concrete Prim type, and \<open>prim::ReconstructPrim<T>\<close>, which
  reads a property map (the reference list the reader passes is always empty), may
  append warnings and gives either an error text or the typed Prim, here of type \<open>'p\<close>.
\<close>

record 'p schemas =
  TypeTrait_type_name :: "PrimType \<Rightarrow> string"
  prim_ReconstructPrim :: "PrimType \<Rightarrow> PropertyMap \<Rightarrow> string list \<times> (string + 'p)"

text \<open>
  A typed Prim once the reader has set its \<open>meta\<close> and \<open>name\<close>, and the \<open>Prim\<close>
  around it.  Modelled from the spec: the \<open>Prim\<close> class of this version is declared
  outside the sources at hand; it holds the typed value, the element path and the child
  Prims.
\<close>

record 'p TypedPrim =
  tp_type :: PrimType
  tp_value :: 'p
  tp_meta :: PrimMeta
  tp_name :: string

datatype 'p Prim =
  Prim (data: "'p TypedPrim") (elementPath: Path) (children: "'p Prim list")

text \<open>
  Modelled from the spec: \<open>StageMetas\<close> is declared in stage.hh (missing); each
  authored stage metadatum is an optional value.
\<close>

record StageMetas =
  upAxis :: "Axis option"
  metersPerUnit :: "double option"
  timeCodesPerSecond :: "double option"
  startTimeCode :: "double option"
  endTimeCode :: "double option"
  defaultPrim :: "string option"
  customLayerData :: "CustomDataType option"
  sm_doc :: "StringData option"
  sm_comment :: "StringData option"

record 'p Stage =
  metas :: StageMetas
  root_prims :: "'p Prim list"

section \<open>Loops over a fieldset\<close>

text \<open>
  \<open>ReconstrcutStageMeta\<close> and \<open>ParsePrimFields\<close> run one branch per field and return
  \<open>false\<close> from inside the loop on the first field that is refused; what the earlier
  fields wrote to the outputs stays written.
\<close>

fun for_fields ::
  "(string \<times> Value \<Rightarrow> 'a \<Rightarrow> Impl \<Rightarrow> 'a option \<times> Impl) \<Rightarrow> FieldValuePairVector \<Rightarrow> 'a \<Rightarrow> Impl
     \<Rightarrow> bool \<times> 'a \<times> Impl" where
  "for_fields body [] a I = (True, a, I)"
| "for_fields body (fv # fvs) a I =
     (case body fv a I of
        (None, I') \<Rightarrow> (False, a, I')
      | (Some a', I') \<Rightarrow> for_fields body fvs a' I')"

section \<open>\<open>ReconstrcutStageMeta\<close>\<close>

definition must_be_double_or_float :: "string \<Rightarrow> Value \<Rightarrow> string" where
  "must_be_double_or_float name v =
     ''`'' @ name @ ''` value must be double or float type, but got ''
     @ [CHR 0x27] @ type_name v @ [CHR 0x27]"

definition stage_double ::
  "externals \<Rightarrow> string \<Rightarrow> Value \<Rightarrow> Impl \<Rightarrow> double option \<times> Impl" where
  "stage_double ext name v I =
     (case get_float v of
        Some vf \<Rightarrow> (Some (float_to_double ext vf), I)
      | None \<Rightarrow>
          (case get_double v of
             Some vd \<Rightarrow> (Some vd, I)
           | None \<Rightarrow> (None, PushError (must_be_double_or_float name v) I)))"

definition type_must_be :: "string \<Rightarrow> string \<Rightarrow> Value \<Rightarrow> string" where
  "type_must_be ty name v =
     ''Type must be `'' @ ty @ ''` for `'' @ name @ ''`, but got '' @ type_name v @ [CHR 0x0A]"

text \<open>
  The state of the loop is the metas and the \<open>primChildren\<close> output; there is one
  branch per recognised field name.
\<close>

type_synonym stage_meta_result = "(StageMetas \<times> string list) option \<times> Impl"

definition upAxis_must_be :: "string \<Rightarrow> string" where
  "upAxis_must_be t =
     ''`upAxis` must be '' @ [CHR 0x27] @ ''X'' @ [CHR 0x27] @ '', '' @ [CHR 0x27] @ ''Y''
     @ [CHR 0x27] @ '' or '' @ [CHR 0x27] @ ''Z'' @ [CHR 0x27] @ '' but got '' @ [CHR 0x27] @ t
     @ [CHR 0x27] @ ''(note: Case sensitive)''"

definition StageMeta_upAxis ::
  "Value \<Rightarrow> StageMetas \<times> string list \<Rightarrow> Impl \<Rightarrow> stage_meta_result" where
  "StageMeta_upAxis v mp I =
     (case get_token v of
        None \<Rightarrow> (None, PushError ''`upAxis` must be `token` type.'' I)
      | Some t \<Rightarrow>
          (if t = ''Y'' then (Some ((fst mp)\<lparr>upAxis := Some AxisY\<rparr>, snd mp), I)
           else if t = ''Z'' then (Some ((fst mp)\<lparr>upAxis := Some AxisZ\<rparr>, snd mp), I)
           else if t = ''X'' then (Some ((fst mp)\<lparr>upAxis := Some AxisX\<rparr>, snd mp), I)
           else (None, PushError (upAxis_must_be t) I)))"

text \<open>
  The four time and unit fields share one shape: a float or a double is taken, promoted
  to double and stored by \<open>store\<close>.
\<close>

definition StageMeta_double ::
  "externals \<Rightarrow> string \<Rightarrow> (double \<Rightarrow> StageMetas \<Rightarrow> StageMetas) \<Rightarrow> Value
     \<Rightarrow> StageMetas \<times> string list \<Rightarrow> Impl \<Rightarrow> stage_meta_result" where
  "StageMeta_double ext name store v mp I =
     (case stage_double ext name v I of
        (Some d, I') \<Rightarrow> (Some (store d (fst mp), snd mp), I')
      | (None, I') \<Rightarrow> (None, I'))"

definition StageMeta_defaultPrim ::
  "Value \<Rightarrow> StageMetas \<times> string list \<Rightarrow> Impl \<Rightarrow> stage_meta_result" where
  "StageMeta_defaultPrim v mp I =
     (case get_token v of
        None \<Rightarrow> (None, PushError ''`defaultPrim` must be `token` type.'' I)
      | Some t \<Rightarrow> (Some ((fst mp)\<lparr>defaultPrim := Some t\<rparr>, snd mp), I))"

definition StageMeta_customLayerData ::
  "Value \<Rightarrow> StageMetas \<times> string list \<Rightarrow> Impl \<Rightarrow> stage_meta_result" where
  "StageMeta_customLayerData v mp I =
     (case get_CustomData v of
        Some d \<Rightarrow> (Some ((fst mp)\<lparr>customLayerData := Some d\<rparr>, snd mp), I)
      | None \<Rightarrow>
          (None,
           PushError (''customLayerData must be `dictionary` type, but got type `''
                      @ type_name v) I))"

definition StageMeta_primChildren ::
  "Value \<Rightarrow> StageMetas \<times> string list \<Rightarrow> Impl \<Rightarrow> stage_meta_result" where
  "StageMeta_primChildren v mp I =
     (case get_TokenVector v of
        None \<Rightarrow> (None, PushError (type_must_be ''token[]'' ''primChildren'' v) I)
      | Some ts \<Rightarrow> (Some (fst mp, ts), I))"

definition StageMeta_documentation ::
  "externals \<Rightarrow> Value \<Rightarrow> StageMetas \<times> string list \<Rightarrow> Impl \<Rightarrow> stage_meta_result" where
  "StageMeta_documentation ext v mp I =
     (case get_string v of
        None \<Rightarrow> (None, PushError (type_must_be ''string'' ''documentation'' v) I)
      | Some s \<Rightarrow> (Some ((fst mp)\<lparr>sm_doc := Some (make_StringData ext s)\<rparr>, snd mp), I))"

definition StageMeta_comment ::
  "externals \<Rightarrow> Value \<Rightarrow> StageMetas \<times> string list \<Rightarrow> Impl \<Rightarrow> stage_meta_result" where
  "StageMeta_comment ext v mp I =
     (case get_string v of
        None \<Rightarrow> (None, PushError (type_must_be ''string'' ''comment'' v) I)
      | Some s \<Rightarrow> (Some ((fst mp)\<lparr>sm_comment := Some (make_StringData ext s)\<rparr>, snd mp), I))"

definition StageMeta_field ::
  "externals \<Rightarrow> string \<times> Value \<Rightarrow> StageMetas \<times> string list \<Rightarrow> Impl \<Rightarrow> stage_meta_result" where
  "StageMeta_field ext fv mp I =
     (let name = fst fv; v = snd fv in
      if name = ''upAxis'' then StageMeta_upAxis v mp I
      else if name = ''metersPerUnit'' then
        StageMeta_double ext name (\<lambda>d m. m\<lparr>metersPerUnit := Some d\<rparr>) v mp I
      else if name = ''timeCodesPerSecond'' then
        StageMeta_double ext name (\<lambda>d m. m\<lparr>timeCodesPerSecond := Some d\<rparr>) v mp I
      else if name = ''startTimeCode'' then
        StageMeta_double ext name (\<lambda>d m. m\<lparr>startTimeCode := Some d\<rparr>) v mp I
      else if name = ''endTimeCode'' then
        StageMeta_double ext name (\<lambda>d m. m\<lparr>endTimeCode := Some d\<rparr>) v mp I
      else if name = ''defaultPrim'' then StageMeta_defaultPrim v mp I
      else if name = ''customLayerData'' then StageMeta_customLayerData v mp I
      else if name = ''primChildren'' then StageMeta_primChildren v mp I
      else if name = ''documentation'' then StageMeta_documentation ext v mp I
      else if name = ''comment'' then StageMeta_comment ext v mp I
      else (Some mp, PushWarn (''[StageMeta] TODO: '' @ name @ [CHR 0x0A]) I))"

definition ReconstrcutStageMeta ::
  "externals \<Rightarrow> FieldValuePairVector \<Rightarrow> StageMetas \<times> string list \<Rightarrow> Impl
     \<Rightarrow> bool \<times> (StageMetas \<times> string list) \<times> Impl" where
  "ReconstrcutStageMeta ext fvs mp I = for_fields (StageMeta_field ext) fvs mp I"

section \<open>\<open>ParsePrimFields\<close>\<close>

record PrimFields =
  pf_typeName :: "string option"
  pf_specifier :: "Specifier option"
  pf_properties :: "string list"
  pf_primMeta :: PrimMeta

definition PrimFields_init :: PrimFields where
  "PrimFields_init =
     \<lparr>pf_typeName = None, pf_specifier = None, pf_properties = [],
      pf_primMeta = PrimMeta_default\<rparr>"

definition must_be_type :: "string \<Rightarrow> string \<Rightarrow> Value \<Rightarrow> string" where
  "must_be_type name ty v =
     ''`'' @ name @ ''` must be type `'' @ ty @ ''`, but got type `'' @ type_name v @ ''`''"

definition PrimFields_field ::
  "externals \<Rightarrow> string \<times> Value \<Rightarrow> PrimFields \<Rightarrow> Impl \<Rightarrow> PrimFields option \<times> Impl" where
  "PrimFields_field ext fv pf I =
     (let name = fst fv; v = snd fv; primMeta = pf_primMeta pf in
      if name = ''typeName'' then
        (case get_token v of
           Some t \<Rightarrow> (Some (pf\<lparr>pf_typeName := Some t\<rparr>), I)
         | None \<Rightarrow> (None, PushError (must_be_type ''typeName'' ''token'' v) I))
      else if name = ''specifier'' then
        (case get_Specifier v of
           Some s \<Rightarrow> (Some (pf\<lparr>pf_specifier := Some s\<rparr>), I)
         | None \<Rightarrow> (None, PushError (must_be_type ''specifier'' ''Specifier'' v) I))
      else if name = ''properties'' then
        (case get_TokenVector v of
           Some ts \<Rightarrow> (Some (pf\<lparr>pf_properties := ts\<rparr>), I)
         | None \<Rightarrow> (None, PushError (must_be_type ''properties'' ''token[]'' v) I))
      else if name = ''primChildren'' then
        (case get_TokenVector v of
           Some ts \<Rightarrow> (Some pf, I)
         | None \<Rightarrow> (None, PushError (must_be_type ''primChildren'' ''token[]'' v) I))
      else if name = ''active'' then
        (case get_bool v of
           Some b \<Rightarrow> (Some (pf\<lparr>pf_primMeta := primMeta\<lparr>pm_active := Some b\<rparr>\<rparr>), I)
         | None \<Rightarrow> (None, PushError (must_be_type ''properties'' ''token[]'' v) I))
      else if name = ''assetInfo'' then
        (case get_CustomData v of
           Some d \<Rightarrow> (Some (pf\<lparr>pf_primMeta := primMeta\<lparr>pm_assetInfo := Some d\<rparr>\<rparr>), I)
         | None \<Rightarrow> (None, PushError (must_be_type ''assetInfo'' ''dictionary'' v) I))
      else if name = ''kind'' then
        (case get_token v of
           Some t \<Rightarrow>
             (case KindFromString ext t of
                Some kv \<Rightarrow> (Some (pf\<lparr>pf_primMeta := primMeta\<lparr>pm_kind := Some kv\<rparr>\<rparr>), I)
              | None \<Rightarrow>
                  (None,
                   PushError (''Invalid token for `kind` Prim metadata: `'' @ t @ ''`'') I))
         | None \<Rightarrow> (None, PushError (must_be_type ''kind'' ''token'' v) I))
      else if name = ''apiSchemas'' then
        (case get_ListOpToken v of
           Some listop \<Rightarrow>
             (case ToAPISchemas listop of
                Inl e \<Rightarrow> (None, PushError (''Failed to validate `apiSchemas`: '' @ e) I)
              | Inr s \<Rightarrow> (Some (pf\<lparr>pf_primMeta := primMeta\<lparr>pm_apiSchemas := Some s\<rparr>\<rparr>), I))
         | None \<Rightarrow> (None, PushError (must_be_type ''apiSchemas'' ''ListOp[Token]'' v) I))
      else if name = ''documentation'' then
        (case get_string v of
           Some s \<Rightarrow>
             (Some (pf\<lparr>pf_primMeta := primMeta\<lparr>pm_doc := Some (make_StringData ext s)\<rparr>\<rparr>), I)
         | None \<Rightarrow> (None, PushError (must_be_type ''documentation'' ''string'' v) I))
      else if name = ''comment'' then
        (case get_string v of
           Some s \<Rightarrow>
             (Some (pf\<lparr>pf_primMeta := primMeta\<lparr>pm_comment := Some (make_StringData ext s)\<rparr>\<rparr>), I)
         | None \<Rightarrow> (None, PushError (must_be_type ''comment'' ''string'' v) I))
      else if name = ''customData'' then
        (case get_CustomData v of
           Some d \<Rightarrow> (Some (pf\<lparr>pf_primMeta := primMeta\<lparr>pm_customData := Some d\<rparr>\<rparr>), I)
         | None \<Rightarrow> (None, PushError (must_be_type ''customData'' ''dictionary'' v) I))
      else if name = ''sceneName'' then
        (case get_string v of
           Some s \<Rightarrow> (Some (pf\<lparr>pf_primMeta := primMeta\<lparr>pm_sceneName := Some s\<rparr>\<rparr>), I)
         | None \<Rightarrow> (None, PushError (must_be_type ''sceneName'' ''string'' v) I))
      else (Some pf, PushWarn (''PrimProp TODO: '' @ name) I))"

definition ParsePrimFields ::
  "externals \<Rightarrow> FieldValuePairVector \<Rightarrow> PrimFields \<Rightarrow> Impl \<Rightarrow> bool \<times> PrimFields \<times> Impl" where
  "ParsePrimFields ext fvs pf I = for_fields (PrimFields_field ext) fvs pf I"

section \<open>\<open>ReconstructPrim\<close> and \<open>ReconstructPrimFromTypeName\<close>\<close>

definition ReconstructPrim ::
  "externals \<Rightarrow> 'p schemas \<Rightarrow> USDCReaderConfig \<Rightarrow> Tables \<Rightarrow> PrimType \<Rightarrow> Node
     \<Rightarrow> PathIndexToSpecIndexMap \<Rightarrow> Impl \<Rightarrow> ('p option \<times> Impl) cxx" where
  "ReconstructPrim ext sch cfg tbl T node psmap I =
     (case BuildPropertyMap ext cfg tbl (GetChildren node) psmap Map.empty I of
        UndefinedBehaviour \<Rightarrow> UndefinedBehaviour
      | Returns (False, properties, I') \<Rightarrow>
          Returns (None, PushError ''Failed to build PropertyMap.'' I')
      | Returns (True, properties, I') \<Rightarrow>
          (let (ws, r) = prim_ReconstructPrim sch T properties;
               I'' = I'\<lparr>warn := warn I' @ ws\<rparr>
           in case r of
                Inl e \<Rightarrow> Returns (None, PushError e I'')
              | Inr typed \<Rightarrow> Returns (Some typed, I'')))"

definition ReconstructPrimFromTypeName ::
  "externals \<Rightarrow> 'p schemas \<Rightarrow> USDCReaderConfig \<Rightarrow> Tables \<Rightarrow> string \<Rightarrow> string \<Rightarrow> Node
     \<Rightarrow> PathIndexToSpecIndexMap \<Rightarrow> PrimMeta \<Rightarrow> Impl \<Rightarrow> ('p Prim option \<times> Impl) cxx" where
  "ReconstructPrimFromTypeName ext sch cfg tbl tyName prim_name node psmap meta I =
     (case find (\<lambda>T. tyName = TypeTrait_type_name sch T) prim_types of
        Some T \<Rightarrow>
          (case ReconstructPrim ext sch cfg tbl T node psmap I of
             UndefinedBehaviour \<Rightarrow> UndefinedBehaviour
           | Returns (None, I') \<Rightarrow>
               Returns (None, PushError (''Failed to reconstruct Prim '' @ tyName) I')
           | Returns (Some typed, I') \<Rightarrow>
               Returns
                 (Some (Prim \<lparr>tp_type = T, tp_value = typed, tp_meta = meta, tp_name = prim_name\<rparr>
                          Path_default []),
                  I'))
      | None \<Rightarrow> Returns (None, PushWarn (''TODO or unsupported prim type: '' @ tyName) I))"

section \<open>\<open>ReconstructPrimNode\<close>\<close>

text \<open>
  The result holds the returned flag, \<open>*primOut\<close>, the reader and the stage.  The
  caller always passes a \<open>primOut\<close> that holds no Prim yet.
\<close>

type_synonym 'p node_result = "(bool \<times> 'p Prim option \<times> Impl \<times> 'p Stage) cxx"

definition ReconstructPrimNode_root ::
  "externals \<Rightarrow> Tables \<Rightarrow> int \<Rightarrow> Spec \<Rightarrow> FieldValuePairVector \<Rightarrow> 'p Stage \<Rightarrow> Impl
     \<Rightarrow> 'p node_result" where
  "ReconstructPrimNode_root ext tbl current spec fvs stage I =
     (case GetElemPath (elemPaths tbl) (uint32_of_int current) of
        UndefinedBehaviour \<Rightarrow> UndefinedBehaviour
      | Returns None \<Rightarrow>
          Returns (False, None,
                   PushError ''(Internal error). Root Element Path not found.'' I, stage)
      | Returns (Some pv) \<Rightarrow>
          (if spec_type spec \<noteq> SpecTypePseudoRoot then
             Returns (False, None,
                      PushError ''SpecTypePseudoRoot expected for root layer(Stage) element.'' I,
                      stage)
           else
             (case ReconstrcutStageMeta ext fvs (metas stage, []) I of
                (False, mp, I') \<Rightarrow>
                  Returns (False, None, PushError ''Failed to reconstruct StageMeta.'' I',
                           stage\<lparr>metas := fst mp\<rparr>)
              | (True, mp, I') \<Rightarrow>
                  Returns (True, None, I'\<lparr>prim_table := insert current (prim_table I')\<rparr>,
                           stage\<lparr>metas := fst mp\<rparr>))))"

definition ReconstructPrimNode_def_prim ::
  "externals \<Rightarrow> 'p schemas \<Rightarrow> USDCReaderConfig \<Rightarrow> Tables \<Rightarrow> int \<Rightarrow> Node
     \<Rightarrow> PathIndexToSpecIndexMap \<Rightarrow> Path \<Rightarrow> PrimFields \<Rightarrow> 'p Stage \<Rightarrow> Impl \<Rightarrow> 'p node_result"
  where
  "ReconstructPrimNode_def_prim ext sch cfg tbl current node psmap elemPath pf stage I =
     (let (tyName, I1) =
            (case pf_typeName pf of
               None \<Rightarrow>
                 (''Model'', PushWarn ''Treat this node as Model(where `typeName` is missing.'' I)
             | Some t \<Rightarrow> (t, I));
          prim_name = prim_part elemPath
      in if \<not> ValidatePrimName ext prim_name then
           Returns (False, None, PushError ''Invalid Prim name.'' I1, stage)
         else
           (case ReconstructPrimFromTypeName ext sch cfg tbl tyName prim_name node psmap
                   (pf_primMeta pf) I1 of
              UndefinedBehaviour \<Rightarrow> UndefinedBehaviour
            | Returns (prim, I2) \<Rightarrow>
                Returns (True,
                         map_option (\<lambda>p. Prim (data p) elemPath (children p)) prim,
                         I2\<lparr>prim_table := insert current (prim_table I2)\<rparr>,
                         stage)))"

definition ReconstructPrimNode_prim ::
  "externals \<Rightarrow> 'p schemas \<Rightarrow> USDCReaderConfig \<Rightarrow> Tables \<Rightarrow> int \<Rightarrow> Node
     \<Rightarrow> PathIndexToSpecIndexMap \<Rightarrow> Spec \<Rightarrow> FieldValuePairVector \<Rightarrow> 'p Stage \<Rightarrow> Impl
     \<Rightarrow> 'p node_result" where
  "ReconstructPrimNode_prim ext sch cfg tbl current node psmap spec fvs stage I =
     (case ParsePrimFields ext fvs PrimFields_init I of
        (False, pf, I') \<Rightarrow>
          Returns (False, None, PushError ''Failed to parse Prim fields.'' I', stage)
      | (True, pf, I') \<Rightarrow>
          (if spec_type spec = SpecTypePrim then
             (case GetElemPath (elemPaths tbl) (uint32_of_int current) of
                UndefinedBehaviour \<Rightarrow> UndefinedBehaviour
              | Returns None \<Rightarrow>
                  Returns (False, None,
                           PushError ''(Internal errror) Element path not found.'' I', stage)
              | Returns (Some elemPath) \<Rightarrow>
                  (case pf_specifier pf of
                     None \<Rightarrow>
                       Returns (False, None,
                                PushError
                                  ''`specifier` field is missing for FieldSets with SpecType::Prim.''
                                  I',
                                stage)
                   | Some sp \<Rightarrow>
                       (if sp = Def then
                          ReconstructPrimNode_def_prim ext sch cfg tbl current node psmap
                            elemPath pf stage I'
                        else if sp = Class then
                          Returns (True, None,
                                   PushWarn ''TODO: `class` specifier. skipping this model...'' I',
                                   stage)
                        else if sp = Over then
                          Returns (True, None,
                                   PushWarn ''TODO: `over` specifier. skipping this model...'' I',
                                   stage)
                        else Returns (False, None, PushError ''Invalid Specifier.'' I', stage))))
           else if spec_type spec = SpecTypeVariantSet then
             Returns (True, None, PushWarn ''TODO: SpecTypeVariantSet'' I', stage)
           else if spec_type spec = SpecTypeVariant then
             Returns (True, None, PushWarn ''TODO: SpecTypeVariant'' I', stage)
           else if spec_type spec = SpecTypeAttribute then
             Returns (True, None,
                      PushWarn
                        ''TODO: SpecTypeAttribute(in conjunction with Class/Over specifier?)'' I',
                      stage)
           else
             Returns (False, None,
                      PushError (''TODO: specTy = '' @ to_string_SpecType ext (spec_type spec)) I',
                      stage)))"

definition ReconstructPrimNode ::
  "externals \<Rightarrow> 'p schemas \<Rightarrow> USDCReaderConfig \<Rightarrow> Tables \<Rightarrow> int \<Rightarrow> int \<Rightarrow> int
     \<Rightarrow> PathIndexToSpecIndexMap \<Rightarrow> 'p Stage \<Rightarrow> Impl \<Rightarrow> 'p node_result" where
  "ReconstructPrimNode ext sch cfg tbl parent current level psmap stage I =
     (case vector_at (nodes tbl) (nat current) of
        UndefinedBehaviour \<Rightarrow> UndefinedBehaviour
      | Returns node \<Rightarrow>
          (case psmap (uint32_of_int current) of
             None \<Rightarrow> Returns (True, None, I, stage)
           | Some spec_index \<Rightarrow>
               (if unat spec_index \<ge> length (specs tbl) then
                  Returns (False, None,
                           PushError (invalid_id ''specifier'' (uint spec_index)
                                        (length (specs tbl))) I,
                           stage)
                else
                  (let spec = specs tbl ! unat spec_index in
                   if (spec_type spec = SpecTypeAttribute
                         \<or> spec_type spec = SpecTypeRelationship)
                      \<and> parent \<in> prim_table I
                   then Returns (True, None, I, stage)
                   else
                     (case live_fieldsets tbl (fieldset_index spec) of
                        None \<Rightarrow>
                          Returns (False, None,
                                   PushError (fieldset_must_exist (fieldset_index spec)) I,
                                   stage)
                      | Some fvs \<Rightarrow>
                          (if length fvs > unat (kMaxFieldValuePairs cfg) then
                             Returns (False, None, PushError ''Too much FieldValue pairs.'' I,
                                      stage)
                           else if current = 0 then
                             ReconstructPrimNode_root ext tbl current spec fvs stage I
                           else
                             ReconstructPrimNode_prim ext sch cfg tbl current node psmap spec
                               fvs stage I))))))"

section \<open>\<open>ReconstructPrimRecursively\<close>\<close>

text \<open>
  The loop over the children of a node: the first call that returns \<open>false\<close> ends it.
  The state that goes through the loop is \<open>(prim, reader, stage)\<close>: the Prim of the
  current node, which the children append themselves to, the reader and the stage.
\<close>

fun for_children ::
  "(nat \<Rightarrow> 's \<Rightarrow> (bool \<times> 's) cxx) \<Rightarrow> nat list \<Rightarrow> 's \<Rightarrow> (bool \<times> 's) cxx" where
  "for_children body [] s = Returns (True, s)"
| "for_children body (c # cs) s =
     (case body c s of
        UndefinedBehaviour \<Rightarrow> UndefinedBehaviour
      | Returns (False, s') \<Rightarrow> Returns (False, s')
      | Returns (True, s') \<Rightarrow> for_children body cs s')"

lemma for_children_cong [fundef_cong]:
  "\<lbrakk>cs = cs'; s = s'; \<And>c t. c \<in> set cs' \<Longrightarrow> f c t = g c t\<rbrakk>
     \<Longrightarrow> for_children f cs s = for_children g cs' s'"
proof (induction cs' arbitrary: cs s s')
  case Nil
  then show ?case by simp
next
  case (Cons c cs')
  then show ?case
    by (auto split: cxx.splits bool.splits)
qed

text \<open>
  The state is \<open>(rootPrim, reader, stage)\<close>: \<open>rootPrim\<close> is the Prim the caller points
  to (nothing for \<open>nullptr\<close>).  \<open>level + 1\<close> is an \<open>int\<close> addition, which has no
  defined result at \<open>INT_MAX\<close>.
\<close>

type_synonym 'p walk = "'p Prim option \<times> Impl \<times> 'p Stage"

definition attach :: "int \<Rightarrow> 'p Prim option \<Rightarrow> 'p walk \<Rightarrow> 'p walk" where
  "attach parent prim w =
     (let rootPrim = fst w; I = fst (snd w); stage = snd (snd w) in
      if parent = 0 then
        (case prim of
           Some p \<Rightarrow> (rootPrim, I, stage\<lparr>root_prims := root_prims stage @ [p]\<rparr>)
         | None \<Rightarrow> w)
      else
        (case (prim, rootPrim) of
           (Some p, Some r) \<Rightarrow> (Some (Prim (data r) (elementPath r) (children r @ [p])), I, stage)
         | _ \<Rightarrow> w))"

function ReconstructPrimRecursively ::
  "externals \<Rightarrow> 'p schemas \<Rightarrow> USDCReaderConfig \<Rightarrow> Tables \<Rightarrow> PathIndexToSpecIndexMap
     \<Rightarrow> int \<Rightarrow> int \<Rightarrow> int \<Rightarrow> 'p walk \<Rightarrow> (bool \<times> 'p walk) cxx" where
  "ReconstructPrimRecursively ext sch cfg tbl psmap parent current level w =
     (let rootPrim = fst w; I = fst (snd w); stage = snd (snd w) in
      if level > sint (kMaxPrimNestLevel cfg) then
        Returns (False, rootPrim, PushError ''Prim hierarchy is too deep.'' I, stage)
      else if current < 0 \<or> current \<ge> int_of_size_t (length (nodes tbl)) then
        Returns (False, rootPrim,
                 PushError (invalid_id ''current node'' current (length (nodes tbl))) I, stage)
      else
        (case ReconstructPrimNode ext sch cfg tbl parent current level psmap stage I of
           UndefinedBehaviour \<Rightarrow> UndefinedBehaviour
         | Returns (False, prim, I1, stage1) \<Rightarrow> Returns (False, rootPrim, I1, stage1)
         | Returns (True, prim, I1, stage1) \<Rightarrow>
             (case vector_at (nodes tbl) (nat current) of
                UndefinedBehaviour \<Rightarrow> UndefinedBehaviour
              | Returns node \<Rightarrow>
                  (case for_children
                          (\<lambda>child cw.
                             if level = 2147483647 then UndefinedBehaviour
                             else ReconstructPrimRecursively ext sch cfg tbl psmap current
                                    (int_of_size_t child) (level + 1) cw)
                          (GetChildren node) (prim, I1, stage1) of
                     UndefinedBehaviour \<Rightarrow> UndefinedBehaviour
                   | Returns (False, prim2, I2, stage2) \<Rightarrow> Returns (False, rootPrim, I2, stage2)
                   | Returns (True, prim2, I2, stage2) \<Rightarrow>
                       Returns (True, attach parent prim2 (rootPrim, I2, stage2))))))"
  by pat_completeness auto
termination
  by (relation "measure (\<lambda>(ext, sch, cfg, tbl, psmap, parent, current, level, w).
                           nat (sint (kMaxPrimNestLevel cfg) + 1 - level))") auto

declare ReconstructPrimRecursively.simps [simp del]

section \<open>\<open>ReconstructStage\<close>\<close>

text \<open>
  What the reader asks of the crate reader (crate-reader.hh, missing): the number of
  nodes and the decoded tables.
\<close>

record CrateReader =
  NumNodes :: nat
  GetNodes :: "Node list"
  GetSpecs :: "Spec list"
  GetPaths :: "Path list"
  GetElemPaths :: "Path list"
  GetLiveFieldSets :: "32 word \<rightharpoonup> FieldValuePairVector"

text \<open>
  The loop that fills \<open>path_index_to_spec_index_map\<close>, from index \<open>i\<close> on; nothing is
  returned where the loop ends with the error of a repeated path index.
\<close>

fun build_path_index_to_spec_index_map ::
  "Spec list \<Rightarrow> nat \<Rightarrow> PathIndexToSpecIndexMap \<Rightarrow> PathIndexToSpecIndexMap option" where
  "build_path_index_to_spec_index_map [] i m = Some m"
| "build_path_index_to_spec_index_map (s # ss) i m =
     (if path_index s = NOT 0 then build_path_index_to_spec_index_map ss (Suc i) m
      else if m (path_index s) \<noteq> None then None
      else build_path_index_to_spec_index_map ss (Suc i) (m(path_index s \<mapsto> word_of_nat i)))"

definition ReconstructStage ::
  "externals \<Rightarrow> 'p schemas \<Rightarrow> USDCReaderConfig \<Rightarrow> CrateReader \<Rightarrow> 'p Stage \<Rightarrow> Impl
     \<Rightarrow> (bool \<times> Impl \<times> 'p Stage) cxx" where
  "ReconstructStage ext sch cfg crate_reader stage I =
     (if NumNodes crate_reader = 0 then Returns (True, PushWarn ''Empty scene.'' I, stage)
      else
        (let tbl = \<lparr>nodes = GetNodes crate_reader, specs = GetSpecs crate_reader,
                    paths = GetPaths crate_reader, elemPaths = GetElemPaths crate_reader,
                    live_fieldsets = GetLiveFieldSets crate_reader\<rparr>
         in case build_path_index_to_spec_index_map (specs tbl) 0 Map.empty of
              None \<Rightarrow> Returns (False, PushError ''Multiple PathIndex found in Crate data.'' I, stage)
            | Some psmap \<Rightarrow>
                (case ReconstructPrimRecursively ext sch cfg tbl psmap (- 1) 0 0
                        (None, I, stage\<lparr>root_prims := []\<rparr>) of
                   UndefinedBehaviour \<Rightarrow> UndefinedBehaviour
                 | Returns (False, w) \<Rightarrow>
                     Returns (False,
                              PushError ''Failed to reconstruct Stage(Prim hierarchy)''
                                (fst (snd w)),
                              snd (snd w))
                 | Returns (True, w) \<Rightarrow> Returns (True, fst (snd w), snd (snd w)))))"

section \<open>Sample inputs\<close>

definition RootPath :: Path where
  "RootPath = \<lparr>prim_part = ''/'', prop_part = [], valid = True\<rparr>"

definition listop_added_and_appended :: "string ListOp" where
  "listop_added_and_appended =
     \<lparr>is_explicit = False, explicit_items = [], added_items = [''MaterialBindingAPI''],
      prepended_items = [], appended_items = [''SkelBindingAPI''], deleted_items = [],
      ordered_items = []\<rparr>"

definition listop_ordered_only :: "string ListOp" where
  "listop_ordered_only =
     \<lparr>is_explicit = False, explicit_items = [], added_items = [],
      prepended_items = [], appended_items = [], deleted_items = [],
      ordered_items = [''MaterialBindingAPI'']\<rparr>"

text \<open>
  A list-op marked explicit whose Order bucket is the only one that holds an item: what
  \<open>ClearAndMakeExplicit\<close> followed by \<open>SetOrderedItems\<close> builds.
\<close>

definition listop_explicit_ordered_only :: "string ListOp" where
  "listop_explicit_ordered_only =
     \<lparr>is_explicit = True, explicit_items = [], added_items = [],
      prepended_items = [], appended_items = [], deleted_items = [],
      ordered_items = [''MaterialBindingAPI'']\<rparr>"

section \<open>Sample externals and inputs\<close>

text \<open>
  Concrete values for the parameters of the model, used where a theorem is applied to a
  concrete input.  Modelled from the spec: the widening of a half is the IEEE 754
  conversion of binary16 to binary32 (of binary32 to binary64 for \<open>double(x)\<close>), on the
  bit patterns; the base type of a declared type name is the type itself, or the
  arithmetic type under a role type such as \<open>color3f\<close>.
\<close>

fun highbit :: "nat \<Rightarrow> nat" where
  "highbit n = (if n < 2 then 0 else Suc (highbit (n div 2)))"

definition half_to_float_ieee :: "half \<Rightarrow> float" where
  "half_to_float_ieee h =
     (let sign = push_bit 16 (ucast (h AND 0x8000) :: 32 word);
          e = unat (drop_bit 10 h AND 0x1F);
          m = (ucast (h AND 0x3FF) :: 32 word);
          k = highbit (unat m)
      in if e = 0 then
           (if m = 0 then sign
            else sign OR push_bit 23 (of_nat (103 + k)) OR (push_bit (23 - k) m AND 0x7FFFFF))
         else if e = 31 then sign OR 0x7F800000 OR push_bit 13 m
         else sign OR push_bit 23 (of_nat (e + 112)) OR push_bit 13 m)"

definition float_to_double_ieee :: "float \<Rightarrow> double" where
  "float_to_double_ieee f =
     (let sign = push_bit 32 (ucast (f AND 0x80000000) :: 64 word);
          e = unat (drop_bit 23 f AND 0xFF);
          m = (ucast (f AND 0x7FFFFF) :: 64 word);
          k = highbit (unat m)
      in if e = 0 then
           (if m = 0 then sign
            else sign OR push_bit 52 (of_nat (874 + k))
                 OR (push_bit (52 - k) m AND 0xFFFFFFFFFFFFF))
         else if e = 255 then sign OR 0x7FF0000000000000 OR push_bit 29 m
         else sign OR push_bit 52 (of_nat (e + 896)) OR push_bit 29 m)"

definition underlying_type_id :: "string \<Rightarrow> TypeId option" where
  "underlying_type_id n =
     (if n = ''float'' then Some TYPE_ID_FLOAT
      else if n = ''float2'' then Some TYPE_ID_FLOAT2
      else if n = ''float3'' \<or> n = ''color3f'' then Some TYPE_ID_FLOAT3
      else if n = ''float4'' then Some TYPE_ID_FLOAT4
      else if n = ''double'' then Some TYPE_ID_DOUBLE
      else if n = ''double2'' then Some TYPE_ID_DOUBLE2
      else if n = ''double3'' then Some TYPE_ID_DOUBLE3
      else if n = ''double4'' then Some TYPE_ID_DOUBLE4
      else None)"

definition sample_externals :: externals where
  "sample_externals =
     \<lparr>half_to_float = half_to_float_ieee,
      float_to_double = float_to_double_ieee,
      TryGetUnderlyingTypeId = underlying_type_id,
      InterpolationFromString = (\<lambda>s. if s = ''vertex'' then Some InterpolationVertex else None),
      KindFromString = (\<lambda>s. if s = ''component'' then Some KindComponent else None),
      hasNewline = (\<lambda>s. CHR 0x0A \<in> set s),
      ValidatePrimName = (\<lambda>s. s \<noteq> [] \<and> CHR ''%'' \<notin> set s),
      to_string_ListEditQual = (\<lambda>q. case q of ResetToExplicit \<Rightarrow> ''unqualified''
                                  | Append \<Rightarrow> ''append'' | Add \<Rightarrow> ''add'' | Delete \<Rightarrow> ''delete''
                                  | Prepend \<Rightarrow> ''prepend'' | Order \<Rightarrow> ''order''
                                  | ListEditQualInvalid \<Rightarrow> ''[[Invalid]]''),
      to_string_SpecType = (\<lambda>t. ''SpecType''),
      PrimVar_type_name = (\<lambda>v. case v of PrimVarScalar x \<Rightarrow> type_name x | _ \<Rightarrow> [])\<rparr>"

definition sample_config :: USDCReaderConfig where
  "sample_config =
     \<lparr>numThreads = 1, kMaxPrimNestLevel = 256, kMaxFieldValuePairs = 4096,
      kMaxElementSize = 512\<rparr>"

definition Impl_init :: Impl where
  "Impl_init = \<lparr>err = [], warn = [], prim_table = {}\<rparr>"

definition path_of :: "string \<Rightarrow> string \<Rightarrow> Path" where
  "path_of prim prop = \<lparr>prim_part = prim, prop_part = prop, valid = True\<rparr>"

definition explicit_listop :: "'a list \<Rightarrow> 'a ListOp" where
  "explicit_listop items =
     \<lparr>is_explicit = True, explicit_items = items, added_items = [], prepended_items = [],
      appended_items = [], deleted_items = [], ordered_items = []\<rparr>"

text \<open>An attribute that carries a value and, after it, a connection.\<close>

definition fields_default_then_connection :: FieldValuePairVector where
  "fields_default_then_connection =
     [(''typeName'', VToken ''float''),
      (''default'', VFloat 0),
      (''connectionPaths'', VListOpPath (explicit_listop [path_of ''/mat/tex'' ''outputs:r'']))]"

section \<open>Classification of a property\<close>

datatype Classification =
  IsAttr | IsConnection | IsRelationship | IsEmptyAttr | IsNoTargetRelationship | MissingTypeName

text \<open>
  How a result of \<open>ParseProperty\<close> reads: a \<open>rel\<close> without target is a Property of
  type \<open>Relation\<close> whose relation is empty; no result stands for the failure.
\<close>

definition classification_of :: "Property option \<Rightarrow> Classification" where
  "classification_of r =
     (case r of
        None \<Rightarrow> MissingTypeName
      | Some p \<Rightarrow>
          (case ptype p of
             EmptyAttrib \<Rightarrow> IsEmptyAttr
           | Attrib \<Rightarrow> IsAttr
           | Connection \<Rightarrow> IsConnection
           | Relation \<Rightarrow> (if rel_type (rel p) = RelEmpty then IsNoTargetRelationship
                          else IsRelationship)
           | NoTargetsRelation \<Rightarrow> IsNoTargetRelationship))"

definition seen :: "string \<Rightarrow> FieldValuePairVector \<Rightarrow> bool" where
  "seen name fvs = (name \<in> set (map fst fvs))"

text \<open>The precedence the specification gives.\<close>

definition spec_classification :: "SpecType \<Rightarrow> FieldValuePairVector \<Rightarrow> Classification" where
  "spec_classification st fvs =
     (if seen ''default'' fvs \<or> seen ''timeSamples'' fvs then IsAttr
      else if seen ''connectionPaths'' fvs then IsConnection
      else if seen ''targetPaths'' fvs then IsRelationship
      else if seen ''typeName'' fvs then IsEmptyAttr
      else if st = SpecTypeRelationship then IsNoTargetRelationship
      else MissingTypeName)"

text \<open>
  The fields that assign \<open>propType\<close>, and the last assignment a fieldset makes.  The
  classification of the code reads that last assignment first.
\<close>

definition classifier :: "string \<Rightarrow> PropertyType option" where
  "classifier name =
     (if name = ''default'' \<or> name = ''timeSamples'' \<or> name = ''interpolation'' then Some Attrib
      else if name = ''connectionPaths'' then Some Connection
      else if name = ''targetPaths'' then Some Relation
      else None)"

definition last_propType :: "PropertyType \<Rightarrow> FieldValuePairVector \<Rightarrow> PropertyType" where
  "last_propType t fvs =
     foldl (\<lambda>t fv. case classifier (fst fv) of Some c \<Rightarrow> c | None \<Rightarrow> t) t fvs"

definition last_field_classification ::
  "SpecType \<Rightarrow> FieldValuePairVector \<Rightarrow> Classification" where
  "last_field_classification st fvs =
     (case last_propType EmptyAttrib fvs of
        Attrib \<Rightarrow> IsAttr
      | Connection \<Rightarrow> IsConnection
      | Relation \<Rightarrow> IsRelationship
      | _ \<Rightarrow>
          (if seen ''typeName'' fvs then IsEmptyAttr
           else if st = SpecTypeRelationship then IsNoTargetRelationship
           else MissingTypeName))"

text \<open>
  The fields that carry the value or the targets of a property, and what each makes of
  the Property; the last of them in a fieldset, where there is one, and the
  classification that reads it first.
\<close>

definition value_field :: "string \<Rightarrow> Classification option" where
  "value_field name =
     (if name = ''default'' \<or> name = ''timeSamples'' then Some IsAttr
      else if name = ''connectionPaths'' then Some IsConnection
      else if name = ''targetPaths'' then Some IsRelationship
      else None)"

definition last_value_field :: "FieldValuePairVector \<Rightarrow> Classification option" where
  "last_value_field fvs =
     (case rev (filter (\<lambda>fv. value_field (fst fv) \<noteq> None) fvs) of
        [] \<Rightarrow> None
      | fv # _ \<Rightarrow> value_field (fst fv))"

definition last_value_field_classification ::
  "SpecType \<Rightarrow> FieldValuePairVector \<Rightarrow> Classification" where
  "last_value_field_classification st fvs =
     (case last_value_field fvs of
        Some c \<Rightarrow> c
      | None \<Rightarrow>
          (if seen ''typeName'' fvs then IsEmptyAttr
           else if st = SpecTypeRelationship then IsNoTargetRelationship
           else MissingTypeName))"

section \<open>The up-cast rule\<close>

text \<open>
  The rule in the words of the specification: the arithmetic base type under the
  declared name is a float or double type with one to four lanes; a value is its
  half-precision counterpart when it is a half value with as many lanes, and is then
  widened lane by lane; any other value is kept.
\<close>

definition base_type :: "TypeId \<Rightarrow> (bool \<times> nat) option" where
  "base_type t =
     (case t of
        TYPE_ID_FLOAT \<Rightarrow> Some (False, 1)
      | TYPE_ID_FLOAT2 \<Rightarrow> Some (False, 2)
      | TYPE_ID_FLOAT3 \<Rightarrow> Some (False, 3)
      | TYPE_ID_FLOAT4 \<Rightarrow> Some (False, 4)
      | TYPE_ID_DOUBLE \<Rightarrow> Some (True, 1)
      | TYPE_ID_DOUBLE2 \<Rightarrow> Some (True, 2)
      | TYPE_ID_DOUBLE3 \<Rightarrow> Some (True, 3)
      | TYPE_ID_DOUBLE4 \<Rightarrow> Some (True, 4)
      | TYPE_ID_OTHER _ \<Rightarrow> None)"

definition half_lanes :: "Value \<Rightarrow> half list option" where
  "half_lanes v =
     (case v of
        VHalf a \<Rightarrow> Some [a]
      | VHalf2 a b \<Rightarrow> Some [a, b]
      | VHalf3 a b c \<Rightarrow> Some [a, b, c]
      | VHalf4 a b c d \<Rightarrow> Some [a, b, c, d]
      | _ \<Rightarrow> None)"

fun float_lanes :: "float list \<Rightarrow> Value" where
  "float_lanes [a] = VFloat a"
| "float_lanes [a, b] = VFloat2 a b"
| "float_lanes [a, b, c] = VFloat3 a b c"
| "float_lanes [a, b, c, d] = VFloat4 a b c d"
| "float_lanes _ = VEmpty"

fun double_lanes :: "double list \<Rightarrow> Value" where
  "double_lanes [a] = VDouble a"
| "double_lanes [a, b] = VDouble2 a b"
| "double_lanes [a, b, c] = VDouble3 a b c"
| "double_lanes [a, b, c, d] = VDouble4 a b c d"
| "double_lanes _ = VEmpty"

definition declared_base :: "externals \<Rightarrow> string \<Rightarrow> (bool \<times> nat) option" where
  "declared_base ext reqTy =
     (case TryGetUnderlyingTypeId ext reqTy of None \<Rightarrow> None | Some t \<Rightarrow> base_type t)"

definition is_half_counterpart :: "externals \<Rightarrow> string \<Rightarrow> Value \<Rightarrow> bool" where
  "is_half_counterpart ext reqTy v =
     (case (declared_base ext reqTy, half_lanes v) of
        (Some (dbl, n), Some hs) \<Rightarrow> length hs = n
      | _ \<Rightarrow> False)"

definition widened :: "externals \<Rightarrow> string \<Rightarrow> Value \<Rightarrow> Value" where
  "widened ext reqTy v =
     (case (declared_base ext reqTy, half_lanes v) of
        (Some (dbl, n), Some hs) \<Rightarrow>
          (if dbl then double_lanes (map (\<lambda>h. float_to_double ext (half_to_float ext h)) hs)
           else float_lanes (map (half_to_float ext) hs))
      | _ \<Rightarrow> v)"

text \<open>
  The attribute of the specification's example: \<open>typeName = "float3"\<close> and
  \<open>default = half3(1.0, 2.0, 3.0)\<close>.
\<close>

definition fields_float3_with_half3 :: FieldValuePairVector where
  "fields_float3_with_half3 =
     [(''typeName'', VToken ''float3''), (''default'', VHalf3 0x3C00 0x4000 0x4200)]"

section \<open>The buckets of a relationship\<close>

text \<open>The buckets in the order the specification gives, and the first that holds an item.\<close>

definition ordered_buckets :: "'a ListOp \<Rightarrow> (ListEditQual \<times> 'a list) list" where
  "ordered_buckets p =
     [(ResetToExplicit, explicit_items p), (Add, added_items p), (Append, appended_items p),
      (Delete, deleted_items p), (Prepend, prepended_items p), (Order, ordered_items p)]"

definition first_nonempty_bucket :: "'a ListOp \<Rightarrow> (ListEditQual \<times> 'a list) option" where
  "first_nonempty_bucket p = find (\<lambda>b. snd b \<noteq> []) (ordered_buckets p)"

definition relation_targets :: "Relation \<Rightarrow> Path list" where
  "relation_targets r =
     (case rel_type r of
        RelPath \<Rightarrow> [targetPath r]
      | RelPathVector \<Rightarrow> targetPathVector r
      | _ \<Rightarrow> [])"

text \<open>A field the loop of \<open>ParseProperty\<close> accepts.\<close>

definition field_ok :: "externals \<Rightarrow> USDCReaderConfig \<Rightarrow> string \<times> Value \<Rightarrow> bool" where
  "field_ok ext cfg fv = (fst (parse_field ext cfg fv PropertyLocals_init Impl_init) \<noteq> None)"

text \<open>
  The relationship of the specification's scenario: \<open>targetPaths\<close> with the Prepend and
  the Append bucket filled.
\<close>

definition listop_prepend_and_append :: "Path ListOp" where
  "listop_prepend_and_append =
     \<lparr>is_explicit = False, explicit_items = [], added_items = [],
      prepended_items = [path_of ''/prepended'' []], appended_items = [path_of ''/appended'' []],
      deleted_items = [], ordered_items = []\<rparr>"

definition fields_rel_prepend_and_append :: FieldValuePairVector where
  "fields_rel_prepend_and_append =
     [(''variability'', VVariability Uniform),
      (''targetPaths'', VListOpPath listop_prepend_and_append),
      (''targetChildren'', VPathVector [path_of ''/prepended'' [], path_of ''/appended'' []])]"

section \<open>Sample schemas and crates\<close>

text \<open>
  A schema set for concrete inputs: the USD names of the Prim types, and a
  \<open>prim::ReconstructPrim\<close> that accepts every property map and keeps the names of its
  properties.
\<close>

definition sample_type_name :: "PrimType \<Rightarrow> string" where
  "sample_type_name T =
     (case T of
        Xform \<Rightarrow> ''Xform'' | Model \<Rightarrow> ''Model'' | Scope \<Rightarrow> ''Scope'' | GeomMesh \<Rightarrow> ''Mesh''
      | GeomPoints \<Rightarrow> ''Points'' | GeomCylinder \<Rightarrow> ''Cylinder'' | GeomCube \<Rightarrow> ''Cube''
      | GeomCone \<Rightarrow> ''Cone'' | GeomSphere \<Rightarrow> ''Sphere'' | GeomCapsule \<Rightarrow> ''Capsule''
      | GeomBasisCurves \<Rightarrow> ''BasisCurves'' | GeomCamera \<Rightarrow> ''Camera''
      | LuxSphereLight \<Rightarrow> ''SphereLight'' | LuxDomeLight \<Rightarrow> ''DomeLight''
      | LuxCylinderLight \<Rightarrow> ''CylinderLight'' | LuxDiskLight \<Rightarrow> ''DiskLight''
      | LuxDistantLight \<Rightarrow> ''DistantLight'' | SkelRoot \<Rightarrow> ''SkelRoot''
      | Skeleton \<Rightarrow> ''Skeleton'' | SkelAnimation \<Rightarrow> ''SkelAnimation''
      | Shader \<Rightarrow> ''Shader'' | Material \<Rightarrow> ''Material'')"

definition sample_schemas :: "unit schemas" where
  "sample_schemas =
     \<lparr>TypeTrait_type_name = sample_type_name,
      prim_ReconstructPrim = (\<lambda>T props. ([], Inr ()))\<rparr>"

definition StageMetas_default :: StageMetas where
  "StageMetas_default =
     \<lparr>upAxis = None, metersPerUnit = None, timeCodesPerSecond = None, startTimeCode = None,
      endTimeCode = None, defaultPrim = None, customLayerData = None, sm_doc = None,
      sm_comment = None\<rparr>"

definition Stage_empty :: "unit Stage" where
  "Stage_empty = \<lparr>metas = StageMetas_default, root_prims = []\<rparr>"



section \<open>Property children\<close>

text \<open>
  The property spec an entry of \<open>pathIndices\<close> stands for, where \<open>BuildPropertyMap\<close>
  gets as far as \<open>ParseProperty\<close> with it: its spec type, the property part of its
  path and its fieldset.
\<close>

definition property_spec_of ::
  "Tables \<Rightarrow> PathIndexToSpecIndexMap \<Rightarrow> nat \<Rightarrow> (SpecType \<times> string \<times> FieldValuePairVector) option"
  where
  "property_spec_of tbl psmap entry =
     (let c = int_of_size_t entry in
      if c < 0 \<or> c \<ge> int_of_size_t (length (nodes tbl)) then None
      else
        (case psmap (uint32_of_int c) of
           None \<Rightarrow> None
         | Some si \<Rightarrow>
             (if unat si \<ge> length (specs tbl) then None
              else
                (let spec = specs tbl ! unat si in
                 if spec_type spec \<noteq> SpecTypeAttribute \<and> spec_type spec \<noteq> SpecTypeRelationship
                 then None
                 else
                   (case GetPath (paths tbl) (path_index spec) of
                      Returns (Some path) \<Rightarrow>
                        (case live_fieldsets tbl (fieldset_index spec) of
                           Some fvs \<Rightarrow> Some (spec_type spec, prop_part path, fvs)
                         | None \<Rightarrow> None)
                    | _ \<Rightarrow> None)))))"

text \<open>
  A scene with the pseudo-root, one Xform Prim and two attribute specs under it whose
  paths have the same property part \<open>x\<close>: the first declares a \<open>float\<close>, the second
  a \<open>double\<close>.
\<close>

definition tables_duplicate_property :: Tables where
  "tables_duplicate_property =
     \<lparr>nodes = [\<lparr>GetChildren = [1]\<rparr>, \<lparr>GetChildren = [2, 3]\<rparr>, \<lparr>GetChildren = []\<rparr>,
               \<lparr>GetChildren = []\<rparr>],
      specs = [\<lparr>path_index = 0, fieldset_index = 0, spec_type = SpecTypePseudoRoot\<rparr>,
               \<lparr>path_index = 1, fieldset_index = 1, spec_type = SpecTypePrim\<rparr>,
               \<lparr>path_index = 2, fieldset_index = 2, spec_type = SpecTypeAttribute\<rparr>,
               \<lparr>path_index = 3, fieldset_index = 3, spec_type = SpecTypeAttribute\<rparr>],
      paths = [RootPath, path_of ''/prim'' [], path_of ''/prim'' ''x'', path_of ''/prim'' ''x''],
      elemPaths = [RootPath, path_of ''prim'' [], path_of [] ''x'', path_of [] ''x''],
      live_fieldsets =
        map_of [(0, []),
                (1, [(''specifier'', VSpecifier Def), (''typeName'', VToken ''Xform'')]),
                (2, [(''typeName'', VToken ''float'')]),
                (3, [(''typeName'', VToken ''double'')])]\<rparr>"

definition psmap_identity_4 :: PathIndexToSpecIndexMap where
  "psmap_identity_4 = map_of [(0, 0), (1, 1), (2, 2), (3, 3)]"

section \<open>Nesting\<close>

text \<open>
  \<open>nested tbl c n\<close>: below node \<open>c\<close> there is a chain of \<open>n\<close> child links, each to a
  node index as the recursion converts it.
\<close>

fun nested :: "Tables \<Rightarrow> int \<Rightarrow> nat \<Rightarrow> bool" where
  "nested tbl c 0 = True"
| "nested tbl c (Suc n) =
     (0 \<le> c \<and> c < int_of_size_t (length (nodes tbl))
      \<and> (\<exists>ch \<in> set (GetChildren (nodes tbl ! nat c)). nested tbl (int_of_size_t ch) n))"

text \<open>
  A scene with the pseudo-root and two nested Xform Prims, \<open>a\<close> and \<open>b\<close> under it, and
  a configuration that allows one level.
\<close>

definition def_xform_fields :: FieldValuePairVector where
  "def_xform_fields = [(''specifier'', VSpecifier Def), (''typeName'', VToken ''Xform'')]"

definition tables_two_nested_prims :: Tables where
  "tables_two_nested_prims =
     \<lparr>nodes = [\<lparr>GetChildren = [1]\<rparr>, \<lparr>GetChildren = [2]\<rparr>, \<lparr>GetChildren = []\<rparr>],
      specs = [\<lparr>path_index = 0, fieldset_index = 0, spec_type = SpecTypePseudoRoot\<rparr>,
               \<lparr>path_index = 1, fieldset_index = 1, spec_type = SpecTypePrim\<rparr>,
               \<lparr>path_index = 2, fieldset_index = 2, spec_type = SpecTypePrim\<rparr>],
      paths = [RootPath, path_of ''/a'' [], path_of ''/a/b'' []],
      elemPaths = [RootPath, path_of ''a'' [], path_of ''b'' []],
      live_fieldsets = map_of [(0, []), (1, def_xform_fields), (2, def_xform_fields)]\<rparr>"

definition psmap_identity_3 :: PathIndexToSpecIndexMap where
  "psmap_identity_3 = map_of [(0, 0), (1, 1), (2, 2)]"

definition config_one_level :: USDCReaderConfig where
  "config_one_level = sample_config\<lparr>kMaxPrimNestLevel := 1\<rparr>"

definition xform_prim :: "string \<Rightarrow> unit Prim" where
  "xform_prim name =
     Prim \<lparr>tp_type = Xform, tp_value = (), tp_meta = PrimMeta_default, tp_name = name\<rparr>
       (path_of name []) []"

section \<open>The marker table\<close>

text \<open>
  The spec type the reader finds for a node: through the map from path indices to spec
  indices, then the spec table.
\<close>

definition spec_type_of :: "Spec list \<Rightarrow> PathIndexToSpecIndexMap \<Rightarrow> int \<Rightarrow> SpecType option" where
  "spec_type_of ss psmap n =
     (case psmap (uint32_of_int n) of
        None \<Rightarrow> None
      | Some si \<Rightarrow> (if unat si < length ss then Some (spec_type (ss ! unat si)) else None))"

text \<open>
  The nodes that may stand in \<open>_prim_table\<close>: node 0 with the spec type PseudoRoot, and
  any other node with the spec type Prim.
\<close>

definition marker_ok :: "Spec list \<Rightarrow> PathIndexToSpecIndexMap \<Rightarrow> int \<Rightarrow> bool" where
  "marker_ok ss psmap n =
     (if n = 0 then spec_type_of ss psmap n = Some SpecTypePseudoRoot
      else spec_type_of ss psmap n = Some SpecTypePrim)"

text \<open>The spec type of a node of a crate, with the map \<open>ReconstructStage\<close> builds.\<close>

definition node_spec_type :: "CrateReader \<Rightarrow> int \<Rightarrow> SpecType option" where
  "node_spec_type crate_reader n =
     (case build_path_index_to_spec_index_map (GetSpecs crate_reader) 0 Map.empty of
        None \<Rightarrow> None
      | Some psmap \<Rightarrow> spec_type_of (GetSpecs crate_reader) psmap n)"

text \<open>
  A scene with the pseudo-root, a Prim \<open>c\<close> with the specifier \<open>class\<close> under it, and
  an Xform Prim \<open>x\<close> with the specifier \<open>def\<close> under \<open>c\<close>.
\<close>

definition class_xform_fields :: FieldValuePairVector where
  "class_xform_fields = [(''specifier'', VSpecifier Class), (''typeName'', VToken ''Xform'')]"

definition tables_def_under_class :: Tables where
  "tables_def_under_class =
     \<lparr>nodes = [\<lparr>GetChildren = [1]\<rparr>, \<lparr>GetChildren = [2]\<rparr>, \<lparr>GetChildren = []\<rparr>],
      specs = [\<lparr>path_index = 0, fieldset_index = 0, spec_type = SpecTypePseudoRoot\<rparr>,
               \<lparr>path_index = 1, fieldset_index = 1, spec_type = SpecTypePrim\<rparr>,
               \<lparr>path_index = 2, fieldset_index = 2, spec_type = SpecTypePrim\<rparr>],
      paths = [RootPath, path_of ''/c'' [], path_of ''/c/x'' []],
      elemPaths = [RootPath, path_of ''c'' [], path_of ''x'' []],
      live_fieldsets = map_of [(0, []), (1, class_xform_fields), (2, def_xform_fields)]\<rparr>"

definition crate_def_under_class :: CrateReader where
  "crate_def_under_class =
     \<lparr>NumNodes = 3, GetNodes = nodes tables_def_under_class,
      GetSpecs = specs tables_def_under_class, GetPaths = paths tables_def_under_class,
      GetElemPaths = elemPaths tables_def_under_class,
      GetLiveFieldSets = live_fieldsets tables_def_under_class\<rparr>"

text \<open>The reader after the nodes 0 and 1 of that scene, and after the whole scene.\<close>

definition class_warning :: string where
  "class_warning = ''TODO: `class` specifier. skipping this model...''"

definition Impl_after_class :: Impl where
  "Impl_after_class = \<lparr>err = [], warn = [class_warning], prim_table = {0}\<rparr>"

definition Impl_after_scene :: Impl where
  "Impl_after_scene = \<lparr>err = [], warn = [class_warning], prim_table = {2, 0}\<rparr>"

section \<open>Theorems\<close>

subsection \<open>The path tables\<close>

text \<open>
  C6.  The claim: an index out of range of the path tables, the index equal to the size
  of the table in particular, is refused by \<open>GetPath\<close> and \<open>GetElemPath\<close>, which
  return no value instead of reading past the end.  The guard of the code is
  \<open>index.value <= size()\<close>: an index beyond the size is refused, and at the index equal
  to the size both functions read the element one past the end of the table.
\<close>

theorem GetPath_at_size_reads_past_end:
  assumes "unat index = length table"
  shows "GetPath table index = UndefinedBehaviour \<and> GetElemPath table index = UndefinedBehaviour"
  using assms by (simp add: GetPath_def GetElemPath_def vector_at_def)

theorem GetPath_at_size_reads_past_end_witness:
  "unat (1 :: 32 word) = length [RootPath]
   \<and> GetPath [RootPath] 1 = UndefinedBehaviour
   \<and> GetElemPath [RootPath] 1 = UndefinedBehaviour"
proof -
  have h: "unat (1 :: 32 word) = length [RootPath]" by simp
  show ?thesis using h GetPath_at_size_reads_past_end [OF h] by simp
qed

subsection \<open>API schemas\<close>

text \<open>
  C7, as the code has it.  For every \<open>apiSchemas\<close> list-op that is not marked
  explicit: with two or more non-empty buckets \<open>ToAPISchemas\<close> fails with the error
  of different list-edit qualifiers, and with the Order bucket as the only non-empty one
  it fails as not supported.
\<close>

theorem ToAPISchemas_rejects_multiple_buckets_and_order:
  assumes "\<not> is_explicit arg"
  shows "(2 \<le> nonempty_buckets arg \<longrightarrow> ToAPISchemas arg = Inl different_qualifiers)
       \<and> (nonempty_buckets arg = 1 \<and> ordered_items arg \<noteq> []
            \<longrightarrow> ToAPISchemas arg = Inl ''TODO: Ordered ListOp items.'')"
proof (intro conjI impI)
  assume "2 \<le> nonempty_buckets arg"
  with assms show "ToAPISchemas arg = Inl different_qualifiers"
    by (auto simp: ToAPISchemas_def nonempty_buckets_def buckets_def split: if_splits)
next
  assume "nonempty_buckets arg = 1 \<and> ordered_items arg \<noteq> []"
  with assms show "ToAPISchemas arg = Inl ''TODO: Ordered ListOp items.''"
    by (auto simp: ToAPISchemas_def nonempty_buckets_def buckets_def split: if_splits)
qed

theorem ToAPISchemas_rejects_multiple_buckets_and_order_witness:
  "\<not> is_explicit listop_added_and_appended
   \<and> 2 \<le> nonempty_buckets listop_added_and_appended
   \<and> ToAPISchemas listop_added_and_appended = Inl different_qualifiers
   \<and> \<not> is_explicit listop_ordered_only
   \<and> nonempty_buckets listop_ordered_only = 1
   \<and> ordered_items listop_ordered_only \<noteq> []
   \<and> ToAPISchemas listop_ordered_only = Inl ''TODO: Ordered ListOp items.''"
proof -
  have a: "\<not> is_explicit listop_added_and_appended"
    by (simp add: listop_added_and_appended_def)
  have b: "2 \<le> nonempty_buckets listop_added_and_appended"
    by (simp add: listop_added_and_appended_def nonempty_buckets_def buckets_def)
  have c: "\<not> is_explicit listop_ordered_only"
    by (simp add: listop_ordered_only_def)
  have d: "nonempty_buckets listop_ordered_only = 1 \<and> ordered_items listop_ordered_only \<noteq> []"
    by (simp add: listop_ordered_only_def nonempty_buckets_def buckets_def)
  show ?thesis
    using a b c d
      ToAPISchemas_rejects_multiple_buckets_and_order [OF a]
      ToAPISchemas_rejects_multiple_buckets_and_order [OF c]
    by simp
qed

text \<open>
  C7, as the specification states it, has every list-op whose only non-empty bucket is
  Order fail as not supported, marked explicit or not.  A list-op marked explicit takes
  the fast path of \<open>ToAPISchemas\<close>, which reads the explicit items alone: with the
  Order bucket as its only non-empty one the result is a success, an \<open>APISchemas\<close>
  with the qualifier \<open>ResetToExplicit\<close> and no name.
\<close>

theorem ToAPISchemas_explicit_order_counterexample:
  "is_explicit listop_explicit_ordered_only
   \<and> nonempty_buckets listop_explicit_ordered_only = 1
   \<and> ordered_items listop_explicit_ordered_only = [''MaterialBindingAPI'']
   \<and> ToAPISchemas listop_explicit_ordered_only =
       Inr \<lparr>api_listOpQual = ResetToExplicit, api_names = []\<rparr>"
  by (simp add: listop_explicit_ordered_only_def nonempty_buckets_def buckets_def
        ToAPISchemas_def schemas_of_def)

subsection \<open>Facts about the loop of \<open>ParseProperty\<close>\<close>

lemmas field_defs =
  field_custom_def field_variability_def field_typeName_def field_default_def
  field_timeSamples_def field_interpolation_def field_connectionPaths_def
  field_targetPaths_def field_elementSize_def field_targetChildren_def
  field_connectionChildren_def field_customData_def field_comment_def

lemma parse_field_propType:
  "parse_field ext cfg fv l I = (Some l', I')
   \<Longrightarrow> propType l' = (case classifier (fst fv) of Some c \<Rightarrow> c | None \<Rightarrow> propType l)"
  by (auto simp: parse_field_def classifier_def Let_def field_defs
      split: if_splits option.splits)

lemma parse_field_typeName:
  "parse_field ext cfg fv l I = (Some l', I')
   \<Longrightarrow> typeName l' = (if fst fv = ''typeName'' then get_token (snd fv) else typeName l)
       \<and> (fst fv = ''typeName'' \<longrightarrow> get_token (snd fv) \<noteq> None)"
  by (auto simp: parse_field_def Let_def field_defs split: if_splits option.splits)

lemma parse_field_rel_set:
  "parse_field ext cfg fv l I = (Some l', I')
   \<Longrightarrow> propType l = Relation \<longrightarrow> rel_type (lrel l) \<noteq> RelEmpty
   \<Longrightarrow> propType l' = Relation \<longrightarrow> rel_type (lrel l') \<noteq> RelEmpty"
  by (auto simp: parse_field_def Let_def field_defs Set_Path_def Set_PathVector_def
        SetListEditQualifier_def
      split: if_splits option.splits)

lemma parse_fields_propType:
  "parse_fields ext cfg fvs l I = (Some l', I') \<Longrightarrow> propType l' = last_propType (propType l) fvs"
proof (induction fvs arbitrary: l I)
  case Nil
  then show ?case by (simp add: last_propType_def)
next
  case (Cons fv fvs)
  from Cons.prems obtain l1 I1 where
    step: "parse_field ext cfg fv l I = (Some l1, I1)"
    and rest: "parse_fields ext cfg fvs l1 I1 = (Some l', I')"
    by (auto split: prod.splits option.splits)
  have "propType l' = last_propType (propType l1) fvs"
    using Cons.IH [OF rest] .
  then show ?case
    using parse_field_propType [OF step] by (simp add: last_propType_def)
qed

lemma parse_fields_typeName_seen:
  "parse_fields ext cfg fvs l I = (Some l', I')
   \<Longrightarrow> (typeName l' \<noteq> None) = (typeName l \<noteq> None \<or> seen ''typeName'' fvs)"
proof (induction fvs arbitrary: l I)
  case Nil
  then show ?case by (simp add: seen_def)
next
  case (Cons fv fvs)
  from Cons.prems obtain l1 I1 where
    step: "parse_field ext cfg fv l I = (Some l1, I1)"
    and rest: "parse_fields ext cfg fvs l1 I1 = (Some l', I')"
    by (auto split: prod.splits option.splits)
  show ?case
    using Cons.IH [OF rest] parse_field_typeName [OF step]
    by (auto simp: seen_def)
qed

lemma parse_fields_rel_set:
  "parse_fields ext cfg fvs l I = (Some l', I')
   \<Longrightarrow> propType l = Relation \<longrightarrow> rel_type (lrel l) \<noteq> RelEmpty
   \<Longrightarrow> propType l' = Relation \<longrightarrow> rel_type (lrel l') \<noteq> RelEmpty"
proof (induction fvs arbitrary: l I)
  case Nil
  then show ?case by simp
next
  case (Cons fv fvs)
  from Cons.prems(1) obtain l1 I1 where
    step: "parse_field ext cfg fv l I = (Some l1, I1)"
    and rest: "parse_fields ext cfg fvs l1 I1 = (Some l', I')"
    by (auto split: prod.splits option.splits)
  show ?case
    using Cons.IH [OF rest] parse_field_rel_set [OF step] Cons.prems(2) by blast
qed

lemma store_propType [simp]:
  "propType (store_metas (store_scalar ext l)) = propType l"
  "typeName (store_metas (store_scalar ext l)) = typeName l"
  "lrel (store_metas (store_scalar ext l)) = lrel l"
  "custom (store_metas (store_scalar ext l)) = custom l"
  by (simp_all add: store_metas_def store_scalar_def Let_def)

lemma field_fails:
  "(fst (field_custom v l I) = None) = (get_bool v = None)"
  "(fst (field_variability v l I) = None) = (get_Variability v = None)"
  "(fst (field_typeName v l I) = None) = (get_token v = None)"
  "fst (field_default v l I) \<noteq> None"
  "(fst (field_timeSamples ext v l I) = None) = (get_TimeSamples v = None)"
  "(fst (field_interpolation ext v l I) = None) =
     (case get_token v of None \<Rightarrow> True | Some t \<Rightarrow> InterpolationFromString ext t = None)"
  "(fst (field_connectionPaths v l I) = None) =
     (case get_ListOpPath v of None \<Rightarrow> True | Some p \<Rightarrow> \<not> is_explicit p \<or> explicit_items p = [])"
  "(fst (field_targetPaths ext v l I) = None) =
     (case get_ListOpPath v of None \<Rightarrow> True | Some p \<Rightarrow> DecodeListOp p = [])"
  "(fst (field_elementSize cfg v l I) = None) =
     (case get_int v of None \<Rightarrow> True | Some p \<Rightarrow> sint p < 1 \<or> p > kMaxElementSize cfg)"
  "(fst (field_targetChildren v l I) = None) = (get_PathVector v = None)"
  "(fst (field_connectionChildren v l I) = None) = (get_PathVector v = None)"
  "(fst (field_customData v l I) = None) = (get_CustomData v = None)"
  "(fst (field_comment ext v l I) = None) = (get_string v = None)"
  by (simp_all add: field_defs Let_def split: option.splits)

lemma parse_field_ok_indep:
  "(fst (parse_field ext cfg fv l I) \<noteq> None) = field_ok ext cfg fv"
  by (simp add: field_ok_def parse_field_def Let_def field_fails del: not_None_eq)

lemma parse_fields_all_ok:
  "\<forall>fv \<in> set fvs. field_ok ext cfg fv \<Longrightarrow> fst (parse_fields ext cfg fvs l I) \<noteq> None"
proof (induction fvs arbitrary: l I)
  case Nil
  then show ?case by simp
next
  case (Cons fv fvs)
  from Cons.prems have "field_ok ext cfg fv" by simp
  then have "fst (parse_field ext cfg fv l I) \<noteq> None"
    by (simp only: parse_field_ok_indep)
  then obtain l1 I1 where step: "parse_field ext cfg fv l I = (Some l1, I1)"
    by (cases "parse_field ext cfg fv l I") auto
  show ?case
    using Cons.IH [of l1 I1] Cons.prems step by simp
qed

subsection \<open>Classification\<close>

text \<open>
  Where the loop refuses no field, the result of \<open>ParseProperty\<close> reads the last
  assignment of \<open>propType\<close> first.
\<close>

lemma ParseProperty_classification_of_loop:
  assumes "length fvs \<le> unat (kMaxFieldValuePairs cfg)"
    and "fst (parse_fields ext cfg fvs PropertyLocals_init I) \<noteq> None"
  shows "classification_of (fst (ParseProperty ext cfg st fvs I)) = last_field_classification st fvs
       \<and> snd (ParseProperty ext cfg st fvs I) =
           (if last_field_classification st fvs = MissingTypeName
            then PushError ''`typeName` field is missing.''
                   (snd (parse_fields ext cfg fvs PropertyLocals_init I))
            else snd (parse_fields ext cfg fvs PropertyLocals_init I))"
proof -
  from assms(2) obtain l I' where
    loop: "parse_fields ext cfg fvs PropertyLocals_init I = (Some l, I')"
    by (cases "parse_fields ext cfg fvs PropertyLocals_init I") auto
  have pt: "propType l = last_propType EmptyAttrib fvs"
    using parse_fields_propType [OF loop] by (simp add: PropertyLocals_init_def)
  have tn: "(typeName l \<noteq> None) = seen ''typeName'' fvs"
    using parse_fields_typeName_seen [OF loop] by (simp add: PropertyLocals_init_def)
  have rl: "propType l = Relation \<longrightarrow> rel_type (lrel l) \<noteq> RelEmpty"
    using parse_fields_rel_set [OF loop] by (simp add: PropertyLocals_init_def)
  have pp: "ParseProperty ext cfg st fvs I = classify st (store_metas (store_scalar ext l)) I'"
    using assms(1) loop by (simp add: ParseProperty_def)
  have fin: "snd (parse_fields ext cfg fvs PropertyLocals_init I) = I'"
    using loop by simp
  have never: "last_propType t fvs \<noteq> NoTargetsRelation" if "t \<noteq> NoTargetsRelation" for t
    using that
  proof (induction fvs arbitrary: t)
    case Nil
    then show ?case by (simp add: last_propType_def)
  next
    case (Cons fv fvs)
    have "(case classifier (fst fv) of Some c \<Rightarrow> c | None \<Rightarrow> t) \<noteq> NoTargetsRelation"
      using Cons.prems by (auto simp: classifier_def)
    from Cons.IH [OF this] show ?case by (simp add: last_propType_def)
  qed
  have "classification_of (fst (classify st (store_metas (store_scalar ext l)) I'))
          = last_field_classification st fvs
        \<and> snd (classify st (store_metas (store_scalar ext l)) I') =
            (if last_field_classification st fvs = MissingTypeName
             then PushError ''`typeName` field is missing.'' I' else I')"
  proof (cases "last_propType EmptyAttrib fvs")
    case EmptyAttrib
    then have e: "propType l = EmptyAttrib" using pt by simp
    show ?thesis
    proof (cases "typeName l")
      case None
      then have "\<not> seen ''typeName'' fvs" using tn by simp
      then show ?thesis
        using None e EmptyAttrib
        by (simp add: classify_def classification_of_def last_field_classification_def
              Property_rel_def SetEmpty_def Relation_default_def)
    next
      case (Some t)
      then have "seen ''typeName'' fvs" using tn by simp
      then show ?thesis
        using Some e EmptyAttrib
        by (simp add: classify_def classification_of_def last_field_classification_def
              Property_type_name_def)
    qed
  next
    case Attrib
    then have e: "propType l = Attrib" using pt by simp
    show ?thesis
      using e Attrib
      by (simp add: classify_def classification_of_def last_field_classification_def
            Property_attrib_def)
  next
    case Relation
    then have e: "propType l = Relation" using pt by simp
    then have r: "rel_type (lrel l) \<noteq> RelEmpty" using rl by simp
    show ?thesis
      using e r Relation
      by (simp add: classify_def classification_of_def last_field_classification_def
            Property_rel_def)
  next
    case NoTargetsRelation
    then show ?thesis
      using never [of EmptyAttrib] by simp
  next
    case Connection
    then have e: "propType l = Connection" using pt by simp
    show ?thesis
      using e Connection
      by (simp add: classify_def classification_of_def last_field_classification_def
            Property_rel_def)
  qed
  then show ?thesis
    using pp fin by simp
qed

lemma last_propType_value_field:
  "\<not> seen ''interpolation'' fvs
   \<Longrightarrow> (case last_propType EmptyAttrib fvs of
          Attrib \<Rightarrow> Some IsAttr
        | Connection \<Rightarrow> Some IsConnection
        | Relation \<Rightarrow> Some IsRelationship
        | _ \<Rightarrow> None) = last_value_field fvs"
proof (induction fvs rule: rev_induct)
  case Nil
  then show ?case by (simp add: last_propType_def last_value_field_def)
next
  case (snoc fv fvs)
  from snoc.prems have a: "\<not> seen ''interpolation'' fvs" and b: "fst fv \<noteq> ''interpolation''"
    by (auto simp: seen_def)
  have step: "last_propType EmptyAttrib (fvs @ [fv]) =
                (case classifier (fst fv) of Some c \<Rightarrow> c
                 | None \<Rightarrow> last_propType EmptyAttrib fvs)"
    unfolding last_propType_def by simp
  show ?case
  proof (cases "value_field (fst fv)")
    case None
    then have "classifier (fst fv) = None"
      using b by (simp add: value_field_def classifier_def split: if_splits)
    moreover have "last_value_field (fvs @ [fv]) = last_value_field fvs"
      using None by (simp add: last_value_field_def)
    ultimately show ?thesis
      using snoc.IH [OF a] step by simp
  next
    case (Some c)
    then have "last_value_field (fvs @ [fv]) = Some c"
      by (simp add: last_value_field_def)
    then show ?thesis
      using Some step
      by (auto simp: value_field_def classifier_def split: if_splits)
  qed
qed

lemma last_field_classification_no_interpolation:
  assumes "\<not> seen ''interpolation'' fvs"
  shows "last_field_classification st fvs = last_value_field_classification st fvs"
proof -
  have "last_value_field fvs =
          (case last_propType EmptyAttrib fvs of
             Attrib \<Rightarrow> Some IsAttr
           | Connection \<Rightarrow> Some IsConnection
           | Relation \<Rightarrow> Some IsRelationship
           | _ \<Rightarrow> None)"
    using last_propType_value_field [OF assms] by simp
  then show ?thesis
    by (simp add: last_field_classification_def last_value_field_classification_def
        split: PropertyType.splits)
qed

text \<open>
  C1, as the code has it.  The fieldset has at most \<open>kMaxFieldValuePairs\<close> fields and
  no \<open>interpolation\<close> field, and the loop of \<open>ParseProperty\<close> accepts each of its
  fields, that is, no field makes it return \<open>false\<close>: the value of the field has the
  type its name asks for, an \<open>elementSize\<close> lies within 1 and \<open>kMaxElementSize\<close>, a
  \<open>connectionPaths\<close> list-op is explicit with an item, a \<open>targetPaths\<close> list-op is
  explicit or has a non-empty bucket.  Then, for every SpecType,
  the Property is classified by the last field of the fieldset among \<open>default\<close>,
  \<open>timeSamples\<close>, \<open>connectionPaths\<close> and \<open>targetPaths\<close>: \<open>default\<close> and
  \<open>timeSamples\<close> make it an Attr, \<open>connectionPaths\<close> a Connection, \<open>targetPaths\<close> a
  Relationship.  With none of these fields it is an EmptyAttr when \<open>typeName\<close> was
  seen, else a Relationship without target when the SpecType is Relationship, and else
  \<open>ParseProperty\<close> fails with the error of the missing \<open>typeName\<close>, the one error
  it adds.
\<close>

theorem ParseProperty_classifies_by_last_value_field:
  assumes "length fvs \<le> unat (kMaxFieldValuePairs cfg)"
    and "\<forall>fv \<in> set fvs. field_ok ext cfg fv"
    and "\<not> seen ''interpolation'' fvs"
  shows "classification_of (fst (ParseProperty ext cfg st fvs I))
           = last_value_field_classification st fvs
       \<and> snd (ParseProperty ext cfg st fvs I) =
           (if last_value_field_classification st fvs = MissingTypeName
            then PushError ''`typeName` field is missing.''
                   (snd (parse_fields ext cfg fvs PropertyLocals_init I))
            else snd (parse_fields ext cfg fvs PropertyLocals_init I))"
proof -
  have ok: "fst (parse_fields ext cfg fvs PropertyLocals_init I) \<noteq> None"
    using assms(2) by (rule parse_fields_all_ok)
  have eq: "last_field_classification st fvs = last_value_field_classification st fvs"
    using assms(3) by (rule last_field_classification_no_interpolation)
  show ?thesis
    using ParseProperty_classification_of_loop [OF assms(1) ok, of st] eq
    by (simp del: not_None_eq)
qed

theorem ParseProperty_classifies_by_last_value_field_witness:
  "length fields_default_then_connection \<le> unat (kMaxFieldValuePairs sample_config)
   \<and> field_ok sample_externals sample_config (''typeName'', VToken ''float'')
   \<and> field_ok sample_externals sample_config (''default'', VFloat 0)
   \<and> field_ok sample_externals sample_config
       (''connectionPaths'', VListOpPath (explicit_listop [path_of ''/mat/tex'' ''outputs:r'']))
   \<and> \<not> seen ''interpolation'' fields_default_then_connection
   \<and> last_value_field_classification SpecTypeAttribute fields_default_then_connection
       = IsConnection
   \<and> classification_of
       (fst (ParseProperty sample_externals sample_config SpecTypeAttribute
               fields_default_then_connection Impl_init)) = IsConnection"
proof -
  have a: "length fields_default_then_connection \<le> unat (kMaxFieldValuePairs sample_config)"
    by (simp add: fields_default_then_connection_def sample_config_def)
  have b1: "field_ok sample_externals sample_config (''typeName'', VToken ''float'')"
    by (simp add: field_ok_def parse_field_def field_typeName_def get_token_def)
  have b2: "field_ok sample_externals sample_config (''default'', VFloat 0)"
    by (simp add: field_ok_def parse_field_def field_default_def)
  have b3: "field_ok sample_externals sample_config
              (''connectionPaths'',
               VListOpPath (explicit_listop [path_of ''/mat/tex'' ''outputs:r'']))"
    by (simp add: field_ok_def parse_field_def field_connectionPaths_def get_ListOpPath_def
          explicit_listop_def Let_def)
  have b: "\<forall>fv \<in> set fields_default_then_connection. field_ok sample_externals sample_config fv"
    using b1 b2 b3 by (simp add: fields_default_then_connection_def)
  have c: "\<not> seen ''interpolation'' fields_default_then_connection"
    by (simp add: seen_def fields_default_then_connection_def)
  have d: "last_value_field_classification SpecTypeAttribute fields_default_then_connection
             = IsConnection"
    by (simp add: last_value_field_classification_def last_value_field_def value_field_def
          fields_default_then_connection_def)
  show ?thesis
    using a b1 b2 b3 c d
      ParseProperty_classifies_by_last_value_field
        [OF a b c, of SpecTypeAttribute Impl_init]
    by simp
qed

text \<open>
  C1, as the specification states it, gives \<open>default\<close> precedence over
  \<open>connectionPaths\<close> wherever they stand.  On a fieldset with \<open>default\<close> first and
  \<open>connectionPaths\<close> after it the code returns a Connection.
\<close>

theorem ParseProperty_precedence_counterexample:
  "classification_of
     (fst (ParseProperty sample_externals sample_config SpecTypeAttribute
             fields_default_then_connection Impl_init)) = IsConnection
   \<and> spec_classification SpecTypeAttribute fields_default_then_connection = IsAttr"
  by (simp add: ParseProperty_def fields_default_then_connection_def sample_config_def
        parse_field_def field_defs get_token_def get_ListOpPath_def explicit_listop_def
        Let_def store_metas_def store_scalar_def classify_def classification_of_def
        Property_rel_def spec_classification_def seen_def PropertyLocals_init_def)

subsection \<open>The up-cast of a scalar\<close>

lemma UpcastType_is_widening:
  "snd (UpcastType ext reqTy v) =
     (if is_half_counterpart ext reqTy v then widened ext reqTy v else v)"
proof (cases "TryGetUnderlyingTypeId ext reqTy")
  case None
  then show ?thesis
    by (simp add: UpcastType_def is_half_counterpart_def declared_base_def)
next
  case (Some t)
  then show ?thesis
    by (cases t; cases v)
      (simp_all add: UpcastType_def is_half_counterpart_def widened_def declared_base_def
         base_type_def half_lanes_def Let_def)
qed

lemma parse_field_scalar:
  "parse_field ext cfg fv l I = (Some l', I')
   \<Longrightarrow> scalar l' = (if fst fv = ''default'' then snd fv else scalar l)
       \<and> is_scalar l' = (is_scalar l \<or> fst fv = ''default'')"
  by (auto simp: parse_field_def Let_def field_defs split: if_splits option.splits)

lemma parse_fields_scalar:
  "parse_fields ext cfg fvs l I = (Some l', I')
   \<Longrightarrow> scalar l' = (case map_of (rev fvs) ''default'' of Some v \<Rightarrow> v | None \<Rightarrow> scalar l)
       \<and> is_scalar l' = (is_scalar l \<or> map_of (rev fvs) ''default'' \<noteq> None)"
proof (induction fvs arbitrary: l I)
  case Nil
  then show ?case by simp
next
  case (Cons fv fvs)
  from Cons.prems obtain l1 I1 where
    step: "parse_field ext cfg fv l I = (Some l1, I1)"
    and rest: "parse_fields ext cfg fvs l1 I1 = (Some l', I')"
    by (auto split: prod.splits option.splits)
  show ?case
    using Cons.IH [OF rest] parse_field_scalar [OF step]
    by (cases fv) (auto simp: map_add_def split: option.splits)
qed

lemma parse_fields_typeName:
  "parse_fields ext cfg fvs l I = (Some l', I')
   \<Longrightarrow> typeName l' =
         (case map_of (rev fvs) ''typeName'' of Some v \<Rightarrow> get_token v | None \<Rightarrow> typeName l)"
proof (induction fvs arbitrary: l I)
  case Nil
  then show ?case by simp
next
  case (Cons fv fvs)
  from Cons.prems obtain l1 I1 where
    step: "parse_field ext cfg fv l I = (Some l1, I1)"
    and rest: "parse_fields ext cfg fvs l1 I1 = (Some l', I')"
    by (auto split: prod.splits option.splits)
  show ?case
    using Cons.IH [OF rest] parse_field_typeName [OF step]
    by (cases fv) (auto simp: map_add_def split: option.splits)
qed

text \<open>
  C2.  A scalar attribute: the fieldset is accepted and classified as an Attr, its last
  \<open>default\<close> field holds the value \<open>v\<close> and its last \<open>typeName\<close> field a name that
  differs from the type name of \<open>v\<close>.  The value stored in the attribute is \<open>v\<close>
  widened lane by lane when \<open>v\<close> is the half-precision counterpart of the float or
  double base type of the declared name, and \<open>v\<close> itself otherwise.  The witness is the
  example of the specification.
\<close>

theorem ParseProperty_upcasts_half_scalar:
  assumes "length fvs \<le> unat (kMaxFieldValuePairs cfg)"
    and "fst (parse_fields ext cfg fvs PropertyLocals_init I) \<noteq> None"
    and "last_field_classification st fvs = IsAttr"
    and "map_of (rev fvs) ''default'' = Some v"
    and "map_of (rev fvs) ''typeName'' = Some (VToken reqTy)"
    and "reqTy \<noteq> type_name v"
  shows "\<exists>p. fst (ParseProperty ext cfg st fvs I) = Some p \<and> ptype p = Attrib
           \<and> pa_var (attrib p) =
               PrimVarScalar (if is_half_counterpart ext reqTy v then widened ext reqTy v else v)"
proof -
  from assms(2) obtain l I' where
    loop: "parse_fields ext cfg fvs PropertyLocals_init I = (Some l, I')"
    by (cases "parse_fields ext cfg fvs PropertyLocals_init I") auto
  have "propType l = last_propType EmptyAttrib fvs"
    using parse_fields_propType [OF loop] by (simp add: PropertyLocals_init_def)
  with assms(3) have pt: "propType l = Attrib"
    by (cases "last_propType EmptyAttrib fvs")
      (simp_all add: last_field_classification_def split: if_splits)
  have sc: "scalar l = v" "is_scalar l"
    using parse_fields_scalar [OF loop] assms(4) by simp_all
  have tn: "typeName l = Some reqTy"
    using parse_fields_typeName [OF loop] assms(5) by (simp add: get_token_def)
  have pp: "ParseProperty ext cfg st fvs I = classify st (store_metas (store_scalar ext l)) I'"
    using assms(1) loop by (simp add: ParseProperty_def)
  have var: "pa_var (attr (store_metas (store_scalar ext l))) =
               PrimVarScalar (snd (UpcastType ext reqTy v))"
    using sc tn assms(6)
    by (simp add: store_metas_def store_scalar_def set_var_def set_scalar_def Let_def)
  have "fst (classify st (store_metas (store_scalar ext l)) I')
          = Some (Property_attrib (attr (store_metas (store_scalar ext l))) (custom l))"
    using pt by (simp add: classify_def)
  then show ?thesis
    using pp var by (simp add: Property_attrib_def UpcastType_is_widening)
qed

theorem ParseProperty_upcasts_half_scalar_witness:
  "length fields_float3_with_half3 \<le> unat (kMaxFieldValuePairs sample_config)
   \<and> fst (parse_fields sample_externals sample_config fields_float3_with_half3
            PropertyLocals_init Impl_init) \<noteq> None
   \<and> last_field_classification SpecTypeAttribute fields_float3_with_half3 = IsAttr
   \<and> map_of (rev fields_float3_with_half3) ''default'' = Some (VHalf3 0x3C00 0x4000 0x4200)
   \<and> map_of (rev fields_float3_with_half3) ''typeName'' = Some (VToken ''float3'')
   \<and> ''float3'' \<noteq> type_name (VHalf3 0x3C00 0x4000 0x4200)
   \<and> (\<exists>p. fst (ParseProperty sample_externals sample_config SpecTypeAttribute
                  fields_float3_with_half3 Impl_init) = Some p
          \<and> ptype p = Attrib
          \<and> pa_var (attrib p) = PrimVarScalar (VFloat3 0x3F800000 0x40000000 0x40400000))"
proof -
  have a: "length fields_float3_with_half3 \<le> unat (kMaxFieldValuePairs sample_config)"
    by (simp add: fields_float3_with_half3_def sample_config_def)
  have b: "fst (parse_fields sample_externals sample_config fields_float3_with_half3
                  PropertyLocals_init Impl_init) \<noteq> None"
    by (simp add: fields_float3_with_half3_def parse_field_def field_defs get_token_def Let_def)
  have c: "last_field_classification SpecTypeAttribute fields_float3_with_half3 = IsAttr"
    by (simp add: last_field_classification_def last_propType_def classifier_def
          fields_float3_with_half3_def)
  have d: "map_of (rev fields_float3_with_half3) ''default'' = Some (VHalf3 0x3C00 0x4000 0x4200)"
    by (simp add: fields_float3_with_half3_def)
  have e: "map_of (rev fields_float3_with_half3) ''typeName'' = Some (VToken ''float3'')"
    by (simp add: fields_float3_with_half3_def)
  have f: "''float3'' \<noteq> type_name (VHalf3 0x3C00 0x4000 0x4200)"
    by simp
  have g: "is_half_counterpart sample_externals ''float3'' (VHalf3 0x3C00 0x4000 0x4200)"
    by (simp add: is_half_counterpart_def declared_base_def sample_externals_def
          underlying_type_id_def base_type_def half_lanes_def)
  have h1: "half_to_float_ieee 0x3C00 = 0x3F800000"
    by (simp add: half_to_float_ieee_def)
  have h2: "half_to_float_ieee 0x4000 = 0x40000000"
    by (simp add: half_to_float_ieee_def)
  have h3: "half_to_float_ieee 0x4200 = 0x40400000"
    by (simp add: half_to_float_ieee_def)
  have h: "widened sample_externals ''float3'' (VHalf3 0x3C00 0x4000 0x4200)
             = VFloat3 0x3F800000 0x40000000 0x40400000"
    using h1 h2 h3
    by (simp add: widened_def declared_base_def sample_externals_def
          underlying_type_id_def base_type_def half_lanes_def)
  show ?thesis
    using a b c d e f
      ParseProperty_upcasts_half_scalar [OF a b c d e f]
    by (simp only: g h if_True simp_thms)
qed

subsection \<open>The targets of a relationship\<close>

lemma DecodeListOp_nonexplicit:
  "\<not> is_explicit p \<Longrightarrow> DecodeListOp p = filter (\<lambda>b. snd b \<noteq> []) (ordered_buckets p)"
  by (simp add: DecodeListOp_def ordered_buckets_def)

lemma nonempty_buckets_ordered:
  "nonempty_buckets p = length (filter (\<lambda>b. snd b \<noteq> []) (ordered_buckets p))"
  by (simp add: nonempty_buckets_def buckets_def ordered_buckets_def)

lemma find_is_hd_filter:
  "filter P xs \<noteq> [] \<Longrightarrow> find P xs = Some (hd (filter P xs))"
  by (induction xs) auto

lemma field_targetPaths_multiple:
  assumes "\<not> is_explicit p" and "2 \<le> nonempty_buckets p"
  shows "\<exists>q items l'.
           first_nonempty_bucket p = Some (q, items)
         \<and> field_targetPaths ext (VListOpPath p) l I =
             (Some l', PushWarn (multiple_ListOpType @ to_string_ListEditQual ext q) I)
         \<and> propType l' = Relation
         \<and> relation_targets (lrel l') = items
         \<and> rel_listOpQual (lrel l') = q"
proof -
  let ?ps = "filter (\<lambda>b. snd b \<noteq> []) (ordered_buckets p)"
  have dec: "DecodeListOp p = ?ps"
    using assms(1) by (rule DecodeListOp_nonexplicit)
  have len: "2 \<le> length ?ps"
    using assms(2) by (simp add: nonempty_buckets_ordered)
  then have ne: "?ps \<noteq> []" by auto
  obtain q items where hd: "hd ?ps = (q, items)" by (cases "hd ?ps")
  have first: "first_nonempty_bucket p = Some (q, items)"
    using find_is_hd_filter [OF ne] hd by (simp add: first_nonempty_bucket_def)
  have nth: "?ps ! 0 = (q, items)"
    using ne hd by (simp add: hd_conv_nth)
  have gt: "length ?ps > 1" using len by simp
  show ?thesis
    using first nth ne gt
    by (cases "length items = 1"; cases items)
      (simp_all add: field_targetPaths_def get_ListOpPath_def dec Let_def relation_targets_def
         Set_Path_def Set_PathVector_def SetListEditQualifier_def del: One_nat_def)
qed

lemma parse_fields_append:
  "parse_fields ext cfg (xs @ ys) l I =
     (case parse_fields ext cfg xs l I of
        (None, I') \<Rightarrow> (None, I')
      | (Some l', I') \<Rightarrow> parse_fields ext cfg ys l' I')"
  by (induction xs arbitrary: l I) (auto split: prod.splits option.splits)

lemma parse_field_keeps_rel:
  "parse_field ext cfg fv l I = (Some l', I') \<Longrightarrow> classifier (fst fv) = None
   \<Longrightarrow> lrel l' = lrel l"
  by (auto simp: parse_field_def Let_def field_defs classifier_def
      split: if_splits option.splits)

lemma parse_field_warn_grows:
  "parse_field ext cfg fv l I = (r, I') \<Longrightarrow> set (warn I) \<subseteq> set (warn I')"
  by (auto simp: parse_field_def Let_def field_defs PushWarn_def PushError_def
      split: if_splits option.splits)

lemma parse_fields_keep_rel:
  "parse_fields ext cfg fvs l I = (Some l', I') \<Longrightarrow> \<forall>fv \<in> set fvs. classifier (fst fv) = None
   \<Longrightarrow> lrel l' = lrel l \<and> propType l' = propType l \<and> set (warn I) \<subseteq> set (warn I')"
proof (induction fvs arbitrary: l I)
  case Nil
  then show ?case by simp
next
  case (Cons fv fvs)
  from Cons.prems(1) obtain l1 I1 where
    step: "parse_field ext cfg fv l I = (Some l1, I1)"
    and rest: "parse_fields ext cfg fvs l1 I1 = (Some l', I')"
    by (auto split: prod.splits option.splits)
  have "lrel l1 = lrel l" "propType l1 = propType l" "set (warn I) \<subseteq> set (warn I1)"
    using parse_field_keeps_rel [OF step] parse_field_propType [OF step]
      parse_field_warn_grows [OF step] Cons.prems(2)
    by simp_all
  then show ?case
    using Cons.IH [OF rest] Cons.prems(2) by auto
qed

text \<open>
  C3, as the code has it.  The fieldset holds a \<open>targetPaths\<close> list-op that is not
  explicit and has more than one non-empty bucket; the other fields are accepted, and
  none after \<open>targetPaths\<close> assigns the property type.  Then \<open>ParseProperty\<close>
  succeeds with a Relationship, the warning of multiple list-op types is among the
  warnings, and the targets and the qualifier are those of the first non-empty bucket
  in the order ResetToExplicit, Add, Append, Delete, Prepend, Order.  With the Prepend
  and the Append bucket filled that is the Append bucket.
\<close>

theorem ParseProperty_targetPaths_first_bucket:
  assumes "\<not> is_explicit p"
    and "2 \<le> nonempty_buckets p"
    and "fvs = pre @ [(''targetPaths'', VListOpPath p)] @ post"
    and "length fvs \<le> unat (kMaxFieldValuePairs cfg)"
    and "\<forall>fv \<in> set (pre @ post). field_ok ext cfg fv"
    and "\<forall>fv \<in> set post. classifier (fst fv) = None"
  shows "\<exists>prop I' q items.
           ParseProperty ext cfg st fvs I = (Some prop, I')
         \<and> first_nonempty_bucket p = Some (q, items)
         \<and> ptype prop = Relation
         \<and> relation_targets (rel prop) = items
         \<and> rel_listOpQual (rel prop) = q
         \<and> multiple_ListOpType @ to_string_ListEditQual ext q \<in> set (warn I')"
proof -
  have "fst (parse_fields ext cfg pre PropertyLocals_init I) \<noteq> None"
    using assms(5) by (intro parse_fields_all_ok) simp
  then obtain l1 I1 where
    pre: "parse_fields ext cfg pre PropertyLocals_init I = (Some l1, I1)"
    by (cases "parse_fields ext cfg pre PropertyLocals_init I") auto
  obtain q items l2 where
    first: "first_nonempty_bucket p = Some (q, items)"
    and tp: "field_targetPaths ext (VListOpPath p) l1 I1 =
               (Some l2, PushWarn (multiple_ListOpType @ to_string_ListEditQual ext q) I1)"
    and l2: "propType l2 = Relation" "relation_targets (lrel l2) = items"
            "rel_listOpQual (lrel l2) = q"
    using field_targetPaths_multiple [OF assms(1,2), of ext l1 I1] by blast
  let ?I2 = "PushWarn (multiple_ListOpType @ to_string_ListEditQual ext q) I1"
  have mid: "parse_field ext cfg (''targetPaths'', VListOpPath p) l1 I1 = (Some l2, ?I2)"
    using tp by (simp add: parse_field_def)
  have "fst (parse_fields ext cfg post l2 ?I2) \<noteq> None"
    using assms(5) by (intro parse_fields_all_ok) simp
  then obtain l3 I3 where
    post: "parse_fields ext cfg post l2 ?I2 = (Some l3, I3)"
    by (cases "parse_fields ext cfg post l2 ?I2") auto
  have loop: "parse_fields ext cfg fvs PropertyLocals_init I = (Some l3, I3)"
    using pre mid post assms(3) by (simp add: parse_fields_append)
  have l3: "lrel l3 = lrel l2" "propType l3 = Relation" "set (warn ?I2) \<subseteq> set (warn I3)"
    using parse_fields_keep_rel [OF post assms(6)] l2(1) by simp_all
  have w: "multiple_ListOpType @ to_string_ListEditQual ext q \<in> set (warn I3)"
    using l3(3) by (auto simp: PushWarn_def)
  have "ParseProperty ext cfg st fvs I = classify st (store_metas (store_scalar ext l3)) I3"
    using assms(4) loop by (simp add: ParseProperty_def)
  then have "ParseProperty ext cfg st fvs I = (Some (Property_rel (lrel l3) False (custom l3)), I3)"
    using l3(2) by (simp add: classify_def)
  then show ?thesis
    using first l2 l3(1) w by (simp add: Property_rel_def)
qed

theorem ParseProperty_targetPaths_first_bucket_witness:
  "\<not> is_explicit listop_prepend_and_append
   \<and> 2 \<le> nonempty_buckets listop_prepend_and_append
   \<and> length fields_rel_prepend_and_append \<le> unat (kMaxFieldValuePairs sample_config)
   \<and> field_ok sample_externals sample_config (''variability'', VVariability Uniform)
   \<and> field_ok sample_externals sample_config
       (''targetChildren'', VPathVector [path_of ''/prepended'' [], path_of ''/appended'' []])
   \<and> classifier ''targetChildren'' = None
   \<and> (\<exists>prop I'.
         ParseProperty sample_externals sample_config SpecTypeRelationship
           fields_rel_prepend_and_append Impl_init = (Some prop, I')
       \<and> ptype prop = Relation
       \<and> relation_targets (rel prop) = [path_of ''/appended'' []]
       \<and> rel_listOpQual (rel prop) = Append
       \<and> multiple_ListOpType @ ''append'' \<in> set (warn I'))"
proof -
  have a: "\<not> is_explicit listop_prepend_and_append"
    by (simp add: listop_prepend_and_append_def)
  have b: "2 \<le> nonempty_buckets listop_prepend_and_append"
    by (simp add: listop_prepend_and_append_def nonempty_buckets_def buckets_def)
  have c: "fields_rel_prepend_and_append =
             [(''variability'', VVariability Uniform)]
             @ [(''targetPaths'', VListOpPath listop_prepend_and_append)]
             @ [(''targetChildren'',
                 VPathVector [path_of ''/prepended'' [], path_of ''/appended'' []])]"
    by (simp add: fields_rel_prepend_and_append_def)
  have d: "length fields_rel_prepend_and_append \<le> unat (kMaxFieldValuePairs sample_config)"
    by (simp add: fields_rel_prepend_and_append_def sample_config_def)
  have e1: "field_ok sample_externals sample_config (''variability'', VVariability Uniform)"
    by (simp add: field_ok_def parse_field_def field_variability_def get_Variability_def)
  have e2: "field_ok sample_externals sample_config
              (''targetChildren'', VPathVector [path_of ''/prepended'' [], path_of ''/appended'' []])"
    by (simp add: field_ok_def parse_field_def field_targetChildren_def get_PathVector_def)
  have e: "\<forall>fv \<in> set ([(''variability'', VVariability Uniform)]
                        @ [(''targetChildren'',
                            VPathVector [path_of ''/prepended'' [], path_of ''/appended'' []])]).
             field_ok sample_externals sample_config fv"
    using e1 e2 by simp
  have f0: "classifier ''targetChildren'' = None"
    by (simp add: classifier_def)
  have f: "\<forall>fv \<in> set [(''targetChildren'',
                         VPathVector [path_of ''/prepended'' [], path_of ''/appended'' []])].
             classifier (fst fv) = None"
    using f0 by simp
  have g: "first_nonempty_bucket listop_prepend_and_append
             = Some (Append, [path_of ''/appended'' []])"
    by (simp add: first_nonempty_bucket_def ordered_buckets_def listop_prepend_and_append_def)
  have h: "to_string_ListEditQual sample_externals Append = ''append''"
    by (simp add: sample_externals_def)
  from ParseProperty_targetPaths_first_bucket
         [OF a b c d e f, of SpecTypeRelationship Impl_init]
  have "\<exists>prop I'.
          ParseProperty sample_externals sample_config SpecTypeRelationship
            fields_rel_prepend_and_append Impl_init = (Some prop, I')
        \<and> ptype prop = Relation
        \<and> relation_targets (rel prop) = [path_of ''/appended'' []]
        \<and> rel_listOpQual (rel prop) = Append
        \<and> multiple_ListOpType @ ''append'' \<in> set (warn I')"
    using g h by auto
  then show ?thesis
    using a b d e1 e2 f0 by simp
qed

text \<open>
  C3, as the specification states it, has the relationship use the Prepend bucket when
  the Prepend and the Append bucket are filled.  The code takes the Append bucket, which
  \<open>DecodeListOp\<close> pushes before the Prepend bucket.
\<close>

theorem ParseProperty_prepend_and_append_counterexample:
  "map_option (\<lambda>prop. (relation_targets (rel prop), rel_listOpQual (rel prop)))
     (fst (ParseProperty sample_externals sample_config SpecTypeRelationship
             fields_rel_prepend_and_append Impl_init))
     = Some (appended_items listop_prepend_and_append, Append)
   \<and> appended_items listop_prepend_and_append \<noteq> prepended_items listop_prepend_and_append"
  by (simp add: ParseProperty_def fields_rel_prepend_and_append_def sample_config_def
        listop_prepend_and_append_def parse_field_def field_variability_def
        field_targetPaths_def field_targetChildren_def get_Variability_def
        get_ListOpPath_def get_PathVector_def DecodeListOp_def Let_def
        store_metas_def store_scalar_def classify_def Property_rel_def
        PropertyLocals_init_def relation_targets_def Set_Path_def Set_PathVector_def
        SetListEditQualifier_def path_of_def)

subsection \<open>The map from path indices to spec indices\<close>






subsection \<open>The property map\<close>

lemma BuildPropertyMap_entry_of_spec:
  assumes "property_spec_of tbl psmap entry = Some (st, name, fvs)"
  shows "BuildPropertyMap_entry ext cfg tbl psmap entry props I =
           (case ParseProperty ext cfg st fvs I of
              (None, I') \<Rightarrow>
                Returns (False, props,
                         PushError (''Failed to construct Property `'' @ name
                                    @ ''` from FieldValuePairVector.'') I')
            | (Some prop, I') \<Rightarrow> Returns (True, emplace name prop props, I'))"
  using assms
  by (auto simp: property_spec_of_def BuildPropertyMap_entry_def Let_def
      split: if_splits option.splits cxx.splits)

lemma BuildPropertyMap_entry_keeps:
  assumes "BuildPropertyMap_entry ext cfg tbl psmap entry props I = Returns (ok, props', I')"
    and "props name \<noteq> None"
  shows "props' name = props name"
  using assms
  by (auto simp: BuildPropertyMap_entry_def Let_def emplace_def
      split: if_splits option.splits cxx.splits prod.splits)

lemma BuildPropertyMap_keeps:
  assumes "BuildPropertyMap ext cfg tbl pathIndices psmap props I = Returns (ok, props', I')"
    and "props name \<noteq> None"
  shows "props' name = props name"
  using assms
proof (induction pathIndices arbitrary: props I)
  case Nil
  then show ?case by simp
next
  case (Cons entry pathIndices)
  show ?case
  proof (cases "BuildPropertyMap_entry ext cfg tbl psmap entry props I")
    case UndefinedBehaviour
    then show ?thesis using Cons.prems by simp
  next
    case (Returns r)
    obtain ok1 props1 I1 where r: "r = (ok1, props1, I1)" by (cases r)
    have keep: "props1 name = props name"
      using BuildPropertyMap_entry_keeps [OF Returns [unfolded r] Cons.prems(2)] .
    show ?thesis
    proof (cases ok1)
      case True
      then have "BuildPropertyMap ext cfg tbl pathIndices psmap props1 I1
                   = Returns (ok, props', I')"
        using Cons.prems(1) Returns r by simp
      from Cons.IH [OF this] keep Cons.prems(2) show ?thesis by simp
    next
      case False
      then show ?thesis using Cons.prems(1) Returns r keep by simp
    qed
  qed
qed

lemma BuildPropertyMap_append:
  "BuildPropertyMap ext cfg tbl (xs @ ys) psmap props I =
     (case BuildPropertyMap ext cfg tbl xs psmap props I of
        UndefinedBehaviour \<Rightarrow> UndefinedBehaviour
      | Returns (False, props', I') \<Rightarrow> Returns (False, props', I')
      | Returns (True, props', I') \<Rightarrow> BuildPropertyMap ext cfg tbl ys psmap props' I')"
  by (induction xs arbitrary: props I) (auto split: cxx.splits prod.splits bool.splits)

text \<open>
  C5, as the code has it.  Two entries \<open>e1\<close> and \<open>e2\<close> of the property children stand
  for property specs with the same property-part name, with any entries \<open>mid\<close> between
  them and \<open>rest\<close> after them, all of them built with success.  The Property parsed
  for \<open>e1\<close> is entered under the name; at \<open>e2\<close> the second Property is parsed, the
  map is left as it is and the reader is left as \<open>ParseProperty\<close> returned it, so
  nothing is pushed for the repeated name; in the final map the name holds the Property
  of \<open>e1\<close>.
\<close>

theorem BuildPropertyMap_keeps_earlier_property:
  assumes "property_spec_of tbl psmap e1 = Some (st1, name, fvs1)"
    and "props name = None"
    and "ParseProperty ext cfg st1 fvs1 I = (Some p1, I1)"
    and "BuildPropertyMap ext cfg tbl mid psmap (props(name \<mapsto> p1)) I1 = Returns (True, propsM, IM)"
    and "property_spec_of tbl psmap e2 = Some (st2, name, fvs2)"
    and "ParseProperty ext cfg st2 fvs2 IM = (Some p2, I2)"
    and "BuildPropertyMap ext cfg tbl rest psmap propsM I2 = Returns (True, props', I')"
  shows "BuildPropertyMap_entry ext cfg tbl psmap e2 propsM IM = Returns (True, propsM, I2)
       \<and> BuildPropertyMap ext cfg tbl (e1 # mid @ e2 # rest) psmap props I
           = Returns (True, props', I')
       \<and> props' name = Some p1"
proof -
  have first: "BuildPropertyMap_entry ext cfg tbl psmap e1 props I
                 = Returns (True, props(name \<mapsto> p1), I1)"
    using BuildPropertyMap_entry_of_spec [OF assms(1), of ext cfg props I] assms(2,3)
    by (simp add: emplace_def)
  have held: "propsM name = Some p1"
    using BuildPropertyMap_keeps [OF assms(4), of name] by simp
  have second: "BuildPropertyMap_entry ext cfg tbl psmap e2 propsM IM
                  = Returns (True, propsM, I2)"
    using BuildPropertyMap_entry_of_spec [OF assms(5), of ext cfg propsM IM] assms(6) held
    by (simp add: emplace_def)
  have final: "props' name = Some p1"
    using BuildPropertyMap_keeps [OF assms(7), of name] held by simp
  have "BuildPropertyMap ext cfg tbl (mid @ e2 # rest) psmap (props(name \<mapsto> p1)) I1
          = Returns (True, props', I')"
    using assms(4,7) second by (simp add: BuildPropertyMap_append)
  then show ?thesis
    using first second final by simp
qed

lemma sample_property_spec_2:
  "property_spec_of tables_duplicate_property psmap_identity_4 2
     = Some (SpecTypeAttribute, ''x'', [(''typeName'', VToken ''float'')])"
  by (simp add: property_spec_of_def tables_duplicate_property_def psmap_identity_4_def
        int_of_size_t_def uint32_of_int_def GetPath_def vector_at_def path_of_def Let_def)

lemma sample_property_spec_3:
  "property_spec_of tables_duplicate_property psmap_identity_4 3
     = Some (SpecTypeAttribute, ''x'', [(''typeName'', VToken ''double'')])"
  by (simp add: property_spec_of_def tables_duplicate_property_def psmap_identity_4_def
        int_of_size_t_def uint32_of_int_def GetPath_def vector_at_def path_of_def Let_def)

lemma sample_empty_attr:
  "ParseProperty sample_externals sample_config SpecTypeAttribute [(''typeName'', VToken t)] I
     = (Some (Property_type_name t False), I)"
  by (simp add: ParseProperty_def sample_config_def parse_field_def field_typeName_def
        get_token_def store_metas_def store_scalar_def classify_def PropertyLocals_init_def
        Let_def)

theorem BuildPropertyMap_keeps_earlier_property_witness:
  "property_spec_of tables_duplicate_property psmap_identity_4 2
     = Some (SpecTypeAttribute, ''x'', [(''typeName'', VToken ''float'')])
   \<and> property_spec_of tables_duplicate_property psmap_identity_4 3
       = Some (SpecTypeAttribute, ''x'', [(''typeName'', VToken ''double'')])
   \<and> BuildPropertyMap sample_externals sample_config tables_duplicate_property [2, 3]
        psmap_identity_4 Map.empty Impl_init
       = Returns (True, [''x'' \<mapsto> Property_type_name ''float'' False], Impl_init)"
proof -
  have mid: "BuildPropertyMap sample_externals sample_config tables_duplicate_property []
               psmap_identity_4 ((Map.empty :: PropertyMap)(''x'' \<mapsto> Property_type_name ''float'' False))
               Impl_init
             = Returns (True, [''x'' \<mapsto> Property_type_name ''float'' False], Impl_init)"
    by simp
  have rest: "BuildPropertyMap sample_externals sample_config tables_duplicate_property []
                psmap_identity_4 [''x'' \<mapsto> Property_type_name ''float'' False] Impl_init
              = Returns (True, [''x'' \<mapsto> Property_type_name ''float'' False], Impl_init)"
    by simp
  have none: "(Map.empty :: PropertyMap) ''x'' = None"
    by simp
  from BuildPropertyMap_keeps_earlier_property
         [OF sample_property_spec_2 none sample_empty_attr mid sample_property_spec_3
             sample_empty_attr rest]
  show ?thesis
    using sample_property_spec_2 sample_property_spec_3 by simp
qed

text \<open>
  C5, as the specification states it, has a warning for the repeated name and the later
  Property in the map.  On the two attributes named \<open>x\<close> the map holds the first, the
  \<open>float\<close>, and the warnings of the reader are as empty as before.
\<close>

theorem BuildPropertyMap_duplicate_counterexample:
  "BuildPropertyMap sample_externals sample_config tables_duplicate_property
     (GetChildren (nodes tables_duplicate_property ! 1)) psmap_identity_4 Map.empty Impl_init
     = Returns (True, [''x'' \<mapsto> Property_type_name ''float'' False], Impl_init)
   \<and> warn Impl_init = []
   \<and> Property_type_name ''float'' False \<noteq> Property_type_name ''double'' False"
proof -
  have e2: "BuildPropertyMap_entry sample_externals sample_config tables_duplicate_property
              psmap_identity_4 2 Map.empty Impl_init
            = Returns (True, [''x'' \<mapsto> Property_type_name ''float'' False], Impl_init)"
    by (simp add: BuildPropertyMap_entry_of_spec [OF sample_property_spec_2] sample_empty_attr
          emplace_def)
  have e3: "BuildPropertyMap_entry sample_externals sample_config tables_duplicate_property
              psmap_identity_4 3 [''x'' \<mapsto> Property_type_name ''float'' False] Impl_init
            = Returns (True, [''x'' \<mapsto> Property_type_name ''float'' False], Impl_init)"
    by (simp add: BuildPropertyMap_entry_of_spec [OF sample_property_spec_3] sample_empty_attr
          emplace_def)
  have ch: "GetChildren (nodes tables_duplicate_property ! 1) = [2, 3]"
    by (simp add: tables_duplicate_property_def)
  have run: "BuildPropertyMap sample_externals sample_config tables_duplicate_property
               (GetChildren (nodes tables_duplicate_property ! 1)) psmap_identity_4 Map.empty
               Impl_init
             = Returns (True, [''x'' \<mapsto> Property_type_name ''float'' False], Impl_init)"
    by (subst ch) (simp add: e2 e3)
  have differ: "Property_type_name ''float'' False \<noteq> Property_type_name ''double'' False"
    by (simp add: Property_type_name_def PrimAttrib_default_def)
  show ?thesis
    using run differ by (simp add: Impl_init_def)
qed

subsection \<open>The depth of the recursion\<close>

lemma sint_le_uint_32: "sint (w :: 32 word) \<le> uint w"
proof -
  have "(0::int) \<le> uint w" by simp
  then have "- 2147483648 \<le> uint w" by linarith
  then show ?thesis
    by (simp add: sint_uint signed_take_bit_int_less_eq_self_iff)
qed

lemma uint_word_of_nat_le: "uint (word_of_nat n :: 32 word) \<le> int n"
  by (simp add: unsigned_of_nat take_bit_nat_less_eq_self)

lemma int_of_size_t_le: "int_of_size_t n \<le> int n"
  unfolding int_of_size_t_def
  using sint_le_uint_32 [of "word_of_nat n"] uint_word_of_nat_le [of n] by linarith

lemma int_of_size_t_small:
  assumes "n < 2147483648"
  shows "int_of_size_t n = int n"
proof -
  have "n < 2 ^ 32" using assms by simp
  then have t: "take_bit 32 n = n" by (simp add: take_bit_nat_eq_self_iff)
  have "- (2 ^ 31) \<le> int n \<and> int n < 2 ^ 31" using assms by simp
  then have s: "signed_take_bit 31 (int n) = int n"
    by (simp add: signed_take_bit_int_eq_self_iff)
  show ?thesis
    unfolding int_of_size_t_def by (simp add: sint_uint unsigned_of_nat t s)
qed

lemma for_children_never_true:
  assumes "c \<in> set cs" and "\<And>t r. body c t \<noteq> Returns (True, r)"
  shows "for_children body cs s \<noteq> Returns (True, r)"
  using assms(1)
proof (induction cs arbitrary: s)
  case Nil
  then show ?case by simp
next
  case (Cons x xs)
  show ?case
  proof (cases "body x s")
    case UndefinedBehaviour
    then show ?thesis by simp
  next
    case (Returns p)
    obtain ok s' where p: "p = (ok, s')" by (cases p)
    show ?thesis
    proof (cases ok)
      case False
      then show ?thesis using Returns p by simp
    next
      case True
      then have "x \<noteq> c" using assms(2) [of s s'] Returns p by auto
      then have "c \<in> set xs" using Cons.prems by simp
      from Cons.IH [OF this] show ?thesis using Returns p True by simp
    qed
  qed
qed

lemma nested_never_succeeds:
  assumes "nested tbl current n" and "level + int n > sint (kMaxPrimNestLevel cfg)"
  shows "ReconstructPrimRecursively ext sch cfg tbl psmap parent current level w
           \<noteq> Returns (True, r)"
  using assms
proof (induction n arbitrary: parent current level w r)
  case 0
  then show ?case by (simp add: ReconstructPrimRecursively.simps Let_def)
next
  case (Suc n)
  from Suc.prems(1) obtain ch where
    range: "0 \<le> current" "current < int_of_size_t (length (nodes tbl))"
    and ch: "ch \<in> set (GetChildren (nodes tbl ! nat current))"
      "nested tbl (int_of_size_t ch) n"
    by auto
  show ?case
  proof (cases "level > sint (kMaxPrimNestLevel cfg)")
    case True
    then show ?thesis by (simp add: ReconstructPrimRecursively.simps Let_def)
  next
    case False
    have deeper: "level + 1 + int n > sint (kMaxPrimNestLevel cfg)"
      using Suc.prems(2) by simp
    have body: "(if level = 2147483647 then UndefinedBehaviour
                 else ReconstructPrimRecursively ext sch cfg tbl psmap current
                        (int_of_size_t ch) (level + 1) t) \<noteq> Returns (True, r')" for t r'
      using Suc.IH [OF ch(2) deeper] by simp
    have loop: "for_children
                  (\<lambda>child cw.
                     if level = 2147483647 then UndefinedBehaviour
                     else ReconstructPrimRecursively ext sch cfg tbl psmap current
                            (int_of_size_t child) (level + 1) cw)
                  (GetChildren (nodes tbl ! nat current)) s \<noteq> Returns (True, r')" for s r'
      by (rule for_children_never_true [OF ch(1)]) (rule body)
    have inr: "nat current < length (nodes tbl)"
      using range int_of_size_t_le [of "length (nodes tbl)"] by simp
    show ?thesis
      using False range inr loop
      by (subst ReconstructPrimRecursively.simps)
        (auto simp: Let_def vector_at_def split: cxx.splits bool.splits prod.splits)
  qed
qed

text \<open>
  C8.  A call at a level beyond \<open>kMaxPrimNestLevel\<close> returns \<open>false\<close> with the error
  of the hierarchy that is too deep, and does nothing else.
  \<open>ReconstructPrimRecursively_rel\<close> is the relation between the arguments of a nested
  call and the arguments of the call whose body makes it, as the definition of the
  recursion gives it: a nested call is made only from a level within the limit and at
  the next level, so the distance to the limit decreases with every nested call, on all
  inputs.  Where the node tree has a chain of child links that leads beyond the limit,
  as \<open>kMaxPrimNestLevel + 1\<close> nested Prims under the pseudo-root do, the recursion does
  not return \<open>true\<close>.
\<close>

theorem ReconstructPrimRecursively_depth_limit:
  "(level > sint (kMaxPrimNestLevel cfg)
      \<longrightarrow> ReconstructPrimRecursively ext sch cfg tbl psmap parent current level w =
            Returns (False, fst w, PushError ''Prim hierarchy is too deep.'' (fst (snd w)),
                     snd (snd w)))
   \<and> (ReconstructPrimRecursively_rel
         (ext', sch', cfg', tbl', psmap', parent', current', level', w')
         (ext, sch, cfg, tbl, psmap, parent, current, level, w)
      \<longrightarrow> level \<le> sint (kMaxPrimNestLevel cfg) \<and> level' = level + 1 \<and> cfg' = cfg
          \<and> nat (sint (kMaxPrimNestLevel cfg') + 1 - level')
              < nat (sint (kMaxPrimNestLevel cfg) + 1 - level))
   \<and> (nested tbl current n \<and> level + int n > sint (kMaxPrimNestLevel cfg)
      \<longrightarrow> (\<forall>r. ReconstructPrimRecursively ext sch cfg tbl psmap parent current level w
                 \<noteq> Returns (True, r)))"
proof (intro conjI impI allI)
  assume "level > sint (kMaxPrimNestLevel cfg)"
  then show "ReconstructPrimRecursively ext sch cfg tbl psmap parent current level w =
               Returns (False, fst w, PushError ''Prim hierarchy is too deep.'' (fst (snd w)),
                        snd (snd w))"
    by (simp add: ReconstructPrimRecursively.simps Let_def)
next
  assume r: "ReconstructPrimRecursively_rel
               (ext', sch', cfg', tbl', psmap', parent', current', level', w')
               (ext, sch, cfg, tbl, psmap, parent, current, level, w)"
  then have f: "level \<le> sint (kMaxPrimNestLevel cfg) \<and> level' = level + 1 \<and> cfg' = cfg"
    by (cases rule: ReconstructPrimRecursively_rel.cases) auto
  from f show "level \<le> sint (kMaxPrimNestLevel cfg)" by simp
  from f show "level' = level + 1" by simp
  from f show "cfg' = cfg" by simp
  from f show "nat (sint (kMaxPrimNestLevel cfg') + 1 - level')
                 < nat (sint (kMaxPrimNestLevel cfg) + 1 - level)"
    by simp
next
  fix r
  assume "nested tbl current n \<and> level + int n > sint (kMaxPrimNestLevel cfg)"
  then show "ReconstructPrimRecursively ext sch cfg tbl psmap parent current level w
               \<noteq> Returns (True, r)"
    using nested_never_succeeds by blast
qed

lemma sample_stage_meta_empty:
  "ReconstrcutStageMeta ext [] mp I = (True, mp, I)"
  by (simp add: ReconstrcutStageMeta_def)

lemma sample_def_xform_fields:
  "ParsePrimFields sample_externals def_xform_fields PrimFields_init I =
     (True, PrimFields_init\<lparr>pf_typeName := Some ''Xform'', pf_specifier := Some Def\<rparr>, I)"
  by (simp add: ParsePrimFields_def def_xform_fields_def PrimFields_field_def
        get_Specifier_def get_token_def Let_def PrimFields_init_def)

lemma sample_find_xform:
  "find (\<lambda>T. ''Xform'' = TypeTrait_type_name sample_schemas T) prim_types = Some Xform"
  by (simp add: prim_types_def sample_schemas_def sample_type_name_def)

lemma sample_two_nested_root:
  "ReconstructPrimNode sample_externals sample_schemas config_one_level tables_two_nested_prims
     (- 1) 0 0 psmap_identity_3 Stage_empty Impl_init
   = Returns (True, None, Impl_init\<lparr>prim_table := {0}\<rparr>, Stage_empty)"
  by (simp add: ReconstructPrimNode_def ReconstructPrimNode_root_def vector_at_def
        tables_two_nested_prims_def psmap_identity_3_def uint32_of_int_def GetElemPath_def
        config_one_level_def sample_config_def sample_stage_meta_empty Impl_init_def Let_def)

lemma sample_two_nested_a_properties:
  "BuildPropertyMap_entry sample_externals config_one_level tables_two_nested_prims
     psmap_identity_3 2 props I = Returns (True, props, I)"
  by (simp add: BuildPropertyMap_entry_def int_of_size_t_def uint32_of_int_def
        tables_two_nested_prims_def psmap_identity_3_def Let_def)

lemma sample_two_nested_a:
  "ReconstructPrimNode sample_externals sample_schemas config_one_level tables_two_nested_prims
     0 1 1 psmap_identity_3 Stage_empty (Impl_init\<lparr>prim_table := {0}\<rparr>)
   = Returns (True, Some (xform_prim ''a''), Impl_init\<lparr>prim_table := {1, 0}\<rparr>, Stage_empty)"
proof -
  have spec: "psmap_identity_3 (uint32_of_int 1) = Some 1"
    "specs tables_two_nested_prims ! unat (1 :: 32 word)
       = \<lparr>path_index = 1, fieldset_index = 1, spec_type = SpecTypePrim\<rparr>"
    "length (specs tables_two_nested_prims) = 3"
    "live_fieldsets tables_two_nested_prims 1 = Some def_xform_fields"
    "GetElemPath (elemPaths tables_two_nested_prims) (uint32_of_int 1)
       = Returns (Some (path_of ''a'' []))"
    by (simp_all add: psmap_identity_3_def uint32_of_int_def tables_two_nested_prims_def
          GetElemPath_def vector_at_def)
  have typed: "ReconstructPrimFromTypeName sample_externals sample_schemas config_one_level
                 tables_two_nested_prims ''Xform'' ''a'' \<lparr>GetChildren = [2]\<rparr> psmap_identity_3
                 PrimMeta_default I
               = Returns (Some (Prim \<lparr>tp_type = Xform, tp_value = (), tp_meta = PrimMeta_default,
                                       tp_name = ''a''\<rparr> Path_default []), I)" for I
  proof -
    have "ReconstructPrim sample_externals sample_schemas config_one_level
            tables_two_nested_prims Xform \<lparr>GetChildren = [2]\<rparr> psmap_identity_3 I
          = Returns (Some (), I)"
      by (simp add: ReconstructPrim_def sample_two_nested_a_properties sample_schemas_def)
    then show ?thesis
      by (simp add: ReconstructPrimFromTypeName_def sample_find_xform)
  qed
  have valid: "ValidatePrimName sample_externals ''a''"
    by (simp add: sample_externals_def)
  have "ReconstructPrimNode_prim sample_externals sample_schemas config_one_level
          tables_two_nested_prims 1 \<lparr>GetChildren = [2]\<rparr> psmap_identity_3
          \<lparr>path_index = 1, fieldset_index = 1, spec_type = SpecTypePrim\<rparr> def_xform_fields
          Stage_empty (Impl_init\<lparr>prim_table := {0}\<rparr>)
        = Returns (True, Some (xform_prim ''a''), Impl_init\<lparr>prim_table := {1, 0}\<rparr>,
                   Stage_empty)"
  proof -
    have meta: "pf_primMeta PrimFields_init = PrimMeta_default"
      and ty: "pf_typeName PrimFields_init = None"
      by (simp_all add: PrimFields_init_def)
    have name: "prim_part (path_of ''a'' []) = ''a''"
      by (simp add: path_of_def)
    show ?thesis
      by (simp add: ReconstructPrimNode_prim_def sample_def_xform_fields spec
            ReconstructPrimNode_def_prim_def meta name valid typed xform_prim_def Let_def)
  qed
  then show ?thesis
    by (simp add: ReconstructPrimNode_def vector_at_def tables_two_nested_prims_def
          psmap_identity_3_def uint32_of_int_def def_xform_fields_def config_one_level_def
          sample_config_def Impl_init_def Let_def)
qed

theorem ReconstructPrimRecursively_depth_limit_witness:
  "(2::int) > sint (kMaxPrimNestLevel config_one_level)
   \<and> ReconstructPrimRecursively_rel
       (sample_externals, sample_schemas, config_one_level, tables_two_nested_prims,
        psmap_identity_3, 0, 1, 1, (None, Impl_init\<lparr>prim_table := {0}\<rparr>, Stage_empty))
       (sample_externals, sample_schemas, config_one_level, tables_two_nested_prims,
        psmap_identity_3, - 1, 0, 0, (None, Impl_init, Stage_empty))
   \<and> nested tables_two_nested_prims 0 2
   \<and> 0 + int 2 > sint (kMaxPrimNestLevel config_one_level)
   \<and> ReconstructPrimRecursively sample_externals sample_schemas config_one_level
       tables_two_nested_prims psmap_identity_3 (- 1) 0 0 (None, Impl_init, Stage_empty)
     = Returns (False, None,
                \<lparr>err = [''Prim hierarchy is too deep.''], warn = [], prim_table = {1, 0}\<rparr>,
                Stage_empty)"
proof -
  have lim: "sint (kMaxPrimNestLevel config_one_level) = 1"
    by (simp add: config_one_level_def)
  have a: "(2::int) > sint (kMaxPrimNestLevel config_one_level)"
    using lim by simp
  have size: "int_of_size_t (length (nodes tables_two_nested_prims)) = 3"
    "int_of_size_t 1 = 1" "int_of_size_t 2 = 2"
    by (simp_all add: int_of_size_t_small tables_two_nested_prims_def)
  have nodes: "vector_at (nodes tables_two_nested_prims) 0 = Returns \<lparr>GetChildren = [1]\<rparr>"
    "vector_at (nodes tables_two_nested_prims) (Suc 0) = Returns \<lparr>GetChildren = [2]\<rparr>"
    by (simp_all add: vector_at_def tables_two_nested_prims_def)
  have b0: "ReconstructPrimRecursively_rel
             (sample_externals, sample_schemas, config_one_level, tables_two_nested_prims,
              psmap_identity_3, 0, int_of_size_t 1, 0 + 1,
              (None, Impl_init\<lparr>prim_table := {0}\<rparr>, Stage_empty))
             (sample_externals, sample_schemas, config_one_level, tables_two_nested_prims,
              psmap_identity_3, - 1, 0, 0, (None, Impl_init, Stage_empty))"
    by (rule ReconstructPrimRecursively_rel.intros
              [where x = None and xa = Impl_init and xb = Stage_empty
                 and ?x1.0 = "(True, None, Impl_init\<lparr>prim_table := {0}\<rparr>, Stage_empty)"
                 and xaa = True and y = "(None, Impl_init\<lparr>prim_table := {0}\<rparr>, Stage_empty)"
                 and xab = None and ya = "(Impl_init\<lparr>prim_table := {0}\<rparr>, Stage_empty)"
                 and xac = "Impl_init\<lparr>prim_table := {0}\<rparr>" and yb = Stage_empty
                 and x1a = "\<lparr>GetChildren = [1]\<rparr>"])
      (simp_all add: lim ReconstructPrimNode_def ReconstructPrimNode_root_def vector_at_def
         tables_two_nested_prims_def psmap_identity_3_def uint32_of_int_def GetElemPath_def
         config_one_level_def sample_config_def sample_stage_meta_empty Impl_init_def Let_def
         int_of_size_t_small)
  have b: "ReconstructPrimRecursively_rel
             (sample_externals, sample_schemas, config_one_level, tables_two_nested_prims,
              psmap_identity_3, 0, 1, 1, (None, Impl_init\<lparr>prim_table := {0}\<rparr>, Stage_empty))
             (sample_externals, sample_schemas, config_one_level, tables_two_nested_prims,
              psmap_identity_3, - 1, 0, 0, (None, Impl_init, Stage_empty))"
    using b0 by (simp add: int_of_size_t_small)
  have c: "nested tables_two_nested_prims 0 2"
    by (simp add: numeral_2_eq_2 int_of_size_t_small tables_two_nested_prims_def)
  have d: "0 + int 2 > sint (kMaxPrimNestLevel config_one_level)"
    using lim by simp
  note thm_b = ReconstructPrimRecursively_depth_limit
                 [where level = 0 and cfg = config_one_level and ext = sample_externals
                    and sch = sample_schemas and tbl = tables_two_nested_prims
                    and psmap = psmap_identity_3 and parent = "- 1" and current = 0
                    and w = "(None, Impl_init, Stage_empty)"
                    and ext' = sample_externals and sch' = sample_schemas
                    and cfg' = config_one_level and tbl' = tables_two_nested_prims
                    and psmap' = psmap_identity_3 and parent' = 0 and current' = 1
                    and level' = 1
                    and w' = "(None, Impl_init\<lparr>prim_table := {0}\<rparr>, Stage_empty)"
                    and n = 2]
  have inner: "ReconstructPrimRecursively sample_externals sample_schemas config_one_level
                 tables_two_nested_prims psmap_identity_3 1 2 2 w
               = Returns (False, fst w, PushError ''Prim hierarchy is too deep.'' (fst (snd w)),
                          snd (snd w))" for w
    using a ReconstructPrimRecursively_depth_limit
            [where level = 2 and cfg = config_one_level and ext = sample_externals
               and sch = sample_schemas and tbl = tables_two_nested_prims
               and psmap = psmap_identity_3 and parent = 1 and current = 2 and w = w]
    by simp
  have level1: "ReconstructPrimRecursively sample_externals sample_schemas config_one_level
                  tables_two_nested_prims psmap_identity_3 0 1 1
                  (None, Impl_init\<lparr>prim_table := {0}\<rparr>, Stage_empty)
                = Returns (False, None,
                           PushError ''Prim hierarchy is too deep.''
                             (Impl_init\<lparr>prim_table := {1, 0}\<rparr>),
                           Stage_empty)"
    by (subst ReconstructPrimRecursively.simps)
      (simp add: lim size int_of_size_t_small nodes sample_two_nested_a inner Let_def)
  have level0: "ReconstructPrimRecursively sample_externals sample_schemas config_one_level
                  tables_two_nested_prims psmap_identity_3 (- 1) 0 0
                  (None, Impl_init, Stage_empty)
                = Returns (False, None,
                           PushError ''Prim hierarchy is too deep.''
                             (Impl_init\<lparr>prim_table := {1, 0}\<rparr>),
                           Stage_empty)"
    by (subst ReconstructPrimRecursively.simps)
      (simp add: lim size int_of_size_t_small nodes sample_two_nested_root level1 Let_def)
  show ?thesis
    using a b c d level0 thm_b
    by (simp add: PushError_def Impl_init_def)
qed

subsection \<open>What writes the marker table\<close>

lemma prim_table_Push [simp]:
  "prim_table (PushError s I) = prim_table I"
  "prim_table (PushWarn s I) = prim_table I"
  by (simp_all add: PushError_def PushWarn_def)

lemma field_prim_table:
  "prim_table (snd (field_custom v l I)) = prim_table I"
  "prim_table (snd (field_variability v l I)) = prim_table I"
  "prim_table (snd (field_typeName v l I)) = prim_table I"
  "prim_table (snd (field_default v l I)) = prim_table I"
  "prim_table (snd (field_timeSamples ext v l I)) = prim_table I"
  "prim_table (snd (field_interpolation ext v l I)) = prim_table I"
  "prim_table (snd (field_connectionPaths v l I)) = prim_table I"
  "prim_table (snd (field_targetPaths ext v l I)) = prim_table I"
  "prim_table (snd (field_elementSize cfg v l I)) = prim_table I"
  "prim_table (snd (field_targetChildren v l I)) = prim_table I"
  "prim_table (snd (field_connectionChildren v l I)) = prim_table I"
  "prim_table (snd (field_customData v l I)) = prim_table I"
  "prim_table (snd (field_comment ext v l I)) = prim_table I"
  by (simp_all add: field_defs Let_def split: option.splits)

lemma parse_field_prim_table:
  "prim_table (snd (parse_field ext cfg fv l I)) = prim_table I"
  by (simp add: parse_field_def Let_def field_prim_table)

lemma parse_fields_prim_table:
  "prim_table (snd (parse_fields ext cfg fvs l I)) = prim_table I"
proof (induction fvs arbitrary: l I)
  case Nil
  then show ?case by simp
next
  case (Cons fv fvs)
  show ?case
  proof (cases "parse_field ext cfg fv l I")
    case (Pair r I1)
    have "prim_table I1 = prim_table I"
      using parse_field_prim_table [of ext cfg fv l I] Pair by simp
    then show ?thesis
      using Pair Cons.IH by (cases r) simp_all
  qed
qed

lemma ParseProperty_prim_table:
  "prim_table (snd (ParseProperty ext cfg st fvs I)) = prim_table I"
proof (cases "parse_fields ext cfg fvs PropertyLocals_init I")
  case (Pair r I1)
  have "prim_table I1 = prim_table I"
    using parse_fields_prim_table [of ext cfg fvs PropertyLocals_init I] Pair by simp
  then show ?thesis
    using Pair
    by (cases r) (simp_all add: ParseProperty_def classify_def split: option.splits)
qed

lemma BuildPropertyMap_entry_prim_table:
  assumes "BuildPropertyMap_entry ext cfg tbl psmap entry props I = Returns (ok, props', I')"
  shows "prim_table I' = prim_table I"
proof -
  have pp: "ParseProperty ext cfg st fvs I = (r, I1) \<Longrightarrow> prim_table I1 = prim_table I"
    for st fvs r I1
    using ParseProperty_prim_table [of ext cfg st fvs I] by simp
  show ?thesis
    using assms
    by (auto simp: BuildPropertyMap_entry_def Let_def dest: pp
        split: if_splits option.splits cxx.splits prod.splits)
qed

lemma BuildPropertyMap_prim_table:
  assumes "BuildPropertyMap ext cfg tbl pathIndices psmap props I = Returns (ok, props', I')"
  shows "prim_table I' = prim_table I"
  using assms
proof (induction pathIndices arbitrary: props I)
  case Nil
  then show ?case by simp
next
  case (Cons entry pathIndices)
  show ?case
  proof (cases "BuildPropertyMap_entry ext cfg tbl psmap entry props I")
    case UndefinedBehaviour
    then show ?thesis using Cons.prems by simp
  next
    case (Returns r)
    obtain ok1 props1 I1 where r: "r = (ok1, props1, I1)" by (cases r)
    have keep: "prim_table I1 = prim_table I"
      using BuildPropertyMap_entry_prim_table [OF Returns [unfolded r]] .
    show ?thesis
    proof (cases ok1)
      case True
      then have "BuildPropertyMap ext cfg tbl pathIndices psmap props1 I1
                   = Returns (ok, props', I')"
        using Cons.prems Returns r by simp
      from Cons.IH [OF this] keep show ?thesis by simp
    next
      case False
      then show ?thesis using Cons.prems Returns r keep by simp
    qed
  qed
qed

lemma ReconstructPrim_prim_table:
  assumes "ReconstructPrim ext sch cfg tbl T node psmap I = Returns (r, I')"
  shows "prim_table I' = prim_table I"
  using assms
  by (auto simp: ReconstructPrim_def Let_def dest: BuildPropertyMap_prim_table
      split: cxx.splits prod.splits bool.splits sum.splits)

lemma ReconstructPrimFromTypeName_prim_table:
  assumes "ReconstructPrimFromTypeName ext sch cfg tbl tyName prim_name node psmap meta I
             = Returns (r, I')"
  shows "prim_table I' = prim_table I"
  using assms
  by (auto simp: ReconstructPrimFromTypeName_def dest: ReconstructPrim_prim_table
      split: option.splits cxx.splits prod.splits)

lemma for_fields_prim_table:
  assumes "\<And>fv a I. prim_table (snd (body fv a I)) = prim_table I"
  shows "prim_table (snd (snd (for_fields body fvs a I))) = prim_table I"
proof (induction fvs arbitrary: a I)
  case Nil
  then show ?case by simp
next
  case (Cons fv fvs)
  show ?case
  proof (cases "body fv a I")
    case (Pair r I1)
    have "prim_table I1 = prim_table I"
      using assms [of fv a I] Pair by simp
    then show ?thesis
      using Pair Cons.IH by (cases r) simp_all
  qed
qed

lemma stage_double_prim_table:
  "prim_table (snd (stage_double ext name v I)) = prim_table I"
  by (simp add: stage_double_def split: option.splits)

lemma StageMeta_handlers_prim_table:
  "prim_table (snd (StageMeta_upAxis v mp I)) = prim_table I"
  "prim_table (snd (StageMeta_defaultPrim v mp I)) = prim_table I"
  "prim_table (snd (StageMeta_customLayerData v mp I)) = prim_table I"
  "prim_table (snd (StageMeta_primChildren v mp I)) = prim_table I"
  "prim_table (snd (StageMeta_documentation ext v mp I)) = prim_table I"
  "prim_table (snd (StageMeta_comment ext v mp I)) = prim_table I"
  by (simp_all add: StageMeta_upAxis_def StageMeta_defaultPrim_def
        StageMeta_customLayerData_def StageMeta_primChildren_def StageMeta_documentation_def
        StageMeta_comment_def split: option.splits)

lemma StageMeta_double_prim_table:
  "prim_table (snd (StageMeta_double ext name store v mp I)) = prim_table I"
proof (cases "stage_double ext name v I")
  case (Pair r I1)
  have "prim_table I1 = prim_table I"
    using stage_double_prim_table [of ext name v I] Pair by simp
  then show ?thesis
    using Pair by (cases r) (simp_all add: StageMeta_double_def)
qed

lemma StageMeta_field_prim_table:
  "prim_table (snd (StageMeta_field ext fv mp I)) = prim_table I"
  by (simp add: StageMeta_field_def Let_def StageMeta_handlers_prim_table
        StageMeta_double_prim_table)

lemma PrimFields_field_prim_table:
  "prim_table (snd (PrimFields_field ext fv pf I)) = prim_table I"
  by (simp add: PrimFields_field_def Let_def split: option.splits sum.splits)

lemma ReconstrcutStageMeta_prim_table:
  "ReconstrcutStageMeta ext fvs mp I = (ok, mp', I') \<Longrightarrow> prim_table I' = prim_table I"
  using for_fields_prim_table [of "StageMeta_field ext" fvs mp I, OF StageMeta_field_prim_table]
  by (simp add: ReconstrcutStageMeta_def)

lemma ParsePrimFields_prim_table:
  "ParsePrimFields ext fvs pf I = (ok, pf', I') \<Longrightarrow> prim_table I' = prim_table I"
  using for_fields_prim_table [of "PrimFields_field ext" fvs pf I, OF PrimFields_field_prim_table]
  by (simp add: ParsePrimFields_def)

lemma ReconstructPrimNode_root_prim_table:
  assumes "ReconstructPrimNode_root ext tbl current spec fvs stage I = Returns (ok, prim, I', stage')"
  shows "prim_table I' = prim_table I
         \<or> (prim_table I' = insert current (prim_table I) \<and> spec_type spec = SpecTypePseudoRoot)"
  using assms
  by (auto simp: ReconstructPrimNode_root_def dest: ReconstrcutStageMeta_prim_table
      split: cxx.splits option.splits if_splits prod.splits bool.splits)

lemma ReconstructPrimNode_def_prim_prim_table:
  assumes "ReconstructPrimNode_def_prim ext sch cfg tbl current node psmap elemPath pf stage I
             = Returns (ok, prim, I', stage')"
  shows "prim_table I' = prim_table I \<or> prim_table I' = insert current (prim_table I)"
  using assms
  by (auto simp: ReconstructPrimNode_def_prim_def Let_def
      dest: ReconstructPrimFromTypeName_prim_table
      split: cxx.splits option.splits if_splits prod.splits)

lemma ReconstructPrimNode_prim_other_prim_table:
  assumes "ParsePrimFields ext fvs PrimFields_init I = (True, pf, I1)"
    and "spec_type spec \<noteq> SpecTypePrim"
    and "ReconstructPrimNode_prim ext sch cfg tbl current node psmap spec fvs stage I
             = Returns (ok, prim, I', stage')"
  shows "prim_table I' = prim_table I1"
  using assms(3) assms(2) unfolding ReconstructPrimNode_prim_def assms(1)
  by (auto split: if_splits)

lemma ReconstructPrimNode_prim_Prim_prim_table:
  assumes "ParsePrimFields ext fvs PrimFields_init I = (True, pf, I1)"
    and "spec_type spec = SpecTypePrim"
    and "ReconstructPrimNode_prim ext sch cfg tbl current node psmap spec fvs stage I
             = Returns (ok, prim, I', stage')"
  shows "prim_table I' = prim_table I1 \<or> prim_table I' = insert current (prim_table I1)"
proof (cases "GetElemPath (elemPaths tbl) (uint32_of_int current)")
  case UndefinedBehaviour
  then show ?thesis
    using assms(3) unfolding ReconstructPrimNode_prim_def assms(1) by (auto simp: assms(2))
next
  case (Returns ep)
  show ?thesis
  proof (cases ep)
    case None
    then show ?thesis
      using assms(3) unfolding ReconstructPrimNode_prim_def assms(1) Returns
      by (auto simp: assms(2))
  next
    case (Some elemPath)
    show ?thesis
    proof (cases "pf_specifier pf")
      case None
      then show ?thesis
        using assms(3) unfolding ReconstructPrimNode_prim_def assms(1) Returns Some
        by (auto simp: assms(2))
    next
      case sp: (Some sp)
      show ?thesis
      proof (cases "sp = Def")
        case True
        then have "ReconstructPrimNode_def_prim ext sch cfg tbl current node psmap
                     elemPath pf stage I1 = Returns (ok, prim, I', stage')"
          using assms(3) unfolding ReconstructPrimNode_prim_def assms(1) Returns Some
          by (simp add: assms(2) sp)
        from ReconstructPrimNode_def_prim_prim_table [OF this]
        show ?thesis .
      next
        case False
        then show ?thesis
          using assms(3) unfolding ReconstructPrimNode_prim_def assms(1) Returns Some
          by (auto simp: assms(2) sp split: if_splits)
      qed
    qed
  qed
qed

lemma ReconstructPrimNode_prim_prim_table:
  assumes "ReconstructPrimNode_prim ext sch cfg tbl current node psmap spec fvs stage I
             = Returns (ok, prim, I', stage')"
  shows "prim_table I' = prim_table I
         \<or> (prim_table I' = insert current (prim_table I) \<and> spec_type spec = SpecTypePrim)"
proof (cases "ParsePrimFields ext fvs PrimFields_init I")
  case (fields okf pf I1)
  have keep: "prim_table I1 = prim_table I"
    using ParsePrimFields_prim_table [OF fields] .
  show ?thesis
  proof (cases okf)
    case False
    then have "I' = PushError ''Failed to parse Prim fields.'' I1"
      using assms fields by (simp add: ReconstructPrimNode_prim_def)
    then show ?thesis using keep by simp
  next
    case True
    then have parsed: "ParsePrimFields ext fvs PrimFields_init I = (True, pf, I1)"
      using fields by simp
    show ?thesis
    proof (cases "spec_type spec = SpecTypePrim")
      case False
      from ReconstructPrimNode_prim_other_prim_table [OF parsed False assms] keep
      show ?thesis by simp
    next
      case True
      from ReconstructPrimNode_prim_Prim_prim_table [OF parsed True assms] keep True
      show ?thesis by simp
    qed
  qed
qed
lemma ReconstructPrimNode_prim_table:
  assumes "ReconstructPrimNode ext sch cfg tbl parent current level psmap stage I
             = Returns (ok, prim, I', stage')"
  shows "prim_table I' = prim_table I
         \<or> (prim_table I' = insert current (prim_table I)
            \<and> marker_ok (specs tbl) psmap current)"
proof (cases "psmap (uint32_of_int current)")
  case None
  then show ?thesis
    using assms by (auto simp: ReconstructPrimNode_def split: cxx.splits)
next
  case (Some si)
  show ?thesis
  proof (cases "unat si < length (specs tbl)")
    case False
    then show ?thesis
      using assms Some by (auto simp: ReconstructPrimNode_def split: cxx.splits)
  next
    case True
    let ?spec = "specs tbl ! unat si"
    have ty: "spec_type_of (specs tbl) psmap current = Some (spec_type ?spec)"
      using Some True by (simp add: spec_type_of_def)
    from assms obtain node where node: "vector_at (nodes tbl) (nat current) = Returns node"
      by (cases "vector_at (nodes tbl) (nat current)") (auto simp: ReconstructPrimNode_def)
    show ?thesis
    proof (cases "live_fieldsets tbl (fieldset_index ?spec)")
      case None
      then show ?thesis
        using assms Some True node
        by (auto simp: ReconstructPrimNode_def Let_def split: if_splits)
    next
      case (Some fvs)
      note live = this
      consider
        (same) "prim_table I' = prim_table I"
        | (root) "current = 0"
            "ReconstructPrimNode_root ext tbl current ?spec fvs stage I
               = Returns (ok, prim, I', stage')"
        | (prim) "current \<noteq> 0"
            "ReconstructPrimNode_prim ext sch cfg tbl current node psmap ?spec fvs stage I
               = Returns (ok, prim, I', stage')"
        using assms \<open>psmap (uint32_of_int current) = Some si\<close> True node live
        by (auto simp: ReconstructPrimNode_def Let_def split: if_splits)
      then show ?thesis
      proof cases
        case same
        then show ?thesis by simp
      next
        case root
        from ReconstructPrimNode_root_prim_table [OF root(2)] ty root(1)
        show ?thesis by (auto simp: marker_ok_def)
      next
        case prim
        from ReconstructPrimNode_prim_prim_table [OF prim(2)] ty prim(1)
        show ?thesis by (auto simp: marker_ok_def)
      qed
    qed
  qed
qed

lemma for_children_invariant:
  assumes "for_children body cs s = Returns (ok, s')"
    and "Q s"
    and "\<And>c t ok' t'. c \<in> set cs \<Longrightarrow> Q t \<Longrightarrow> body c t = Returns (ok', t') \<Longrightarrow> Q t'"
  shows "Q s'"
  using assms
proof (induction cs arbitrary: s)
  case Nil
  then show ?case by simp
next
  case (Cons c cs)
  show ?case
  proof (cases "body c s")
    case UndefinedBehaviour
    then show ?thesis using Cons.prems(1) by simp
  next
    case (Returns p)
    obtain ok1 s1 where p: "p = (ok1, s1)" by (cases p)
    have q1: "Q s1"
      using Cons.prems(3) [of c s ok1 s1] Cons.prems(2) Returns p by simp
    show ?thesis
    proof (cases ok1)
      case True
      then have "for_children body cs s1 = Returns (ok, s')"
        using Cons.prems(1) Returns p by simp
      then show ?thesis
      proof (rule Cons.IH [OF _ q1])
        fix c' t ok' t'
        assume "c' \<in> set cs" "Q t" "body c' t = Returns (ok', t')"
        then show "Q t'" using Cons.prems(3) [of c' t ok' t'] by simp
      qed
    next
      case False
      then show ?thesis using Cons.prems(1) Returns p q1 by simp
    qed
  qed
qed

lemma attach_reader [simp]: "fst (snd (attach parent prim w)) = fst (snd w)"
  by (simp add: attach_def Let_def split: option.splits)

lemma ReconstructPrimRecursively_prim_table:
  assumes "ReconstructPrimRecursively ext sch cfg tbl psmap parent current level w
             = Returns (ok, w')"
  shows "\<forall>n \<in> prim_table (fst (snd w')).
           n \<in> prim_table (fst (snd w)) \<or> marker_ok (specs tbl) psmap n"
  using assms
proof (induction ext sch cfg tbl psmap parent current level w arbitrary: ok w'
       rule: ReconstructPrimRecursively.induct)
  case (1 ext sch cfg tbl psmap parent current level w)
  let ?Q = "\<lambda>t :: 'a walk. \<forall>n \<in> prim_table (fst (snd t)).
              n \<in> prim_table (fst (snd w)) \<or> marker_ok (specs tbl) psmap n"
  note run = "1.prems" [unfolded ReconstructPrimRecursively.simps
                          [of ext sch cfg tbl psmap parent current level w]]
  show ?case
  proof (cases "level > sint (kMaxPrimNestLevel cfg)
                \<or> current < 0 \<or> current \<ge> int_of_size_t (length (nodes tbl))")
    case True
    then show ?thesis
      using run by (auto simp: Let_def split: if_splits)
  next
    case False
    then have lvl: "\<not> level > sint (kMaxPrimNestLevel cfg)"
      and rng: "\<not> (current < 0 \<or> current \<ge> int_of_size_t (length (nodes tbl)))"
      by auto
    show ?thesis
    proof (cases "ReconstructPrimNode ext sch cfg tbl parent current level psmap
                    (snd (snd w)) (fst (snd w))")
      case UndefinedBehaviour
      then show ?thesis using run lvl rng by (simp add: Let_def)
    next
      case (Returns x1)
      obtain okn prim I1 stage1 where x1: "x1 = (okn, prim, I1, stage1)"
        by (cases x1) auto
      have q1: "?Q (prim, I1, stage1)"
        using ReconstructPrimNode_prim_table [OF Returns [unfolded x1]] by auto
      show ?thesis
      proof (cases okn)
        case False
        then show ?thesis
          using run lvl rng Returns x1 q1 by (auto simp: Let_def)
      next
        case True
        from run lvl rng Returns x1 True obtain node where
          node: "vector_at (nodes tbl) (nat current) = Returns node"
          by (cases "vector_at (nodes tbl) (nat current)") (auto simp: Let_def)
        let ?body = "\<lambda>child cw.
                       if level = 2147483647 then UndefinedBehaviour
                       else ReconstructPrimRecursively ext sch cfg tbl psmap current
                              (int_of_size_t child) (level + 1) cw"
        from run lvl rng Returns x1 True node obtain okc s2 where
          loop: "for_children ?body (GetChildren node) (prim, I1, stage1) = Returns (okc, s2)"
          by (cases "for_children ?body (GetChildren node) (prim, I1, stage1)")
            (auto simp: Let_def)
        have step: "?Q t'" if "c \<in> set (GetChildren node)" "?Q t" "?body c t = Returns (ok', t')"
          for c t ok' t'
        proof -
          from that(3) have ne: "level \<noteq> 2147483647"
            and call: "ReconstructPrimRecursively ext sch cfg tbl psmap current
                         (int_of_size_t c) (level + 1) t = Returns (ok', t')"
            by (auto split: if_splits)
          have "\<forall>n \<in> prim_table (fst (snd t')).
                  n \<in> prim_table (fst (snd t)) \<or> marker_ok (specs tbl) psmap n"
            using lvl rng Returns x1 True node that(1) ne call
            by (intro "1.IH" [where c = c and t = t and ok = ok' and w' = t'
                                and ?x1.0 = x1 and x1a = node]) auto
          then show ?thesis using that(2) by blast
        qed
        have q2: "?Q s2"
          by (rule for_children_invariant [where Q = ?Q, OF loop q1]) (rule step)
        obtain prim2 I2 stage2 where s2: "s2 = (prim2, I2, stage2)" by (cases s2) auto
        show ?thesis
          using run lvl rng Returns x1 True node loop s2 q2
          by (cases okc) (auto simp: Let_def)
      qed
    qed
  qed
qed

subsection \<open>The scene with a Prim under a \<open>class\<close>\<close>

lemma scene_tables:
  "\<lparr>nodes = GetNodes crate_def_under_class, specs = GetSpecs crate_def_under_class,
    paths = GetPaths crate_def_under_class, elemPaths = GetElemPaths crate_def_under_class,
    live_fieldsets = GetLiveFieldSets crate_def_under_class\<rparr> = tables_def_under_class"
  by (simp add: crate_def_under_class_def)

lemma scene_psmap:
  "build_path_index_to_spec_index_map (specs tables_def_under_class) 0 Map.empty
     = Some psmap_identity_3"
  by (simp add: tables_def_under_class_def psmap_identity_3_def fun_eq_iff)

lemma scene_sizes:
  "int_of_size_t (length (nodes tables_def_under_class)) = 3"
  "int_of_size_t (Suc 0) = 1" "int_of_size_t 2 = 2"
  "sint (kMaxPrimNestLevel sample_config) = 256"
  by (simp_all add: int_of_size_t_small tables_def_under_class_def sample_config_def)

lemma scene_nodes:
  "vector_at (nodes tables_def_under_class) 0 = Returns \<lparr>GetChildren = [1]\<rparr>"
  "vector_at (nodes tables_def_under_class) (Suc 0) = Returns \<lparr>GetChildren = [2]\<rparr>"
  "vector_at (nodes tables_def_under_class) 2 = Returns \<lparr>GetChildren = []\<rparr>"
  by (simp_all add: vector_at_def tables_def_under_class_def)

lemma scene_class_xform_fields:
  "ParsePrimFields sample_externals class_xform_fields PrimFields_init I =
     (True, PrimFields_init\<lparr>pf_typeName := Some ''Xform'', pf_specifier := Some Class\<rparr>, I)"
  by (simp add: ParsePrimFields_def class_xform_fields_def PrimFields_field_def
        get_Specifier_def get_token_def Let_def PrimFields_init_def)

lemma scene_root:
  "ReconstructPrimNode sample_externals sample_schemas sample_config tables_def_under_class
     (- 1) 0 0 psmap_identity_3 Stage_empty Impl_init
   = Returns (True, None, Impl_init\<lparr>prim_table := {0}\<rparr>, Stage_empty)"
  by (simp add: ReconstructPrimNode_def ReconstructPrimNode_root_def vector_at_def
        tables_def_under_class_def psmap_identity_3_def uint32_of_int_def GetElemPath_def
        sample_config_def sample_stage_meta_empty Impl_init_def Let_def)

lemma scene_c:
  "ReconstructPrimNode sample_externals sample_schemas sample_config tables_def_under_class
     0 1 1 psmap_identity_3 Stage_empty (Impl_init\<lparr>prim_table := {0}\<rparr>)
   = Returns (True, None, Impl_after_class, Stage_empty)"
proof -
  have spec: "psmap_identity_3 (uint32_of_int 1) = Some 1"
    "specs tables_def_under_class ! unat (1 :: 32 word)
       = \<lparr>path_index = 1, fieldset_index = 1, spec_type = SpecTypePrim\<rparr>"
    "length (specs tables_def_under_class) = 3"
    "live_fieldsets tables_def_under_class 1 = Some class_xform_fields"
    "GetElemPath (elemPaths tables_def_under_class) (uint32_of_int 1)
       = Returns (Some (path_of ''c'' []))"
    by (simp_all add: psmap_identity_3_def uint32_of_int_def tables_def_under_class_def
          GetElemPath_def vector_at_def)
  have "ReconstructPrimNode_prim sample_externals sample_schemas sample_config
          tables_def_under_class 1 \<lparr>GetChildren = [2]\<rparr> psmap_identity_3
          \<lparr>path_index = 1, fieldset_index = 1, spec_type = SpecTypePrim\<rparr> class_xform_fields
          Stage_empty (Impl_init\<lparr>prim_table := {0}\<rparr>)
        = Returns (True, None, Impl_after_class, Stage_empty)"
    by (simp add: ReconstructPrimNode_prim_def scene_class_xform_fields spec
          Impl_after_class_def class_warning_def Impl_init_def PushWarn_def)
  then show ?thesis
    by (simp add: ReconstructPrimNode_def vector_at_def tables_def_under_class_def
          psmap_identity_3_def uint32_of_int_def class_xform_fields_def
          sample_config_def Impl_init_def Let_def)
qed

lemma scene_x:
  "ReconstructPrimNode sample_externals sample_schemas sample_config tables_def_under_class
     1 2 2 psmap_identity_3 Stage_empty Impl_after_class
   = Returns (True, Some (xform_prim ''x''), Impl_after_scene, Stage_empty)"
proof -
  have spec: "psmap_identity_3 (uint32_of_int 2) = Some 2"
    "specs tables_def_under_class ! unat (2 :: 32 word)
       = \<lparr>path_index = 2, fieldset_index = 2, spec_type = SpecTypePrim\<rparr>"
    "length (specs tables_def_under_class) = 3"
    "live_fieldsets tables_def_under_class 2 = Some def_xform_fields"
    "GetElemPath (elemPaths tables_def_under_class) (uint32_of_int 2)
       = Returns (Some (path_of ''x'' []))"
    by (simp_all add: psmap_identity_3_def uint32_of_int_def tables_def_under_class_def
          GetElemPath_def vector_at_def)
  have typed: "ReconstructPrimFromTypeName sample_externals sample_schemas sample_config
                 tables_def_under_class ''Xform'' ''x'' \<lparr>GetChildren = []\<rparr> psmap_identity_3
                 PrimMeta_default I
               = Returns (Some (Prim \<lparr>tp_type = Xform, tp_value = (), tp_meta = PrimMeta_default,
                                       tp_name = ''x''\<rparr> Path_default []), I)" for I
  proof -
    have "ReconstructPrim sample_externals sample_schemas sample_config
            tables_def_under_class Xform \<lparr>GetChildren = []\<rparr> psmap_identity_3 I
          = Returns (Some (), I)"
      by (simp add: ReconstructPrim_def sample_schemas_def)
    then show ?thesis
      by (simp add: ReconstructPrimFromTypeName_def sample_find_xform)
  qed
  have valid: "ValidatePrimName sample_externals ''x''"
    by (simp add: sample_externals_def)
  have "ReconstructPrimNode_prim sample_externals sample_schemas sample_config
          tables_def_under_class 2 \<lparr>GetChildren = []\<rparr> psmap_identity_3
          \<lparr>path_index = 2, fieldset_index = 2, spec_type = SpecTypePrim\<rparr> def_xform_fields
          Stage_empty Impl_after_class
        = Returns (True, Some (xform_prim ''x''), Impl_after_scene, Stage_empty)"
  proof -
    have meta: "pf_primMeta PrimFields_init = PrimMeta_default"
      and ty: "pf_typeName PrimFields_init = None"
      by (simp_all add: PrimFields_init_def)
    have name: "prim_part (path_of ''x'' []) = ''x''"
      by (simp add: path_of_def)
    show ?thesis
      by (simp add: ReconstructPrimNode_prim_def sample_def_xform_fields spec
            ReconstructPrimNode_def_prim_def meta name valid typed xform_prim_def Let_def
            Impl_after_class_def Impl_after_scene_def)
  qed
  then show ?thesis
    by (simp add: ReconstructPrimNode_def vector_at_def tables_def_under_class_def
          psmap_identity_3_def uint32_of_int_def def_xform_fields_def
          sample_config_def Impl_after_class_def Let_def)
qed

lemma scene_walk_x:
  "ReconstructPrimRecursively sample_externals sample_schemas sample_config
     tables_def_under_class psmap_identity_3 1 2 2 (None, Impl_after_class, Stage_empty)
   = Returns (True, None, Impl_after_scene, Stage_empty)"
  by (subst ReconstructPrimRecursively.simps)
    (simp add: scene_sizes scene_nodes scene_x attach_def Let_def)

lemma scene_walk_c:
  "ReconstructPrimRecursively sample_externals sample_schemas sample_config
     tables_def_under_class psmap_identity_3 0 1 1
     (None, Impl_init\<lparr>prim_table := {0}\<rparr>, Stage_empty)
   = Returns (True, None, Impl_after_scene, Stage_empty)"
  by (subst ReconstructPrimRecursively.simps)
    (simp add: scene_sizes scene_nodes scene_c scene_walk_x attach_def Let_def)

lemma scene_walk_root:
  "ReconstructPrimRecursively sample_externals sample_schemas sample_config
     tables_def_under_class psmap_identity_3 (- 1) 0 0 (None, Impl_init, Stage_empty)
   = Returns (True, None, Impl_after_scene, Stage_empty)"
  by (subst ReconstructPrimRecursively.simps)
    (simp add: scene_sizes scene_nodes scene_root scene_walk_c attach_def Let_def)

lemma scene_stage:
  "ReconstructStage sample_externals sample_schemas sample_config crate_def_under_class
     Stage_empty Impl_init
   = Returns (True, Impl_after_scene, Stage_empty)"
proof -
  have n: "NumNodes crate_def_under_class \<noteq> 0"
    and s: "GetSpecs crate_def_under_class = specs tables_def_under_class"
    by (simp_all add: crate_def_under_class_def)
  have e: "Stage_empty\<lparr>root_prims := []\<rparr> = Stage_empty"
    by (simp add: Stage_empty_def)
  show ?thesis
    unfolding ReconstructStage_def scene_tables
    by (simp add: n scene_psmap scene_walk_root e Let_def)
qed

subsection \<open>The marker table after a reconstruction\<close>

text \<open>
  C9.  Whatever \<open>ReconstructStage\<close> returns, every node index it has added to
  \<open>_prim_table\<close> is either node 0, whose spec type has been checked to be PseudoRoot,
  or another node whose spec type is Prim: no other spec type inserts into the table.
\<close>

theorem ReconstructStage_prim_table_markers:
  assumes "ReconstructStage ext sch cfg crate_reader stage I = Returns (ok, I', stage')"
  shows "\<forall>n \<in> prim_table I'.
           n \<in> prim_table I
         \<or> (n = 0 \<and> node_spec_type crate_reader n = Some SpecTypePseudoRoot)
         \<or> (n \<noteq> 0 \<and> node_spec_type crate_reader n = Some SpecTypePrim)"
proof (cases "NumNodes crate_reader = 0")
  case True
  then have "I' = PushWarn ''Empty scene.'' I"
    using assms by (simp add: ReconstructStage_def)
  then show ?thesis by simp
next
  case nodes: False
  let ?tbl = "\<lparr>nodes = GetNodes crate_reader, specs = GetSpecs crate_reader,
               paths = GetPaths crate_reader, elemPaths = GetElemPaths crate_reader,
               live_fieldsets = GetLiveFieldSets crate_reader\<rparr>"
  show ?thesis
  proof (cases "build_path_index_to_spec_index_map (GetSpecs crate_reader) 0 Map.empty")
    case None
    then have "I' = PushError ''Multiple PathIndex found in Crate data.'' I"
      using assms nodes by (simp add: ReconstructStage_def)
    then show ?thesis by simp
  next
    case (Some psmap)
    have ty: "node_spec_type crate_reader n = spec_type_of (GetSpecs crate_reader) psmap n" for n
      using Some by (simp add: node_spec_type_def)
    from assms nodes Some obtain okr w where
      run: "ReconstructPrimRecursively ext sch cfg ?tbl psmap (- 1) 0 0
              (None, I, stage\<lparr>root_prims := []\<rparr>) = Returns (okr, w)"
      and fin: "prim_table I' = prim_table (fst (snd w))"
      by (cases "ReconstructPrimRecursively ext sch cfg ?tbl psmap (- 1) 0 0
                   (None, I, stage\<lparr>root_prims := []\<rparr>)")
        (auto simp: ReconstructStage_def split: bool.splits)
    from ReconstructPrimRecursively_prim_table [OF run]
    have "\<forall>n \<in> prim_table (fst (snd w)).
            n \<in> prim_table I \<or> marker_ok (GetSpecs crate_reader) psmap n"
      by simp
    then show ?thesis
      unfolding fin ty marker_ok_def by (auto split: if_splits)
  qed
qed

theorem ReconstructStage_prim_table_markers_witness:
  "ReconstructStage sample_externals sample_schemas sample_config crate_def_under_class
     Stage_empty Impl_init
   = Returns (True, Impl_after_scene, Stage_empty)
   \<and> prim_table Impl_init = {}
   \<and> prim_table Impl_after_scene = {2, 0}
   \<and> node_spec_type crate_def_under_class 0 = Some SpecTypePseudoRoot
   \<and> node_spec_type crate_def_under_class 2 = Some SpecTypePrim"
  using scene_stage ReconstructStage_prim_table_markers [OF scene_stage]
  by (simp add: Impl_init_def Impl_after_scene_def)

subsection \<open>A Prim without a parent Prim\<close>

text \<open>
  C10.  \<open>ReconstructPrimRecursively\<close> is called for a node under a parent that is not
  node 0 and has produced no Prim (\<open>rootPrim\<close> is \<open>nullptr\<close>), \<open>ReconstructPrimNode\<close>
  reconstructs a Prim for the node, and the call returns \<open>true\<close>.  Then the state the
  call returns is the state the loop over the children of the node has left: no Prim
  has been given to a parent, the root Prims of the stage are as that loop left them,
  and so are the errors and the warnings of the reader.
\<close>

theorem ReconstructPrimRecursively_discards_prim_without_parent:
  assumes "parent \<noteq> 0"
    and "fst w = None"
    and "ReconstructPrimNode ext sch cfg tbl parent current level psmap (snd (snd w))
           (fst (snd w)) = Returns (True, Some prim, I1, stage1)"
    and "ReconstructPrimRecursively ext sch cfg tbl psmap parent current level w
           = Returns (True, w')"
  shows "\<exists>node prim2 I2 stage2.
           vector_at (nodes tbl) (nat current) = Returns node
         \<and> for_children
             (\<lambda>child cw.
                if level = 2147483647 then UndefinedBehaviour
                else ReconstructPrimRecursively ext sch cfg tbl psmap current
                       (int_of_size_t child) (level + 1) cw)
             (GetChildren node) (Some prim, I1, stage1) = Returns (True, prim2, I2, stage2)
         \<and> w' = (None, I2, stage2)"
proof -
  let ?body = "\<lambda>child cw.
                 if level = 2147483647 then UndefinedBehaviour
                 else ReconstructPrimRecursively ext sch cfg tbl psmap current
                        (int_of_size_t child) (level + 1) cw"
  note run = assms(4) [unfolded ReconstructPrimRecursively.simps
                         [of ext sch cfg tbl psmap parent current level w]]
  have lvl: "\<not> level > sint (kMaxPrimNestLevel cfg)"
    and rng: "\<not> (current < 0 \<or> current \<ge> int_of_size_t (length (nodes tbl)))"
    using run by (auto simp: Let_def split: if_splits)
  from run lvl rng assms(3) obtain node where
    node: "vector_at (nodes tbl) (nat current) = Returns node"
    by (cases "vector_at (nodes tbl) (nat current)") (auto simp: Let_def)
  from run lvl rng assms(3) node obtain okc s2 where
    loop: "for_children ?body (GetChildren node) (Some prim, I1, stage1) = Returns (okc, s2)"
    by (cases "for_children ?body (GetChildren node) (Some prim, I1, stage1)")
      (auto simp: Let_def)
  obtain prim2 I2 stage2 where s2: "s2 = (prim2, I2, stage2)"
    by (cases s2) auto
  have okc: okc
    using run lvl rng assms(3) node loop s2 by (cases okc) (auto simp: Let_def)
  have "w' = attach parent prim2 (fst w, I2, stage2)"
    using run lvl rng assms(3) node loop s2 okc by (auto simp: Let_def)
  then have "w' = (None, I2, stage2)"
    using assms(1,2) by (simp add: attach_def Let_def split: option.splits)
  then show ?thesis
    using node loop s2 okc by auto
qed

theorem ReconstructPrimRecursively_discards_prim_without_parent_witness:
  "(1 :: int) \<noteq> 0
   \<and> ReconstructPrimNode sample_externals sample_schemas sample_config tables_def_under_class
       0 1 1 psmap_identity_3 Stage_empty (Impl_init\<lparr>prim_table := {0}\<rparr>)
     = Returns (True, None, Impl_after_class, Stage_empty)
   \<and> ReconstructPrimNode sample_externals sample_schemas sample_config tables_def_under_class
       1 2 2 psmap_identity_3 Stage_empty Impl_after_class
     = Returns (True, Some (xform_prim ''x''), Impl_after_scene, Stage_empty)
   \<and> ReconstructPrimRecursively sample_externals sample_schemas sample_config
       tables_def_under_class psmap_identity_3 1 2 2 (None, Impl_after_class, Stage_empty)
     = Returns (True, None, Impl_after_scene, Stage_empty)
   \<and> vector_at (nodes tables_def_under_class) 2 = Returns \<lparr>GetChildren = []\<rparr>
   \<and> root_prims Stage_empty = []
   \<and> err Impl_after_scene = []
   \<and> warn Impl_after_scene = warn Impl_after_class"
proof -
  have a: "(1 :: int) \<noteq> 0" by simp
  have b: "fst (None :: unit Prim option, Impl_after_class, Stage_empty :: unit Stage) = None"
    by simp
  have c: "ReconstructPrimNode sample_externals sample_schemas sample_config
             tables_def_under_class 1 2 2 psmap_identity_3
             (snd (snd (None :: unit Prim option, Impl_after_class, Stage_empty)))
             (fst (snd (None :: unit Prim option, Impl_after_class, Stage_empty :: unit Stage)))
           = Returns (True, Some (xform_prim ''x''), Impl_after_scene, Stage_empty)"
    using scene_x by simp
  from ReconstructPrimRecursively_discards_prim_without_parent [OF a b c scene_walk_x]
  have "vector_at (nodes tables_def_under_class) 2 = Returns \<lparr>GetChildren = []\<rparr>"
    by (auto simp: scene_nodes)
  then show ?thesis
    using scene_c scene_x scene_walk_x
    by (simp add: Stage_empty_def Impl_after_scene_def Impl_after_class_def)
qed

end
